theory Spec2Isabelle
  imports Complex_Main "HOL-Library.Word" "HOL-Library.Multiset"
begin

section \<open>Conventions of the embedding\<close>

text \<open>
  The Go sources are embedded function by function, keeping their names.

  \<^item> \<open>int64\<close> is \<open>64 word\<close>: \<open>+\<close> and \<open>*\<close> wrap around, \<open>sint\<close> reads the
    signed value, \<open><s\<close> is Go's \<open><\<close> on \<open>int64\<close>.
  \<^item> \<open>float64\<close> is idealised as \<open>real\<close>: rounding, infinities and NaN are not
    modelled. Decimal literals of the source are the exact decimals, and a product such
    as \<open>x * 0.7\<close> is the exact product, which can differ from Go's in the last unit
    before a conversion to \<open>int64\<close>.
  \<^item> A pointer that may be \<open>nil\<close> is an \<open>option\<close>. The elements of \<open>Children\<close>
    are taken to be non-nil: \<open>Clone\<close> dereferences every child, and both
    optimizers clone their input before anything else.
  \<^item> A run-time panic and an \<open>error\<close> return are both values of the type
    \<open>error\<close>; the constructor \<open>Panic\<close> is the panic.
  \<^item> The package-level variable \<open>idCounter\<close> is passed in and returned.
\<close>

type_synonym int64 = "64 word"

datatype error =
    Panic                  \<comment> \<open>run-time panic (index out of range)\<close>
  | AlreadyExists string   \<comment> \<open>\<open>table %s already exists\<close>\<close>
  | NotFound string        \<comment> \<open>\<open>table %s not found\<close>\<close>
  | NilPlan                \<comment> \<open>\<open>cannot optimize nil plan\<close>, \<open>cannot simulate nil plan\<close>\<close>
  | RuleError string error \<comment> \<open>\<open>error applying rule %s: %w\<close>\<close>
  | UnsupportedNode string \<comment> \<open>\<open>unsupported node type for simulation: %s\<close>\<close>

section \<open>logical\_plan/plan.go\<close>

text \<open>A value of Go's \<open>interface{}\<close> as the JSON decoder or the constructors produce it.\<close>

datatype GoValue =
    VNil
  | VBool bool
  | VInt int64
  | VFloat real
  | VString string
  | VList "GoValue list"
  | VMap "(string \<times> GoValue) list"

definition NodeTypeScan :: string where "NodeTypeScan = ''scan''"
definition NodeTypeFilter :: string where "NodeTypeFilter = ''filter''"
definition NodeTypeProject :: string where "NodeTypeProject = ''project''"
definition NodeTypeJoin :: string where "NodeTypeJoin = ''join''"
definition NodeTypeAggregate :: string where "NodeTypeAggregate = ''aggregate''"
definition NodeTypeSort :: string where "NodeTypeSort = ''sort''"
definition NodeTypeLimit :: string where "NodeTypeLimit = ''limit''"
definition NodeTypeUnion :: string where "NodeTypeUnion = ''union''"
definition NodeTypeSubquery :: string where "NodeTypeSubquery = ''subquery''"

definition JoinTypeInner :: string where "JoinTypeInner = ''inner''"
definition JoinTypeLeft :: string where "JoinTypeLeft = ''left''"
definition JoinTypeRight :: string where "JoinTypeRight = ''right''"
definition JoinTypeFull :: string where "JoinTypeFull = ''full''"
definition JoinTypeCross :: string where "JoinTypeCross = ''cross''"

text \<open>\<open>Args\<close> is a slice of values; a nil slice and an empty one are both \<open>[]\<close>.\<close>

datatype Expression = Expression
  (Type: string)
  (Value: GoValue)
  (Left: "Expression option")
  (Right: "Expression option")
  (Args: "Expression list")
  (DataType: string)

record Column =
  Table :: string
  Name :: string
  ColumnAlias :: string

record Predicate =
  PredExpression :: "Expression option"

record JoinCondition =
  CondLeft :: "Expression option"
  CondRight :: "Expression option"
  Operator :: string

record AggregateFunction =
  AggType :: string
  AggColumn :: "Expression option"
  AggAlias :: string

record OrderBy =
  OrderExpression :: "Expression option"
  Ascending :: bool

text \<open>
  The fields of \<open>LogicalPlan\<close> other than \<open>Children\<close>. \<open>Metadata\<close> is a Go map; every
  write to it in the sources is to the map of a node made by a constructor or by
  \<open>Clone\<close>, which is never nil.
\<close>

record PlanFields =
  ID :: string
  NodeType :: string
  TableName :: string
  Alias :: string
  Predicate :: "Predicate option"
  Projections :: "Column list"
  JoinType :: string
  JoinCondition :: "JoinCondition option"
  GroupBy :: "Column list"
  Aggregates :: "AggregateFunction list"
  OrderBy :: "OrderBy list"
  LimitCount :: "int64 option"
  OffsetCount :: "int64 option"
  EstimatedRows :: "int64 option"
  EstimatedCost :: "real option"
  Metadata :: "string \<rightharpoonup> GoValue"

datatype LogicalPlan = LogicalPlan (Fields: PlanFields) (Children: "LogicalPlan list")

text \<open>The zero value of the struct, which a composite literal starts from.\<close>

definition zeroFields :: PlanFields where
  "zeroFields = \<lparr> ID = [], NodeType = [], TableName = [], Alias = [],
     Predicate = None, Projections = [], JoinType = [], JoinCondition = None,
     GroupBy = [], Aggregates = [], OrderBy = [], LimitCount = None,
     OffsetCount = None, EstimatedRows = None, EstimatedCost = None,
     Metadata = Map.empty \<rparr>"

subsection \<open>generateID\<close>

text \<open>\<open>fmt.Sprintf("%d", n)\<close> for an \<open>int64\<close>: the decimal digits, with a minus sign.\<close>

fun decimal :: "nat \<Rightarrow> string" where
  "decimal n = (if n < 10 then [''0123456789'' ! n]
                else decimal (n div 10) @ [''0123456789'' ! (n mod 10)])"

declare decimal.simps [simp del]

definition Sprintf_d :: "int64 \<Rightarrow> string" where
  "Sprintf_d n = (if sint n < 0 then CHR ''-'' # decimal (nat (- sint n))
                  else decimal (nat (sint n)))"

definition generateID :: "int64 \<Rightarrow> string \<times> int64" where
  "generateID idCounter = (''node_'' @ Sprintf_d (idCounter + 1), idCounter + 1)"

subsection \<open>Constructors\<close>

definition NewScanNode :: "string \<Rightarrow> string \<Rightarrow> int64 \<Rightarrow> LogicalPlan \<times> int64" where
  "NewScanNode tableName alias c =
     (let (i, c') = generateID c in
      (LogicalPlan (zeroFields\<lparr> ID := i, NodeType := NodeTypeScan,
         TableName := tableName, Alias := alias \<rparr>) [], c'))"

definition NewFilterNode ::
  "LogicalPlan \<Rightarrow> Predicate option \<Rightarrow> int64 \<Rightarrow> LogicalPlan \<times> int64" where
  "NewFilterNode child predicate c =
     (let (i, c') = generateID c in
      (LogicalPlan (zeroFields\<lparr> ID := i, NodeType := NodeTypeFilter,
         Predicate := predicate \<rparr>) [child], c'))"

definition NewProjectNode ::
  "LogicalPlan \<Rightarrow> Column list \<Rightarrow> int64 \<Rightarrow> LogicalPlan \<times> int64" where
  "NewProjectNode child projections c =
     (let (i, c') = generateID c in
      (LogicalPlan (zeroFields\<lparr> ID := i, NodeType := NodeTypeProject,
         Projections := projections \<rparr>) [child], c'))"

definition NewJoinNode ::
  "LogicalPlan \<Rightarrow> LogicalPlan \<Rightarrow> string \<Rightarrow> JoinCondition option \<Rightarrow> int64
   \<Rightarrow> LogicalPlan \<times> int64" where
  "NewJoinNode left right joinType condition c =
     (let (i, c') = generateID c in
      (LogicalPlan (zeroFields\<lparr> ID := i, NodeType := NodeTypeJoin,
         JoinType := joinType, JoinCondition := condition \<rparr>) [left, right], c'))"

subsection \<open>Clone\<close>

fun cloneExpression :: "Expression \<Rightarrow> Expression" where
  "cloneExpression (Expression t v l r as d) =
     Expression t v (map_option cloneExpression l) (map_option cloneExpression r)
       (map cloneExpression as) d"

definition clonePredicate :: "Predicate option \<Rightarrow> Predicate option" where
  "clonePredicate p =
     (case p of None \<Rightarrow> None
      | Some q \<Rightarrow> Some \<lparr> PredExpression = map_option cloneExpression (PredExpression q) \<rparr>)"

definition cloneJoinCondition :: "JoinCondition option \<Rightarrow> JoinCondition option" where
  "cloneJoinCondition jc =
     (case jc of None \<Rightarrow> None
      | Some j \<Rightarrow> Some \<lparr> CondLeft = map_option cloneExpression (CondLeft j),
                         CondRight = map_option cloneExpression (CondRight j),
                         Operator = Operator j \<rparr>)"

text \<open>
  \<open>Clone\<close> draws the id of a node before it clones the node's children, left to right.
  \<open>CloneChildren\<close> is the loop over \<open>lp.Children\<close>.
\<close>

fun Clone :: "LogicalPlan \<Rightarrow> int64 \<Rightarrow> LogicalPlan \<times> int64"
  and CloneChildren :: "LogicalPlan list \<Rightarrow> int64 \<Rightarrow> LogicalPlan list \<times> int64" where
  "Clone (LogicalPlan f cs) c =
     (let (i, c1) = generateID c;
          (cs', c2) = CloneChildren cs c1
      in (LogicalPlan \<lparr> ID = i, NodeType = NodeType f, TableName = TableName f,
            Alias = Alias f,
            Predicate = clonePredicate (Predicate f),
            Projections = Projections f,
            JoinType = JoinType f,
            JoinCondition = cloneJoinCondition (JoinCondition f),
            GroupBy = GroupBy f, Aggregates = Aggregates f, OrderBy = OrderBy f,
            LimitCount = LimitCount f, OffsetCount = OffsetCount f,
            EstimatedRows = EstimatedRows f, EstimatedCost = EstimatedCost f,
            Metadata = Metadata f \<rparr> cs', c2))"
| "CloneChildren [] c = ([], c)"
| "CloneChildren (p # ps) c =
     (let (p', c1) = Clone p c;
          (ps', c2) = CloneChildren ps c1
      in (p' # ps', c2))"

section \<open>enumerator/enumerator.go: getPlanSignature\<close>

fun getPlanSignature :: "LogicalPlan \<Rightarrow> string" where
  "getPlanSignature (LogicalPlan f cs) =
     (NodeType f @ (if TableName f \<noteq> [] then '':'' @ TableName f else []))
     @ concat (map (\<lambda>child. ''('' @ getPlanSignature child @ '')'') cs)"

section \<open>catalog: the catalog manager\<close>

text \<open>
  The catalog keeps pointers to \<open>TableSchema\<close> structs, and a \<open>TableSchema\<close> holds its
  columns in a slice, that is a reference to a backing array. Both are mutated in place
  by \<open>UpdateTableStats\<close>, so both are modelled with explicit addresses: \<open>schemas\<close> is
  the part of the heap that holds the structs, \<open>columnArrays\<close> the part that holds the
  backing arrays of \<open>Columns\<close>. A slice is the address of its array and spans all of it
  (the sources never append to or reslice \<open>Columns\<close>); a nil slice is an address that
  holds the empty array. The mutex is not modelled: every operation is one atomic step.

  An operation that mutates the catalog returns the error (\<open>None\<close> is Go's \<open>nil\<close>)
  together with the catalog after the call.
\<close>

type_synonym addr = nat

record Bucket =
  LowerBound :: string
  UpperBound :: string
  Count :: int64
  Frequency :: real

record CatalogColumn =
  ColName :: string
  ColDataType :: string
  Nullable :: bool
  NDV :: "int64 option"
  MinValue :: "string option"
  MaxValue :: "string option"
  Histogram :: "Bucket list"
  NullCount :: "int64 option"

record Index =
  IndexName :: string
  IndexColumns :: "string list"
  Unique :: bool
  IndexType :: string

record TableSchema =
  SchemaName :: string
  Columns :: addr
  RowCount :: int64
  Indexes :: "Index list"
  SchemaMetadata :: "string \<rightharpoonup> string"

record CatalogManager =
  tables :: "string \<rightharpoonup> addr"
  schemas :: "addr \<Rightarrow> TableSchema"
  columnArrays :: "addr \<Rightarrow> CatalogColumn list"

definition zeroSchema :: TableSchema where
  "zeroSchema = \<lparr> SchemaName = [], Columns = 0, RowCount = 0, Indexes = [],
     SchemaMetadata = Map.empty \<rparr>"

definition NewCatalogManager :: CatalogManager where
  "NewCatalogManager =
     \<lparr> tables = Map.empty, schemas = (\<lambda>_. zeroSchema), columnArrays = (\<lambda>_. []) \<rparr>"

text \<open>\<open>AddTable\<close> takes a pointer to a schema and stores that pointer.\<close>

definition AddTable :: "CatalogManager \<Rightarrow> addr \<Rightarrow> error option \<times> CatalogManager" where
  "AddTable cm schema =
     (let name = SchemaName (schemas cm schema) in
      if tables cm name \<noteq> None then (Some (AlreadyExists name), cm)
      else (None, cm\<lparr> tables := (tables cm)(name \<mapsto> schema) \<rparr>))"

text \<open>\<open>tableCopy := *table\<close> copies the struct: the result is a new struct whose
  \<open>Columns\<close> is the same slice, so the same address, as the catalog's.\<close>

definition GetTable :: "CatalogManager \<Rightarrow> string \<Rightarrow> error + TableSchema" where
  "GetTable cm tableName =
     (case tables cm tableName of
        None \<Rightarrow> Inl (NotFound tableName)
      | Some table \<Rightarrow> (let tableCopy = schemas cm table in Inr tableCopy))"

text \<open>One iteration of the loop of \<open>UpdateTableStats\<close>, at index \<open>i\<close> of the array.\<close>

definition updateColumnAt ::
  "(string \<rightharpoonup> CatalogColumn) \<Rightarrow> nat \<Rightarrow> CatalogColumn list \<Rightarrow> CatalogColumn list" where
  "updateColumnAt columnStats i arr =
     (case columnStats (ColName (arr ! i)) of
        None \<Rightarrow> arr
      | Some stats \<Rightarrow>
          arr[i := (arr ! i)\<lparr> NDV := NDV stats, MinValue := MinValue stats,
                     MaxValue := MaxValue stats, Histogram := Histogram stats,
                     NullCount := NullCount stats \<rparr>])"

definition UpdateTableStats ::
  "CatalogManager \<Rightarrow> string \<Rightarrow> int64 \<Rightarrow> (string \<rightharpoonup> CatalogColumn)
   \<Rightarrow> error option \<times> CatalogManager" where
  "UpdateTableStats cm tableName rowCount columnStats =
     (case tables cm tableName of
        None \<Rightarrow> (Some (NotFound tableName), cm)
      | Some table \<Rightarrow>
          let t = schemas cm table;
              arr = columnArrays cm (Columns t)
          in (None,
              cm\<lparr> schemas := (schemas cm)(table := t\<lparr> RowCount := rowCount \<rparr>),
                  columnArrays := (columnArrays cm)
                    (Columns t := fold (updateColumnAt columnStats) [0..<length arr] arr) \<rparr>))"

text \<open>\<open>GetColumnStats\<close> returns a copy of the first column of that name.\<close>

definition GetColumnStats :: "CatalogManager \<Rightarrow> string \<Rightarrow> string \<Rightarrow> error + CatalogColumn" where
  "GetColumnStats cm tableName columnName =
     (case GetTable cm tableName of
        Inl e \<Rightarrow> Inl e
      | Inr table \<Rightarrow>
          (case find (\<lambda>col. ColName col = columnName) (columnArrays cm (Columns table)) of
             Some col \<Rightarrow> Inr col
           | None \<Rightarrow> Inl (NotFound columnName)))"

text \<open>The catalog's selectivity oracle. Its \<open>value\<close> argument is never read.\<close>

definition EstimateSelectivity ::
  "CatalogManager \<Rightarrow> string \<Rightarrow> string \<Rightarrow> string \<Rightarrow> error + real" where
  "EstimateSelectivity cm tableName columnName operator =
     (case GetColumnStats cm tableName columnName of
        Inl e \<Rightarrow> Inl e
      | Inr colStats \<Rightarrow>
          if operator = ''='' then
            (case NDV colStats of
               Some n \<Rightarrow> if 0 <s n then Inr (1 / real_of_int (sint n)) else Inr (1 / 10)
             | None \<Rightarrow> Inr (1 / 10))
          else if operator \<in> {''<'', ''>'', ''<='', ''>=''} then Inr (33 / 100)
          else if operator = ''LIKE'' then Inr (1 / 10)
          else Inr (1 / 2))"

section \<open>backend/cost\_model/cost\_model.go\<close>

text \<open>The conversions \<open>float64(n)\<close> and \<open>int64(x)\<close>. \<open>float64(n)\<close> is exact here, where
  Go rounds to 53 bits of mantissa: the two differ for magnitudes above \<open>2^53\<close>.
  \<open>int64(x)\<close> truncates towards zero; for an \<open>x\<close> outside the range of \<open>int64\<close>, where
  the result of Go's conversion depends on the platform, the value here is taken modulo
  \<open>2^64\<close>.\<close>

definition float64 :: "int64 \<Rightarrow> real" where
  "float64 n = real_of_int (sint n)"

definition toward_zero :: "real \<Rightarrow> int" where
  "toward_zero x = (if 0 \<le> x then \<lfloor>x\<rfloor> else \<lceil>x\<rceil>)"

definition int64_of :: "real \<Rightarrow> int64" where
  "int64_of x = word_of_int (toward_zero x)"

record CostEstimate =
  TotalCost :: real
  CPUCost :: real
  IOCost :: real
  NetworkCost :: real
  MemoryCost :: real
  Cardinality :: int64

definition zeroCost :: CostEstimate where
  "zeroCost = \<lparr> TotalCost = 0, CPUCost = 0, IOCost = 0, NetworkCost = 0,
     MemoryCost = 0, Cardinality = 0 \<rparr>"

record SimpleCostModel =
  SeqScanCostPerPage :: real
  RandomScanCostPerPage :: real
  CPUCostPerTuple :: real
  JoinCostFactor :: real
  SortCostFactor :: real
  HashCostFactor :: real

definition NewSimpleCostModel :: SimpleCostModel where
  "NewSimpleCostModel = \<lparr> SeqScanCostPerPage = 1, RandomScanCostPerPage = 4,
     CPUCostPerTuple = 1 / 100, JoinCostFactor = 3 / 2, SortCostFactor = 2,
     HashCostFactor = 6 / 5 \<rparr>"

text \<open>\<open>switch expr.Value\<close> compares an \<open>interface{}\<close> with string constants: a case is
  taken when the value is that string. The catalog argument is never read.\<close>

definition estimateSelectivity :: "Predicate option \<Rightarrow> CatalogManager \<Rightarrow> real" where
  "estimateSelectivity predicate catalogMgr =
     (case predicate of
        None \<Rightarrow> 1
      | Some p \<Rightarrow>
          (case PredExpression p of
             None \<Rightarrow> 1
           | Some expr \<Rightarrow>
               if Value expr = VString ''='' then 1 / 10
               else if Value expr \<in> {VString ''<'', VString ''>'', VString ''<='', VString ''>=''}
                 then 33 / 100
               else if Value expr = VString ''LIKE'' then 2 / 10
               else if Value expr = VString ''IN'' then 3 / 10
               else if Value expr = VString ''IS NULL'' then 5 / 100
               else if Value expr = VString ''IS NOT NULL'' then 95 / 100
               else 1 / 2))"

text \<open>\<open>Children[0]\<close> is read by a \<open>case\<close> on the list: where the source checks the
  length first, the empty list is that branch; where it does not, it is the panic.\<close>

fun EstimateCardinality :: "LogicalPlan \<Rightarrow> CatalogManager \<Rightarrow> error + int64" where
  "EstimateCardinality (LogicalPlan f cs) catalogMgr =
     (if NodeType f = NodeTypeScan then
        (case GetTable catalogMgr (TableName f) of
           Inl err \<Rightarrow> Inr 1000
         | Inr table \<Rightarrow> Inr (RowCount table))
      else if NodeType f = NodeTypeFilter then
        (case cs of
           [] \<Rightarrow> Inr 0
         | c0 # _ \<Rightarrow>
             (case EstimateCardinality c0 catalogMgr of
                Inl err \<Rightarrow> Inl err
              | Inr childCardinality \<Rightarrow>
                  Inr (int64_of (float64 childCardinality
                         * estimateSelectivity (Predicate f) catalogMgr))))
      else if NodeType f = NodeTypeProject then
        (case cs of
           [] \<Rightarrow> Inr 0
         | c0 # _ \<Rightarrow> EstimateCardinality c0 catalogMgr)
      else if NodeType f = NodeTypeJoin then
        (case cs of
           c0 # c1 # _ \<Rightarrow>
             (case EstimateCardinality c0 catalogMgr of
                Inl err \<Rightarrow> Inl err
              | Inr leftCard \<Rightarrow>
                  (case EstimateCardinality c1 catalogMgr of
                     Inl err \<Rightarrow> Inl err
                   | Inr rightCard \<Rightarrow>
                       if JoinType f = JoinTypeCross then Inr (leftCard * rightCard)
                       else if JoinType f = JoinTypeInner then
                         Inr (int64_of (float64 (leftCard * rightCard) * (1 / 10)))
                       else if JoinType f = JoinTypeLeft then Inr leftCard
                       else if JoinType f = JoinTypeRight then Inr rightCard
                       else if JoinType f = JoinTypeFull then Inr (leftCard + rightCard)
                       else Inr (int64_of (float64 (leftCard * rightCard) * (1 / 10)))))
         | _ \<Rightarrow> Inr 0)
      else if NodeType f = NodeTypeAggregate then
        (case cs of
           [] \<Rightarrow> Inr 1
         | c0 # _ \<Rightarrow>
             (case EstimateCardinality c0 catalogMgr of
                Inl err \<Rightarrow> Inl err
              | Inr childCard \<Rightarrow>
                  if length (GroupBy f) = 0 then Inr 1
                  else Inr (int64_of (float64 childCard * (1 / 10)))))
      else if NodeType f = NodeTypeSort then
        (case cs of
           [] \<Rightarrow> Inr 0
         | c0 # _ \<Rightarrow> EstimateCardinality c0 catalogMgr)
      else if NodeType f = NodeTypeLimit then
        (case LimitCount f of
           Some limit \<Rightarrow>
             (case cs of
                [] \<Rightarrow> Inl Panic
              | c0 # _ \<Rightarrow>
                  (case EstimateCardinality c0 catalogMgr of
                     Inl err \<Rightarrow> Inl err
                   | Inr childCard \<Rightarrow>
                       if childCard <s limit then Inr childCard else Inr limit))
         | None \<Rightarrow>
             (case cs of
                [] \<Rightarrow> Inr 0
              | c0 # _ \<Rightarrow> EstimateCardinality c0 catalogMgr))
      else Inr 1000)"

text \<open>\<open>card, _ := cm.EstimateCardinality(...)\<close>: an error is dropped and the value
  returned with it (always 0) is used; a panic is not an error and unwinds.\<close>

definition dropError :: "error + int64 \<Rightarrow> error + int64" where
  "dropError r = (case r of Inl err \<Rightarrow> (if err = Panic then Inl Panic else Inr 0)
                  | Inr v \<Rightarrow> Inr v)"

definition estimateScanCost ::
  "SimpleCostModel \<Rightarrow> LogicalPlan \<Rightarrow> CatalogManager \<Rightarrow> error + CostEstimate" where
  "estimateScanCost cm plan catalogMgr =
     (case GetTable catalogMgr (TableName (Fields plan)) of
        Inl err \<Rightarrow>
          Inr (zeroCost\<lparr> TotalCost := 1000, IOCost := 800, CPUCost := 200,
                         Cardinality := 1000 \<rparr>)
      | Inr table \<Rightarrow>
          let pages0 = float64 (RowCount table) / 100;
              pages = (if pages0 < 1 then 1 else pages0);
              ioCost = pages * SeqScanCostPerPage cm;
              cpuCost = float64 (RowCount table) * CPUCostPerTuple cm
          in Inr (zeroCost\<lparr> TotalCost := ioCost + cpuCost, IOCost := ioCost,
                              CPUCost := cpuCost, Cardinality := RowCount table \<rparr>))"

text \<open>
  \<open>EstimateCost\<close> dispatches on the node type to one function per operator, each of
  which calls \<open>EstimateCost\<close> on the children: a mutual recursion.
\<close>

fun EstimateCost :: "SimpleCostModel \<Rightarrow> LogicalPlan \<Rightarrow> CatalogManager \<Rightarrow> error + CostEstimate"
  and estimateFilterCost ::
    "SimpleCostModel \<Rightarrow> LogicalPlan \<Rightarrow> CatalogManager \<Rightarrow> error + CostEstimate"
  and estimateProjectCost ::
    "SimpleCostModel \<Rightarrow> LogicalPlan \<Rightarrow> CatalogManager \<Rightarrow> error + CostEstimate"
  and estimateJoinCost ::
    "SimpleCostModel \<Rightarrow> LogicalPlan \<Rightarrow> CatalogManager \<Rightarrow> error + CostEstimate"
  and estimateAggregateCost ::
    "SimpleCostModel \<Rightarrow> LogicalPlan \<Rightarrow> CatalogManager \<Rightarrow> error + CostEstimate"
  and estimateSortCost ::
    "SimpleCostModel \<Rightarrow> LogicalPlan \<Rightarrow> CatalogManager \<Rightarrow> error + CostEstimate"
  and estimateLimitCost ::
    "SimpleCostModel \<Rightarrow> LogicalPlan \<Rightarrow> CatalogManager \<Rightarrow> error + CostEstimate"
where
  "EstimateCost cm (LogicalPlan f cs) catalogMgr =
     (if NodeType f = NodeTypeScan then estimateScanCost cm (LogicalPlan f cs) catalogMgr
      else if NodeType f = NodeTypeFilter then estimateFilterCost cm (LogicalPlan f cs) catalogMgr
      else if NodeType f = NodeTypeProject then estimateProjectCost cm (LogicalPlan f cs) catalogMgr
      else if NodeType f = NodeTypeJoin then estimateJoinCost cm (LogicalPlan f cs) catalogMgr
      else if NodeType f = NodeTypeAggregate then
        estimateAggregateCost cm (LogicalPlan f cs) catalogMgr
      else if NodeType f = NodeTypeSort then estimateSortCost cm (LogicalPlan f cs) catalogMgr
      else if NodeType f = NodeTypeLimit then estimateLimitCost cm (LogicalPlan f cs) catalogMgr
      else
        (case dropError (EstimateCardinality (LogicalPlan f cs) catalogMgr) of
           Inl err \<Rightarrow> Inl err
         | Inr cardinality \<Rightarrow>
             Inr (zeroCost\<lparr> TotalCost := float64 cardinality * CPUCostPerTuple cm,
                    CPUCost := float64 cardinality * CPUCostPerTuple cm,
                    Cardinality := cardinality \<rparr>)))"
| "estimateFilterCost cm (LogicalPlan f cs) catalogMgr =
     (case cs of
        [] \<Rightarrow> Inr zeroCost
      | c0 # _ \<Rightarrow>
          (case EstimateCost cm c0 catalogMgr of
             Inl err \<Rightarrow> Inl err
           | Inr childCost \<Rightarrow>
               let selectivity = estimateSelectivity (Predicate f) catalogMgr;
                   outputCardinality = int64_of (float64 (Cardinality childCost) * selectivity);
                   filterCpuCost = float64 (Cardinality childCost) * CPUCostPerTuple cm * (1 / 2)
               in Inr \<lparr> TotalCost = TotalCost childCost + filterCpuCost,
                        CPUCost = CPUCost childCost + filterCpuCost,
                        IOCost = IOCost childCost,
                        NetworkCost = NetworkCost childCost,
                        MemoryCost = MemoryCost childCost,
                        Cardinality = outputCardinality \<rparr>))"
| "estimateProjectCost cm (LogicalPlan f cs) catalogMgr =
     (case cs of
        [] \<Rightarrow> Inr zeroCost
      | c0 # _ \<Rightarrow>
          (case EstimateCost cm c0 catalogMgr of
             Inl err \<Rightarrow> Inl err
           | Inr childCost \<Rightarrow>
               let projectionCpuCost =
                     float64 (Cardinality childCost) * CPUCostPerTuple cm * (1 / 10)
               in Inr \<lparr> TotalCost = TotalCost childCost + projectionCpuCost,
                        CPUCost = CPUCost childCost + projectionCpuCost,
                        IOCost = IOCost childCost,
                        NetworkCost = NetworkCost childCost,
                        MemoryCost = MemoryCost childCost,
                        Cardinality = Cardinality childCost \<rparr>))"
| "estimateJoinCost cm (LogicalPlan f cs) catalogMgr =
     (case cs of
        c0 # c1 # _ \<Rightarrow>
          (case EstimateCost cm c0 catalogMgr of
             Inl err \<Rightarrow> Inl err
           | Inr leftCost \<Rightarrow>
               (case EstimateCost cm c1 catalogMgr of
                  Inl err \<Rightarrow> Inl err
                | Inr rightCost \<Rightarrow>
                    let joinCpuCost = float64 (Cardinality leftCost * Cardinality rightCost)
                          * CPUCostPerTuple cm * JoinCostFactor cm
                    in (case dropError (EstimateCardinality (LogicalPlan f cs) catalogMgr) of
                          Inl err \<Rightarrow> Inl err
                        | Inr outputCardinality \<Rightarrow>
                            Inr \<lparr> TotalCost = TotalCost leftCost + TotalCost rightCost + joinCpuCost,
                                  CPUCost = CPUCost leftCost + CPUCost rightCost + joinCpuCost,
                                  IOCost = IOCost leftCost + IOCost rightCost,
                                  NetworkCost = NetworkCost leftCost + NetworkCost rightCost,
                                  MemoryCost = MemoryCost leftCost + MemoryCost rightCost,
                                  Cardinality = outputCardinality \<rparr>)))
      | _ \<Rightarrow> Inr zeroCost)"
| "estimateAggregateCost cm (LogicalPlan f cs) catalogMgr =
     (case cs of
        [] \<Rightarrow> Inr zeroCost
      | c0 # _ \<Rightarrow>
          (case EstimateCost cm c0 catalogMgr of
             Inl err \<Rightarrow> Inl err
           | Inr childCost \<Rightarrow>
               let aggCpuCost = float64 (Cardinality childCost) * CPUCostPerTuple cm
                     * HashCostFactor cm
               in (case dropError (EstimateCardinality (LogicalPlan f cs) catalogMgr) of
                     Inl err \<Rightarrow> Inl err
                   | Inr outputCardinality \<Rightarrow>
                       Inr \<lparr> TotalCost = TotalCost childCost + aggCpuCost,
                             CPUCost = CPUCost childCost + aggCpuCost,
                             IOCost = IOCost childCost,
                             NetworkCost = NetworkCost childCost,
                             MemoryCost = MemoryCost childCost
                               + float64 (Cardinality childCost) * (1 / 10),
                             Cardinality = outputCardinality \<rparr>)))"
| "estimateSortCost cm (LogicalPlan f cs) catalogMgr =
     (case cs of
        [] \<Rightarrow> Inr zeroCost
      | c0 # _ \<Rightarrow>
          (case EstimateCost cm c0 catalogMgr of
             Inl err \<Rightarrow> Inl err
           | Inr childCost \<Rightarrow>
               if Cardinality childCost \<le>s 1 then Inr childCost
               else
                 let sortCpuCost = float64 (Cardinality childCost)
                       * log 2 (float64 (Cardinality childCost))
                       * CPUCostPerTuple cm * SortCostFactor cm
                 in Inr \<lparr> TotalCost = TotalCost childCost + sortCpuCost,
                          CPUCost = CPUCost childCost + sortCpuCost,
                          IOCost = IOCost childCost,
                          NetworkCost = NetworkCost childCost,
                          MemoryCost = MemoryCost childCost
                            + float64 (Cardinality childCost) * (2 / 10),
                          Cardinality = Cardinality childCost \<rparr>))"
| "estimateLimitCost cm (LogicalPlan f cs) catalogMgr =
     (case cs of
        [] \<Rightarrow> Inr zeroCost
      | c0 # _ \<Rightarrow>
          (case EstimateCost cm c0 catalogMgr of
             Inl err \<Rightarrow> Inl err
           | Inr childCost \<Rightarrow>
               (case dropError (EstimateCardinality (LogicalPlan f cs) catalogMgr) of
                  Inl err \<Rightarrow> Inl err
                | Inr outputCardinality \<Rightarrow>
                    (case LimitCount f of
                       Some limit \<Rightarrow>
                         if limit <s Cardinality childCost then
                           let reductionFactor =
                                 float64 limit / float64 (Cardinality childCost)
                           in Inr \<lparr> TotalCost = TotalCost childCost * reductionFactor,
                                    CPUCost = CPUCost childCost * reductionFactor,
                                    IOCost = IOCost childCost * reductionFactor,
                                    NetworkCost = NetworkCost childCost * reductionFactor,
                                    MemoryCost = MemoryCost childCost * reductionFactor,
                                    Cardinality = outputCardinality \<rparr>
                         else Inr childCost
                     | None \<Rightarrow> Inr childCost))))"

section \<open>backend/optimizer/rule\_based.go\<close>

text \<open>The text of a step: \<open>"Applied %s rule"\<close> with the rule's name, or
  \<open>"Applied cost-based optimization (final cost: %.2f)"\<close> with the cost; the second is
  kept as the number it prints.\<close>

datatype Description = AppliedRule string | AppliedCostBased real

record OptimizationStep =
  RuleName :: string
  BeforePlan :: LogicalPlan
  AfterPlan :: LogicalPlan
  Description :: Description

record OptimizationStatistics =
  TotalRulesApplied :: int
  EstimatedImprovement :: real

text \<open>\<open>AfterPlan\<close> is stored here as the plan at the moment of the step. In Go it is a
  pointer into the plan that later rules go on rewriting in place.\<close>

record ExplainResult =
  AppliedRules :: "string list"
  Steps :: "OptimizationStep list"
  Statistics :: OptimizationStatistics

definition emptyExplain :: ExplainResult where
  "emptyExplain = \<lparr> AppliedRules = [], Steps = [],
     Statistics = \<lparr> TotalRulesApplied = 0, EstimatedImprovement = 0 \<rparr> \<rparr>"

definition canPushFilterBelowProject :: "Predicate option \<Rightarrow> LogicalPlan \<Rightarrow> bool" where
  "canPushFilterBelowProject predicate projectNode = True"

definition canPushFilterToJoinSides :: "Predicate option \<Rightarrow> LogicalPlan \<Rightarrow> bool \<times> bool" where
  "canPushFilterToJoinSides predicate joinNode = (False, False)"

definition isRedundantProjection :: "Column list \<Rightarrow> bool" where
  "isRedundantProjection projections =
     (length projections = 1 \<and> Name (projections ! 0) = ''*'')"

subsection \<open>PredicatePushdownRule\<close>

text \<open>
  The first half of \<open>applyRecursive\<close>, up to the loop over the children: the plan to
  go on with, the flag \<open>changed\<close>, and the id counter. \<open>child.Children[0]\<close> is read with
  no check of the length.
\<close>

definition pushdownHere ::
  "LogicalPlan \<Rightarrow> int64 \<Rightarrow> error + (LogicalPlan \<times> bool \<times> int64)" where
  "pushdownHere plan c =
     (if NodeType (Fields plan) = NodeTypeFilter \<and> length (Children plan) = 1 then
        (let child = Children plan ! 0 in
         if NodeType (Fields child) = NodeTypeProject then
           (if canPushFilterBelowProject (Predicate (Fields plan)) child then
              (case Children child of
                 [] \<Rightarrow> Inl Panic
               | grandchild # _ \<Rightarrow>
                   let (newFilter, c1) = NewFilterNode grandchild (Predicate (Fields plan)) c;
                       (newProject, c2) = NewProjectNode newFilter (Projections (Fields child)) c1
                   in Inr (newProject, True, c2))
            else Inr (plan, False, c))
         else if NodeType (Fields child) = NodeTypeJoin then
           (let (leftPushable, rightPushable) =
                  canPushFilterToJoinSides (Predicate (Fields plan)) child
            in if leftPushable \<or> rightPushable then Inr (plan, True, c)
               else Inr (plan, False, c))
         else Inr (plan, False, c))
      else Inr (plan, False, c))"

lemma pushdownHere_size:
  "pushdownHere plan c = Inr (plan', changed, c')
   \<Longrightarrow> size_list size (Children plan') < size plan"
  by (cases plan; cases "Children plan"; cases "hd (Children plan)")
     (auto simp: pushdownHere_def NewFilterNode_def NewProjectNode_def generateID_def
                 canPushFilterToJoinSides_def Let_def
           split: if_splits list.splits prod.splits)

text \<open>\<open>PredicatePushdown_children\<close> is the loop \<open>for i, child := range plan.Children\<close>:
  a child is replaced only when its own call reports a change.\<close>

function PredicatePushdown_applyRecursive ::
    "LogicalPlan \<Rightarrow> int64 \<Rightarrow> error + (LogicalPlan \<times> bool \<times> int64)"
  and PredicatePushdown_children ::
    "LogicalPlan list \<Rightarrow> int64 \<Rightarrow> error + (LogicalPlan list \<times> bool \<times> int64)"
where
  "PredicatePushdown_applyRecursive plan c =
     (case pushdownHere plan c of
        Inl err \<Rightarrow> Inl err
      | Inr (plan', changed, c') \<Rightarrow>
          (case PredicatePushdown_children (Children plan') c' of
             Inl err \<Rightarrow> Inl err
           | Inr (children', childrenChanged, c'') \<Rightarrow>
               Inr (LogicalPlan (Fields plan') children', changed \<or> childrenChanged, c'')))"
| "PredicatePushdown_children [] c = Inr ([], False, c)"
| "PredicatePushdown_children (child # rest) c =
     (case PredicatePushdown_applyRecursive child c of
        Inl err \<Rightarrow> Inl err
      | Inr (optimizedChild, childChanged, c') \<Rightarrow>
          (case PredicatePushdown_children rest c' of
             Inl err \<Rightarrow> Inl err
           | Inr (rest', restChanged, c'') \<Rightarrow>
               Inr ((if childChanged then optimizedChild else child) # rest',
                    childChanged \<or> restChanged, c'')))"
  by pat_completeness auto
termination
  by (relation "measure (\<lambda>x. case x of
         Inl (plan, c) \<Rightarrow> 2 * size plan + 1
       | Inr (plans, c) \<Rightarrow> 2 * size_list size plans)")
     (auto dest: pushdownHere_size)

subsection \<open>ProjectionPushdownRule\<close>

definition projectionHere :: "LogicalPlan \<Rightarrow> LogicalPlan \<times> bool" where
  "projectionHere plan =
     (if NodeType (Fields plan) = NodeTypeProject \<and> length (Children plan) = 1 then
        (let child = Children plan ! 0 in
         if isRedundantProjection (Projections (Fields plan)) then (child, True)
         else (plan, False))
      else (plan, False))"

lemma projectionHere_size:
  "projectionHere plan = (plan', changed) \<Longrightarrow> size_list size (Children plan') < size plan"
  by (cases plan; cases "Children plan"; cases "hd (Children plan)")
     (auto simp: projectionHere_def Let_def split: if_splits)

function ProjectionPushdown_applyRecursive :: "LogicalPlan \<Rightarrow> error + (LogicalPlan \<times> bool)"
  and ProjectionPushdown_children :: "LogicalPlan list \<Rightarrow> error + (LogicalPlan list \<times> bool)"
where
  "ProjectionPushdown_applyRecursive plan =
     (case projectionHere plan of
        (plan', changed) \<Rightarrow>
          (case ProjectionPushdown_children (Children plan') of
             Inl err \<Rightarrow> Inl err
           | Inr (children', childrenChanged) \<Rightarrow>
               Inr (LogicalPlan (Fields plan') children', changed \<or> childrenChanged)))"
| "ProjectionPushdown_children [] = Inr ([], False)"
| "ProjectionPushdown_children (child # rest) =
     (case ProjectionPushdown_applyRecursive child of
        Inl err \<Rightarrow> Inl err
      | Inr (optimizedChild, childChanged) \<Rightarrow>
          (case ProjectionPushdown_children rest of
             Inl err \<Rightarrow> Inl err
           | Inr (rest', restChanged) \<Rightarrow>
               Inr ((if childChanged then optimizedChild else child) # rest',
                    childChanged \<or> restChanged)))"
  by pat_completeness auto
termination
  by (relation "measure (\<lambda>x. case x of
         Inl plan \<Rightarrow> 2 * size plan + 1
       | Inr plans \<Rightarrow> 2 * size_list size plans)")
     (auto dest: projectionHere_size [OF sym])

subsection \<open>The rule set and Optimize\<close>

datatype OptimizationRule =
    PredicatePushdownRule
  | ProjectionPushdownRule
  | ConstantFoldingRule
  | JoinReorderingRule

fun Rule_Name :: "OptimizationRule \<Rightarrow> string" where
  "Rule_Name PredicatePushdownRule = ''PredicatePushdown''"
| "Rule_Name ProjectionPushdownRule = ''ProjectionPushdown''"
| "Rule_Name ConstantFoldingRule = ''ConstantFolding''"
| "Rule_Name JoinReorderingRule = ''JoinReordering''"

fun Rule_Apply ::
  "OptimizationRule \<Rightarrow> LogicalPlan \<Rightarrow> int64 \<Rightarrow> error + (LogicalPlan \<times> bool \<times> int64)" where
  "Rule_Apply PredicatePushdownRule plan c = PredicatePushdown_applyRecursive plan c"
| "Rule_Apply ProjectionPushdownRule plan c =
     (case ProjectionPushdown_applyRecursive plan of
        Inl err \<Rightarrow> Inl err
      | Inr (plan', changed) \<Rightarrow> Inr (plan', changed, c))"
| "Rule_Apply ConstantFoldingRule plan c = Inr (plan, False, c)"
| "Rule_Apply JoinReorderingRule plan c = Inr (plan, False, c)"

record RuleBasedOptimizer =
  rules :: "OptimizationRule list"

definition NewRuleBasedOptimizer :: RuleBasedOptimizer where
  "NewRuleBasedOptimizer = \<lparr> rules = [PredicatePushdownRule, ProjectionPushdownRule,
     ConstantFoldingRule, JoinReorderingRule] \<rparr>"

text \<open>
  A failed call returns the error together with the explain trace so far, or with no
  trace (\<open>nil\<close>); a panic unwinds with no trace.

  The state of the two loops of \<open>Optimize\<close> is \<open>currentPlan\<close>, \<open>explain\<close>,
  \<open>totalRulesApplied\<close>, \<open>changed\<close> and the id counter. \<open>rulesLoop\<close> is
  \<open>for _, rule := range rbo.rules\<close>; \<open>iterationLoop n\<close> is the outer loop with \<open>n\<close>
  iterations left.
\<close>

type_synonym failure = "error \<times> ExplainResult option"

fun rulesLoop ::
  "OptimizationRule list \<Rightarrow> LogicalPlan \<Rightarrow> ExplainResult \<Rightarrow> int \<Rightarrow> bool \<Rightarrow> int64
   \<Rightarrow> failure + (LogicalPlan \<times> ExplainResult \<times> int \<times> bool \<times> int64)" where
  "rulesLoop [] currentPlan explain totalRulesApplied changed c =
     Inr (currentPlan, explain, totalRulesApplied, changed, c)"
| "rulesLoop (rule # rest) currentPlan explain totalRulesApplied changed c =
     (let (beforePlan, c1) = Clone currentPlan c in
      case Rule_Apply rule currentPlan c1 of
        Inl err \<Rightarrow>
          if err = Panic then Inl (Panic, None)
          else Inl (RuleError (Rule_Name rule) err, Some explain)
      | Inr (optimizedPlan, ruleApplied, c2) \<Rightarrow>
          if ruleApplied then
            rulesLoop rest optimizedPlan
              (explain\<lparr> AppliedRules := AppliedRules explain @ [Rule_Name rule],
                 Steps := Steps explain @
                   [\<lparr> RuleName = Rule_Name rule, BeforePlan = beforePlan,
                      AfterPlan = optimizedPlan,
                      Description = AppliedRule (Rule_Name rule) \<rparr>] \<rparr>)
              (totalRulesApplied + 1) True c2
          else rulesLoop rest currentPlan explain totalRulesApplied changed c2)"

fun iterationLoop ::
  "nat \<Rightarrow> OptimizationRule list \<Rightarrow> LogicalPlan \<Rightarrow> ExplainResult \<Rightarrow> int \<Rightarrow> int64
   \<Rightarrow> failure + (LogicalPlan \<times> ExplainResult \<times> int \<times> int64)" where
  "iterationLoop 0 rs currentPlan explain totalRulesApplied c =
     Inr (currentPlan, explain, totalRulesApplied, c)"
| "iterationLoop (Suc n) rs currentPlan explain totalRulesApplied c =
     (case rulesLoop rs currentPlan explain totalRulesApplied False c of
        Inl e \<Rightarrow> Inl e
      | Inr (currentPlan', explain', totalRulesApplied', changed, c') \<Rightarrow>
          if \<not> changed then Inr (currentPlan', explain', totalRulesApplied', c')
          else iterationLoop n rs currentPlan' explain' totalRulesApplied' c')"

definition RuleBased_Optimize ::
  "RuleBasedOptimizer \<Rightarrow> LogicalPlan option \<Rightarrow> int64
   \<Rightarrow> failure + (LogicalPlan \<times> ExplainResult \<times> int64)" where
  "RuleBased_Optimize rbo plan c =
     (case plan of
        None \<Rightarrow> Inl (NilPlan, None)
      | Some p \<Rightarrow>
          let (currentPlan, c1) = Clone p c;
              maxIterations = 10
          in (case iterationLoop maxIterations (rules rbo) currentPlan emptyExplain 0 c1 of
                Inl e \<Rightarrow> Inl e
              | Inr (currentPlan', explain, totalRulesApplied, c2) \<Rightarrow>
                  Inr (currentPlan',
                       explain\<lparr> Statistics := (Statistics explain)
                         \<lparr> TotalRulesApplied := totalRulesApplied \<rparr> \<rparr>,
                       c2)))"

definition OptimizeWithRules ::
  "LogicalPlan option \<Rightarrow> int64 \<Rightarrow> failure + (LogicalPlan \<times> ExplainResult \<times> int64)" where
  "OptimizeWithRules plan c = RuleBased_Optimize NewRuleBasedOptimizer plan c"

section \<open>backend/optimizer/cost\_based.go\<close>

record CostBasedOptimizer =
  costModel :: SimpleCostModel
  catalogMgr :: CatalogManager

definition NewCostBasedOptimizer :: "CatalogManager \<Rightarrow> CostBasedOptimizer" where
  "NewCostBasedOptimizer cat = \<lparr> costModel = NewSimpleCostModel, catalogMgr = cat \<rparr>"

subsection \<open>optimizeJoinOrder\<close>

text \<open>
  The first half of \<open>optimizeJoinOrder\<close>, up to the loop over the children. The result
  is \<open>(returned, plan, c)\<close>: \<open>returned\<close> says that the function has left through one of
  its two \<open>return plan\<close> on an error of the cost model (an error, not a panic).
\<close>

definition joinOrderHere ::
  "CostBasedOptimizer \<Rightarrow> LogicalPlan \<Rightarrow> int64 \<Rightarrow> error + (bool \<times> LogicalPlan \<times> int64)" where
  "joinOrderHere cbo plan c =
     (if NodeType (Fields plan) = NodeTypeJoin \<and> length (Children plan) = 2 then
        (let leftChild = Children plan ! 0;
             rightChild = Children plan ! 1
         in case EstimateCost (costModel cbo) plan (catalogMgr cbo) of
              Inl err \<Rightarrow> (if err = Panic then Inl Panic else Inr (True, plan, c))
            | Inr currentCost \<Rightarrow>
                let (swappedPlan, c1) =
                      NewJoinNode rightChild leftChild (JoinType (Fields plan))
                        (JoinCondition (Fields plan)) c
                in (case EstimateCost (costModel cbo) swappedPlan (catalogMgr cbo) of
                      Inl err \<Rightarrow> (if err = Panic then Inl Panic else Inr (True, plan, c1))
                    | Inr swappedCost \<Rightarrow>
                        if TotalCost swappedCost < TotalCost currentCost
                        then Inr (False, swappedPlan, c1)
                        else Inr (False, plan, c1)))
      else Inr (False, plan, c))"

lemma joinOrderHere_size:
  "joinOrderHere cbo plan c = Inr (returned, plan', c')
   \<Longrightarrow> size_list size (Children plan') < size plan"
  by (cases plan; cases "Children plan"; cases "tl (Children plan)")
     (auto simp: joinOrderHere_def NewJoinNode_def generateID_def Let_def
           split: if_splits sum.splits prod.splits)

function optimizeJoinOrder ::
    "CostBasedOptimizer \<Rightarrow> LogicalPlan \<Rightarrow> int64 \<Rightarrow> error + (LogicalPlan \<times> int64)"
  and optimizeJoinOrder_children ::
    "CostBasedOptimizer \<Rightarrow> LogicalPlan list \<Rightarrow> int64 \<Rightarrow> error + (LogicalPlan list \<times> int64)"
where
  "optimizeJoinOrder cbo plan c =
     (case joinOrderHere cbo plan c of
        Inl err \<Rightarrow> Inl err
      | Inr (returned, plan', c') \<Rightarrow>
          if returned then Inr (plan', c')
          else
            (case optimizeJoinOrder_children cbo (Children plan') c' of
               Inl err \<Rightarrow> Inl err
             | Inr (children', c'') \<Rightarrow> Inr (LogicalPlan (Fields plan') children', c'')))"
| "optimizeJoinOrder_children cbo [] c = Inr ([], c)"
| "optimizeJoinOrder_children cbo (child # rest) c =
     (case optimizeJoinOrder cbo child c of
        Inl err \<Rightarrow> Inl err
      | Inr (child', c') \<Rightarrow>
          (case optimizeJoinOrder_children cbo rest c' of
             Inl err \<Rightarrow> Inl err
           | Inr (rest', c'') \<Rightarrow> Inr (child' # rest', c'')))"
  by pat_completeness auto
termination
  by (relation "measure (\<lambda>x. case x of
         Inl (cbo, plan, c) \<Rightarrow> 2 * size plan + 1
       | Inr (cbo, plans, c) \<Rightarrow> 2 * size_list size plans)")
     (auto dest: joinOrderHere_size)

subsection \<open>selectPhysicalOperators\<close>

text \<open>
  What \<open>selectPhysicalOperators\<close> writes into the node's own \<open>Metadata\<close>, before it
  goes into the children. The join case reads \<open>Children[0]\<close> and \<open>Children[1]\<close> with no
  check of the length.
\<close>

definition stampPhysicalOperator ::
  "CostBasedOptimizer \<Rightarrow> LogicalPlan \<Rightarrow> error + PlanFields" where
  "stampPhysicalOperator cbo plan =
     (let f = Fields plan; m = Metadata f in
      if NodeType f = NodeTypeJoin then
        (case Children plan of
           c0 # c1 # _ \<Rightarrow>
             (case dropError (EstimateCardinality c0 (catalogMgr cbo)) of
                Inl err \<Rightarrow> Inl err
              | Inr leftCard \<Rightarrow>
                  (case dropError (EstimateCardinality c1 (catalogMgr cbo)) of
                     Inl err \<Rightarrow> Inl err
                   | Inr rightCard \<Rightarrow>
                       let m1 =
                             (if leftCard <s 1000 \<and> rightCard <s 1000 then
                                m(''physical_operator'' \<mapsto> VString ''nested_loop_join'')
                              else if leftCard <s rightCard then
                                m(''physical_operator'' \<mapsto> VString ''hash_join'',
                                  ''build_side'' \<mapsto> VString ''left'')
                              else
                                m(''physical_operator'' \<mapsto> VString ''hash_join'',
                                  ''build_side'' \<mapsto> VString ''right''));
                           m2 =
                             (if 1000000 <s leftCard \<and> 1000000 <s rightCard then
                                m1(''physical_operator'' \<mapsto> VString ''sort_merge_join'')
                              else m1)
                       in Inr (f\<lparr> Metadata := m2 \<rparr>)))
         | _ \<Rightarrow> Inl Panic)
      else if NodeType f = NodeTypeAggregate then
        (case dropError (EstimateCardinality plan (catalogMgr cbo)) of
           Inl err \<Rightarrow> Inl err
         | Inr cardinality \<Rightarrow>
             if length (GroupBy f) = 0 then
               Inr (f\<lparr> Metadata := m(''physical_operator'' \<mapsto> VString ''hash_aggregate'') \<rparr>)
             else if cardinality <s 10000 then
               Inr (f\<lparr> Metadata := m(''physical_operator'' \<mapsto> VString ''hash_aggregate'') \<rparr>)
             else
               Inr (f\<lparr> Metadata := m(''physical_operator'' \<mapsto> VString ''sort_aggregate'') \<rparr>))
      else if NodeType f = NodeTypeSort then
        (case dropError (EstimateCardinality plan (catalogMgr cbo)) of
           Inl err \<Rightarrow> Inl err
         | Inr cardinality \<Rightarrow>
             if cardinality <s 100000 then
               Inr (f\<lparr> Metadata := m(''physical_operator'' \<mapsto> VString ''quicksort'') \<rparr>)
             else
               Inr (f\<lparr> Metadata := m(''physical_operator'' \<mapsto> VString ''external_sort'') \<rparr>))
      else if NodeType f = NodeTypeScan then
        Inr (f\<lparr> Metadata := m(''scan_type'' \<mapsto> VString ''sequential'') \<rparr>)
      else Inr f)"

fun selectPhysicalOperators :: "CostBasedOptimizer \<Rightarrow> LogicalPlan \<Rightarrow> error + LogicalPlan"
  and selectPhysicalOperators_children ::
    "CostBasedOptimizer \<Rightarrow> LogicalPlan list \<Rightarrow> error + LogicalPlan list"
where
  "selectPhysicalOperators cbo (LogicalPlan f cs) =
     (case stampPhysicalOperator cbo (LogicalPlan f cs) of
        Inl err \<Rightarrow> Inl err
      | Inr f' \<Rightarrow>
          (case selectPhysicalOperators_children cbo cs of
             Inl err \<Rightarrow> Inl err
           | Inr cs' \<Rightarrow> Inr (LogicalPlan f' cs')))"
| "selectPhysicalOperators_children cbo [] = Inr []"
| "selectPhysicalOperators_children cbo (child # rest) =
     (case selectPhysicalOperators cbo child of
        Inl err \<Rightarrow> Inl err
      | Inr child' \<Rightarrow>
          (case selectPhysicalOperators_children cbo rest of
             Inl err \<Rightarrow> Inl err
           | Inr rest' \<Rightarrow> Inr (child' # rest')))"

definition applyCostBasedOptimizations ::
  "CostBasedOptimizer \<Rightarrow> LogicalPlan \<Rightarrow> int64 \<Rightarrow> error + (LogicalPlan \<times> int64)" where
  "applyCostBasedOptimizations cbo plan c =
     (let (optimizedPlan, c1) = Clone plan c in
      case optimizeJoinOrder cbo optimizedPlan c1 of
        Inl err \<Rightarrow> Inl err
      | Inr (optimizedPlan', c2) \<Rightarrow>
          (case selectPhysicalOperators cbo optimizedPlan' of
             Inl err \<Rightarrow> Inl err
           | Inr optimizedPlan'' \<Rightarrow> Inr (optimizedPlan'', c2)))"

subsection \<open>propagateCostEstimates\<close>

text \<open>The children are stamped first, in place; the node's own estimate is then computed
  and stamped when the cost model returns no error.\<close>

fun propagateCostEstimates :: "CostBasedOptimizer \<Rightarrow> LogicalPlan \<Rightarrow> error + LogicalPlan"
  and propagateCostEstimates_children ::
    "CostBasedOptimizer \<Rightarrow> LogicalPlan list \<Rightarrow> error + LogicalPlan list"
where
  "propagateCostEstimates cbo (LogicalPlan f cs) =
     (case propagateCostEstimates_children cbo cs of
        Inl err \<Rightarrow> Inl err
      | Inr cs' \<Rightarrow>
          (case EstimateCost (costModel cbo) (LogicalPlan f cs') (catalogMgr cbo) of
             Inl err \<Rightarrow> (if err = Panic then Inl Panic else Inr (LogicalPlan f cs'))
           | Inr cost \<Rightarrow>
               Inr (LogicalPlan (f\<lparr> EstimatedCost := Some (TotalCost cost),
                                     EstimatedRows := Some (Cardinality cost) \<rparr>) cs')))"
| "propagateCostEstimates_children cbo [] = Inr []"
| "propagateCostEstimates_children cbo (child # rest) =
     (case propagateCostEstimates cbo child of
        Inl err \<Rightarrow> Inl err
      | Inr child' \<Rightarrow>
          (case propagateCostEstimates_children cbo rest of
             Inl err \<Rightarrow> Inl err
           | Inr rest' \<Rightarrow> Inr (child' # rest')))"

subsection \<open>Optimize\<close>

definition CostBased_Optimize ::
  "CostBasedOptimizer \<Rightarrow> LogicalPlan option \<Rightarrow> int64
   \<Rightarrow> failure + (LogicalPlan \<times> ExplainResult \<times> int64)" where
  "CostBased_Optimize cbo plan c =
     (case plan of
        None \<Rightarrow> Inl (NilPlan, None)
      | Some p \<Rightarrow>
          (case OptimizeWithRules (Some p) c of
             Inl (err, _) \<Rightarrow> if err = Panic then Inl (Panic, None) else Inl (err, Some emptyExplain)
           | Inr (ruleOptimizedPlan, ruleExplain, c1) \<Rightarrow>
               let explain = emptyExplain\<lparr> AppliedRules := AppliedRules ruleExplain,
                               Steps := Steps ruleExplain \<rparr>
               in (case applyCostBasedOptimizations cbo ruleOptimizedPlan c1 of
                     Inl err \<Rightarrow> if err = Panic then Inl (Panic, None) else Inl (err, Some explain)
                   | Inr (costOptimizedPlan, c2) \<Rightarrow>
                       (case EstimateCost (costModel cbo) costOptimizedPlan (catalogMgr cbo) of
                          Inl err \<Rightarrow>
                            if err = Panic then Inl (Panic, None) else Inl (err, Some explain)
                        | Inr finalCost \<Rightarrow>
                            (case propagateCostEstimates cbo costOptimizedPlan of
                               Inl err \<Rightarrow> Inl (err, None)
                             | Inr stampedPlan \<Rightarrow>
                                 let applied = AppliedRules explain @ [''CostBasedOptimization''];
                                     explain' = explain\<lparr> AppliedRules := applied,
                                       Steps := Steps explain @
                                         [\<lparr> RuleName = ''CostBasedOptimization'',
                                            BeforePlan = ruleOptimizedPlan,
                                            AfterPlan = stampedPlan,
                                            Description = AppliedCostBased (TotalCost finalCost) \<rparr>],
                                       Statistics := (Statistics explain)
                                         \<lparr> TotalRulesApplied := int (length applied) \<rparr> \<rparr>
                                 in Inr (stampedPlan, explain', c2))))))"

text \<open>\<open>OptimizeWithCost\<close> builds a catalog of its own, which is empty.\<close>

definition OptimizeWithCost ::
  "LogicalPlan option \<Rightarrow> int64 \<Rightarrow> failure + (LogicalPlan \<times> ExplainResult \<times> int64)" where
  "OptimizeWithCost plan c = CostBased_Optimize (NewCostBasedOptimizer NewCatalogManager) plan c"

section \<open>simulator: the execution simulator\<close>

text \<open>\<open>time.Duration\<close> is an \<open>int64\<close> of nanoseconds and \<open>time.Microsecond\<close> is 1000.
  \<open>ExecutionTime\<close> is the wall-clock time of the call; it is an argument here.\<close>

record ExecutionMetrics =
  ExecutionTime :: int64
  RowsProcessed :: int64
  RowsReturned :: int64
  CPUTime :: int64
  IOOperations :: int64
  MemoryUsed :: int64
  NetworkTraffic :: int64
  OperatorMetrics :: "string \<rightharpoonup> GoValue"
  Connector :: string
  SimulationOnly :: bool

definition Microsecond :: int64 where
  "Microsecond = 1000"

text \<open>Go's \<open>/\<close> on \<open>int64\<close> truncates towards zero.\<close>

definition int64_quo :: "int64 \<Rightarrow> int64 \<Rightarrow> int64" where
  "int64_quo a b = word_of_int (sgn (sint a) * sgn (sint b) * (\<bar>sint a\<bar> div \<bar>sint b\<bar>))"

definition simulateScan :: "LogicalPlan \<Rightarrow> ExecutionMetrics \<Rightarrow> error + ExecutionMetrics" where
  "simulateScan plan metrics =
     (let estimatedRows = (case EstimatedRows (Fields plan) of None \<Rightarrow> 1000 | Some r \<Rightarrow> r);
          pagesRead0 = int64_quo estimatedRows 100;
          pagesRead = (if pagesRead0 <s 1 then 1 else pagesRead0);
          cpuTime = (estimatedRows * 10) * Microsecond
      in Inr (metrics\<lparr>
           IOOperations := IOOperations metrics + pagesRead,
           RowsProcessed := RowsProcessed metrics + estimatedRows,
           RowsReturned := RowsReturned metrics + estimatedRows,
           MemoryUsed := MemoryUsed metrics + estimatedRows * 100,
           CPUTime := CPUTime metrics + cpuTime,
           OperatorMetrics := (OperatorMetrics metrics)
             (ID (Fields plan) @ ''_scan'' \<mapsto>
                VMap [(''table_name'', VString (TableName (Fields plan))),
                      (''rows_scanned'', VInt estimatedRows),
                      (''pages_read'', VInt pagesRead),
                      (''scan_type'', VString ''sequential'')]) \<rparr>))"

text \<open>
  \<open>simulateNode\<close> simulates the children, in order, and then the node itself. The
  simulation of the operators other than Scan (\<open>simulateFilter\<close>, \<open>simulateProject\<close>,
  \<open>simulateJoin\<close>, \<open>simulateAggregate\<close>, \<open>simulateSort\<close>, \<open>simulateLimit\<close>) is the
  argument \<open>simulateOperator\<close>: nothing below depends on what they compute.
\<close>

fun simulateNode ::
    "(LogicalPlan \<Rightarrow> ExecutionMetrics \<Rightarrow> error + ExecutionMetrics)
     \<Rightarrow> LogicalPlan \<Rightarrow> ExecutionMetrics \<Rightarrow> error + ExecutionMetrics"
  and simulateNode_children ::
    "(LogicalPlan \<Rightarrow> ExecutionMetrics \<Rightarrow> error + ExecutionMetrics)
     \<Rightarrow> LogicalPlan list \<Rightarrow> ExecutionMetrics \<Rightarrow> error + ExecutionMetrics"
where
  "simulateNode simulateOperator (LogicalPlan f cs) metrics =
     (case simulateNode_children simulateOperator cs metrics of
        Inl err \<Rightarrow> Inl err
      | Inr metrics' \<Rightarrow>
          if NodeType f = NodeTypeScan then simulateScan (LogicalPlan f cs) metrics'
          else if NodeType f \<in> {NodeTypeFilter, NodeTypeProject, NodeTypeJoin,
                    NodeTypeAggregate, NodeTypeSort, NodeTypeLimit}
            then simulateOperator (LogicalPlan f cs) metrics'
          else Inl (UnsupportedNode (NodeType f)))"
| "simulateNode_children simulateOperator [] metrics = Inr metrics"
| "simulateNode_children simulateOperator (child # rest) metrics =
     (case simulateNode simulateOperator child metrics of
        Inl err \<Rightarrow> Inl err
      | Inr metrics' \<Rightarrow> simulateNode_children simulateOperator rest metrics')"

definition Generic_SimulateExecution ::
  "(LogicalPlan \<Rightarrow> ExecutionMetrics \<Rightarrow> error + ExecutionMetrics)
   \<Rightarrow> int64 \<Rightarrow> LogicalPlan option \<Rightarrow> error + ExecutionMetrics" where
  "Generic_SimulateExecution simulateOperator elapsed plan =
     (case plan of
        None \<Rightarrow> Inl NilPlan
      | Some p \<Rightarrow>
          (case simulateNode simulateOperator p
                  \<lparr> ExecutionTime = 0, RowsProcessed = 0, RowsReturned = 0, CPUTime = 0,
                    IOOperations = 0, MemoryUsed = 0, NetworkTraffic = 0,
                    OperatorMetrics = Map.empty, Connector = ''generic'',
                    SimulationOnly = True \<rparr> of
             Inl err \<Rightarrow> Inl err
           | Inr metrics \<Rightarrow> Inr (metrics\<lparr> ExecutionTime := elapsed \<rparr>)))"

text \<open>The adjustments of the two connectors, applied to the metrics of the generic
  simulation, node by node from the root.\<close>

fun applyPostgresOptimizations :: "LogicalPlan \<Rightarrow> ExecutionMetrics \<Rightarrow> ExecutionMetrics" where
  "applyPostgresOptimizations (LogicalPlan f cs) metrics =
     fold applyPostgresOptimizations cs
       (if NodeType f = NodeTypeJoin then
          (if Metadata f ''physical_operator'' = Some (VString ''hash_join'')
           then metrics\<lparr> CPUTime := int64_of (float64 (CPUTime metrics) * (85 / 100)) \<rparr>
           else metrics)
        else if NodeType f = NodeTypeAggregate then
          metrics\<lparr> CPUTime := int64_of (float64 (CPUTime metrics) * (9 / 10)) \<rparr>
        else if NodeType f = NodeTypeScan then
          metrics\<lparr> IOOperations := int64_of (float64 (IOOperations metrics) * (8 / 10)) \<rparr>
        else metrics)"

fun applyMongoOptimizations :: "LogicalPlan \<Rightarrow> ExecutionMetrics \<Rightarrow> ExecutionMetrics" where
  "applyMongoOptimizations (LogicalPlan f cs) metrics =
     fold applyMongoOptimizations cs
       (if NodeType f = NodeTypeScan then
          metrics\<lparr> NetworkTraffic := NetworkTraffic metrics + RowsProcessed metrics * 300 \<rparr>
        else if NodeType f = NodeTypeAggregate then
          metrics\<lparr> CPUTime := int64_of (float64 (CPUTime metrics) * (7 / 10)) \<rparr>
        else if NodeType f = NodeTypeJoin then
          metrics\<lparr> CPUTime := int64_of (float64 (CPUTime metrics) * (13 / 10)),
                   NetworkTraffic := NetworkTraffic metrics + RowsProcessed metrics * 200 \<rparr>
        else metrics)"

definition Postgres_SimulateExecution ::
  "(LogicalPlan \<Rightarrow> ExecutionMetrics \<Rightarrow> error + ExecutionMetrics)
   \<Rightarrow> int64 \<Rightarrow> LogicalPlan option \<Rightarrow> error + ExecutionMetrics" where
  "Postgres_SimulateExecution simulateOperator elapsed plan =
     (case Generic_SimulateExecution simulateOperator elapsed plan of
        Inl err \<Rightarrow> Inl err
      | Inr metrics \<Rightarrow>
          (case plan of
             None \<Rightarrow> Inr (metrics\<lparr> Connector := ''postgres'' \<rparr>)
           | Some p \<Rightarrow>
               Inr (applyPostgresOptimizations p (metrics\<lparr> Connector := ''postgres'' \<rparr>))))"

definition Mongo_SimulateExecution ::
  "(LogicalPlan \<Rightarrow> ExecutionMetrics \<Rightarrow> error + ExecutionMetrics)
   \<Rightarrow> int64 \<Rightarrow> LogicalPlan option \<Rightarrow> error + ExecutionMetrics" where
  "Mongo_SimulateExecution simulateOperator elapsed plan =
     (case Generic_SimulateExecution simulateOperator elapsed plan of
        Inl err \<Rightarrow> Inl err
      | Inr metrics \<Rightarrow>
          (case plan of
             None \<Rightarrow> Inr (metrics\<lparr> Connector := ''mongo'' \<rparr>)
           | Some p \<Rightarrow>
               Inr (applyMongoOptimizations p (metrics\<lparr> Connector := ''mongo'' \<rparr>))))"

definition SimulateExecution ::
  "(LogicalPlan \<Rightarrow> ExecutionMetrics \<Rightarrow> error + ExecutionMetrics)
   \<Rightarrow> int64 \<Rightarrow> LogicalPlan option \<Rightarrow> string \<Rightarrow> error + ExecutionMetrics" where
  "SimulateExecution simulateOperator elapsed plan connector =
     (if connector = ''postgres'' then Postgres_SimulateExecution simulateOperator elapsed plan
      else if connector = ''mongo'' then Mongo_SimulateExecution simulateOperator elapsed plan
      else Generic_SimulateExecution simulateOperator elapsed plan)"

section \<open>Notions used to state the properties\<close>

subsection \<open>Plans\<close>

text \<open>The node ids of a plan, root first, and the number of its nodes.\<close>

fun nodeIDs :: "LogicalPlan \<Rightarrow> string list" where
  "nodeIDs (LogicalPlan f cs) = ID f # concat (map nodeIDs cs)"

fun nodes :: "LogicalPlan \<Rightarrow> nat" where
  "nodes (LogicalPlan f cs) = Suc (sum_list (map nodes cs))"

text \<open>The id that \<open>generateID\<close> returns on its \<open>(k+1)\<close>-th call from the counter \<open>c\<close>.\<close>

definition issuedID :: "int64 \<Rightarrow> nat \<Rightarrow> string" where
  "issuedID c k = fst (generateID (c + of_nat k))"

text \<open>The table names of the Scan nodes of a plan, with multiplicity.\<close>

fun scanTables :: "LogicalPlan \<Rightarrow> string multiset" where
  "scanTables (LogicalPlan f cs) =
     (if NodeType f = NodeTypeScan then {#TableName f#} else {#})
     + sum_list (map scanTables cs)"

text \<open>Invariant I1 of the data model: the number of children fits the variant, at every
  node.\<close>

fun arityOK :: "LogicalPlan \<Rightarrow> bool" where
  "arityOK (LogicalPlan f cs) =
     ((NodeType f = NodeTypeScan \<longrightarrow> length cs = 0)
      \<and> (NodeType f \<in> {NodeTypeFilter, NodeTypeProject, NodeTypeAggregate, NodeTypeSort,
                        NodeTypeLimit} \<longrightarrow> length cs = 1)
      \<and> (NodeType f = NodeTypeJoin \<longrightarrow> length cs = 2)
      \<and> (\<forall>c \<in> set cs. arityOK c))"

text \<open>Every Limit node that has a count has a child.\<close>

fun limitsHaveChild :: "LogicalPlan \<Rightarrow> bool" where
  "limitsHaveChild (LogicalPlan f cs) =
     ((NodeType f = NodeTypeLimit \<and> LimitCount f \<noteq> None \<longrightarrow> cs \<noteq> [])
      \<and> (\<forall>c \<in> set cs. limitsHaveChild c))"

text \<open>No Project node has more than one child.\<close>

fun projectsUnary :: "LogicalPlan \<Rightarrow> bool" where
  "projectsUnary (LogicalPlan f cs) =
     ((NodeType f = NodeTypeProject \<longrightarrow> length cs \<le> 1)
      \<and> (\<forall>c \<in> set cs. projectsUnary c))"

text \<open>Go's \<open>min\<close> of two \<open>int64\<close>, as the Limit rule computes it.\<close>

definition smin :: "int64 \<Rightarrow> int64 \<Rightarrow> int64" where
  "smin a b = (if a <s b then a else b)"

subsection \<open>The catalog\<close>

text \<open>What \<open>UpdateTableStats\<close> does to one column: the five statistics are overwritten
  when the supplied map has an entry under the column's name.\<close>

definition overwriteStats :: "(string \<rightharpoonup> CatalogColumn) \<Rightarrow> CatalogColumn \<Rightarrow> CatalogColumn" where
  "overwriteStats columnStats col =
     (case columnStats (ColName col) of
        None \<Rightarrow> col
      | Some stats \<Rightarrow> col\<lparr> NDV := NDV stats, MinValue := MinValue stats,
                         MaxValue := MaxValue stats, Histogram := Histogram stats,
                         NullCount := NullCount stats \<rparr>)"

text \<open>The columns that the holder of a schema value returned by \<open>GetTable\<close> reads
  through its \<open>Columns\<close> slice, when the catalog (and so the heap) is \<open>cm\<close>.\<close>

definition snapshotColumns :: "CatalogManager \<Rightarrow> TableSchema \<Rightarrow> CatalogColumn list" where
  "snapshotColumns cm snapshot = columnArrays cm (Columns snapshot)"

text \<open>The selectivity table of the catalog as the specification words it, by operator and
  the column's NDV.\<close>

definition specSelectivity :: "string \<Rightarrow> int64 option \<Rightarrow> real" where
  "specSelectivity operator ndv =
     (if operator = ''='' then
        (case ndv of Some n \<Rightarrow> if 0 <s n then 1 / float64 n else 1 / 10 | None \<Rightarrow> 1 / 10)
      else if operator \<in> {''<'', ''>'', ''<='', ''>=''} then 33 / 100
      else if operator = ''LIKE'' then 1 / 10
      else 1 / 2)"

subsection \<open>Sample data\<close>

text \<open>A catalog with one table, \<open>customers\<close>, of 5000 rows and two columns; the struct
  lives at address 3 and its column array at address 7.\<close>

definition customersSchema :: TableSchema where
  "customersSchema = \<lparr> SchemaName = ''customers'', Columns = 7, RowCount = 5000,
     Indexes = [], SchemaMetadata = Map.empty \<rparr>"

definition ageColumn :: CatalogColumn where
  "ageColumn = \<lparr> ColName = ''age'', ColDataType = ''int'', Nullable = False,
     NDV = Some 70, MinValue = Some ''18'', MaxValue = Some ''90'', Histogram = [],
     NullCount = Some 0 \<rparr>"

definition nameColumn :: CatalogColumn where
  "nameColumn = \<lparr> ColName = ''name'', ColDataType = ''string'', Nullable = True,
     NDV = None, MinValue = None, MaxValue = None, Histogram = [], NullCount = None \<rparr>"

definition customersCatalog :: CatalogManager where
  "customersCatalog = \<lparr> tables = [''customers'' \<mapsto> 3],
     schemas = (\<lambda>_. zeroSchema)(3 := customersSchema),
     columnArrays = (\<lambda>_. [])(7 := [ageColumn, nameColumn]) \<rparr>"

definition ageStats :: CatalogColumn where
  "ageStats = \<lparr> ColName = ''age'', ColDataType = ''int'', Nullable = False,
     NDV = Some 80, MinValue = Some ''1'', MaxValue = Some ''99'', Histogram = [],
     NullCount = Some 5 \<rparr>"

text \<open>Plan nodes as the constructors make them, with the id given.\<close>

definition scanNode :: "string \<Rightarrow> string \<Rightarrow> LogicalPlan" where
  "scanNode i t = LogicalPlan (zeroFields\<lparr> ID := i, NodeType := NodeTypeScan, TableName := t \<rparr>) []"

definition joinFields :: "string \<Rightarrow> string \<Rightarrow> PlanFields" where
  "joinFields i jt = zeroFields\<lparr> ID := i, NodeType := NodeTypeJoin, JoinType := jt \<rparr>"

definition limitFields :: "string \<Rightarrow> int64 option \<Rightarrow> PlanFields" where
  "limitFields i k = zeroFields\<lparr> ID := i, NodeType := NodeTypeLimit, LimitCount := k \<rparr>"

definition filterFields :: "string \<Rightarrow> Expression \<Rightarrow> PlanFields" where
  "filterFields i e = zeroFields\<lparr> ID := i, NodeType := NodeTypeFilter,
     Predicate := Some \<lparr> PredExpression = Some e \<rparr> \<rparr>"

definition projectFields :: "string \<Rightarrow> Column list \<Rightarrow> PlanFields" where
  "projectFields i cols = zeroFields\<lparr> ID := i, NodeType := NodeTypeProject, Projections := cols \<rparr>"

definition binaryOp :: "string \<Rightarrow> Expression \<Rightarrow> Expression \<Rightarrow> Expression" where
  "binaryOp operator l r = Expression ''binary_op'' (VString operator) (Some l) (Some r) [] []"

definition columnExpr :: "string \<Rightarrow> Expression" where
  "columnExpr name = Expression ''column'' (VString name) None None [] []"

definition literalExpr :: "GoValue \<Rightarrow> Expression" where
  "literalExpr v = Expression ''literal'' v None None [] []"

definition likeFilter :: LogicalPlan where
  "likeFilter = LogicalPlan
     (filterFields ''node_2'' (binaryOp ''LIKE'' (columnExpr ''name'') (literalExpr (VString ''A%''))))
     [scanNode ''node_1'' ''customers'']"

definition equalsFilter :: LogicalPlan where
  "equalsFilter = LogicalPlan
     (filterFields ''node_2'' (binaryOp ''='' (columnExpr ''age'') (literalExpr (VInt 30))))
     [scanNode ''node_1'' ''customers'']"

text \<open>A catalog with the tables \<open>big\<close>, of 1000000 rows, and \<open>small\<close>, of 100 rows, and the
  left join of the two with \<open>big\<close> on the left.\<close>

definition bigSmallCatalog :: CatalogManager where
  "bigSmallCatalog = \<lparr> tables = [''big'' \<mapsto> 11, ''small'' \<mapsto> 12],
     schemas = (\<lambda>_. zeroSchema)
       (11 := \<lparr> SchemaName = ''big'', Columns = 21, RowCount = 1000000, Indexes = [],
               SchemaMetadata = Map.empty \<rparr>,
        12 := \<lparr> SchemaName = ''small'', Columns = 22, RowCount = 100, Indexes = [],
               SchemaMetadata = Map.empty \<rparr>),
     columnArrays = (\<lambda>_. []) \<rparr>"

definition bigSmallJoin :: LogicalPlan where
  "bigSmallJoin = LogicalPlan (joinFields ''node_3'' JoinTypeLeft)
     [scanNode ''node_1'' ''big'', scanNode ''node_2'' ''small'']"

text \<open>\<open>Filter(age > 30, Project([name], Scan(customers)))\<close>, and a Filter over a Project
  that has two children, which invariant I1 excludes.\<close>

definition filterOverProject :: LogicalPlan where
  "filterOverProject = LogicalPlan
     (filterFields ''node_3'' (binaryOp ''>'' (columnExpr ''age'') (literalExpr (VInt 30))))
     [LogicalPlan (projectFields ''node_2'' [\<lparr> Table = [], Name = ''name'', ColumnAlias = [] \<rparr>])
        [scanNode ''node_1'' ''customers'']]"

definition filterOverWideProject :: LogicalPlan where
  "filterOverWideProject = LogicalPlan
     (filterFields ''node_4'' (binaryOp ''>'' (columnExpr ''age'') (literalExpr (VInt 30))))
     [LogicalPlan (projectFields ''node_3'' [\<lparr> Table = [], Name = ''name'', ColumnAlias = [] \<rparr>])
        [scanNode ''node_1'' ''customers'', scanNode ''node_2'' ''orders'']]"

text \<open>\<open>Filter(a.x = 1, Join(inner, Scan(a), Scan(b), a.id = b.id))\<close>: the predicate
  names a column of \<open>a\<close> only.\<close>

definition filterOverJoin :: LogicalPlan where
  "filterOverJoin = LogicalPlan
     (filterFields ''node_4'' (binaryOp ''='' (columnExpr ''a.x'') (literalExpr (VInt 1))))
     [LogicalPlan
        ((joinFields ''node_3'' JoinTypeInner)
           \<lparr> JoinCondition := Some \<lparr> CondLeft = Some (columnExpr ''a.id''),
                CondRight = Some (columnExpr ''b.id''), Operator = ''='' \<rparr> \<rparr>)
        [scanNode ''node_1'' ''a'', scanNode ''node_2'' ''b'']]"

text \<open>What \<open>applyRecursive\<close> of PredicatePushdown builds from a Filter with predicate \<open>p\<close>
  over a Project with columns \<open>cols\<close> and first child \<open>g\<close>, when the id counter is \<open>c\<close>:
  a new Filter over \<open>g\<close>, and a new Project over that.\<close>

definition filterBelowProject ::
  "Predicate option \<Rightarrow> Column list \<Rightarrow> LogicalPlan \<Rightarrow> int64 \<Rightarrow> LogicalPlan" where
  "filterBelowProject p cols g c =
     (let (newFilter, c1) = NewFilterNode g p c;
          (newProject, c2) = NewProjectNode newFilter cols c1
      in newProject)"

text \<open>The columns that an expression names (the values of its nodes of type \<open>column\<close>),
  and the table qualifier of a column name, which is what stands before the dot.\<close>

fun exprColumns :: "Expression \<Rightarrow> string list" where
  "exprColumns (Expression t v l r as d) =
     (if t = ''column'' then (case v of VString s \<Rightarrow> [s] | _ \<Rightarrow> []) else [])
     @ (case l of None \<Rightarrow> [] | Some e \<Rightarrow> exprColumns e)
     @ (case r of None \<Rightarrow> [] | Some e \<Rightarrow> exprColumns e)
     @ concat (map exprColumns as)"

definition qualifier :: "string \<Rightarrow> string" where
  "qualifier name = takeWhile (\<lambda>ch. ch \<noteq> CHR ''.'') name"

text \<open>The columns that a predicate names.\<close>

definition predicateColumns :: "Predicate option \<Rightarrow> string list" where
  "predicateColumns p =
     (case p of
        None \<Rightarrow> []
      | Some q \<Rightarrow> (case PredExpression q of None \<Rightarrow> [] | Some e \<Rightarrow> exprColumns e))"

text \<open>
  The condition that the specification puts on pushing a Filter below a Project, in its
  words: the projections do not rename or compute the columns referenced by the
  predicate. A projection of the data model is a column with an optional alias and
  holds no expression: it renames its column when it has an alias, and it computes
  nothing. So the condition is that no projection with an alias has its alias, its name
  or its qualified name among the columns of the predicate. The source has no such
  test: its \<open>canPushFilterBelowProject\<close> returns \<open>true\<close>.
\<close>

definition spec_projectionsKeepColumns :: "Column list \<Rightarrow> Predicate option \<Rightarrow> bool" where
  "spec_projectionsKeepColumns projections p =
     (\<forall>col \<in> set projections. ColumnAlias col \<noteq> [] \<longrightarrow>
        (\<forall>n \<in> set (predicateColumns p).
           n \<noteq> ColumnAlias col \<and> n \<noteq> Name col \<and> n \<noteq> Table col @ ''.'' @ Name col))"

text \<open>A catalog with one table of \<open>2^32\<close> rows.\<close>

definition hugeCatalog :: CatalogManager where
  "hugeCatalog = \<lparr> tables = [''huge'' \<mapsto> 13],
     schemas = (\<lambda>_. zeroSchema)
       (13 := \<lparr> SchemaName = ''huge'', Columns = 23, RowCount = 4294967296, Indexes = [],
               SchemaMetadata = Map.empty \<rparr>),
     columnArrays = (\<lambda>_. []) \<rparr>"

text \<open>\<open>Filter(age > 30, Project([name AS n, age], Scan(customers)))\<close>: the one projection
  with an alias is not of a column of the predicate. \<open>Filter(total > 5, Project([price AS
  total], Scan(orders)))\<close>: the predicate names the alias.\<close>

definition filterOverAliasProject :: LogicalPlan where
  "filterOverAliasProject = LogicalPlan
     (filterFields ''node_3'' (binaryOp ''>'' (columnExpr ''age'') (literalExpr (VInt 30))))
     [LogicalPlan
        (projectFields ''node_2'' [\<lparr> Table = [], Name = ''name'', ColumnAlias = ''n'' \<rparr>,
                                  \<lparr> Table = [], Name = ''age'', ColumnAlias = [] \<rparr>])
        [scanNode ''node_1'' ''customers'']]"

definition filterOverRenamingProject :: LogicalPlan where
  "filterOverRenamingProject = LogicalPlan
     (filterFields ''node_3'' (binaryOp ''>'' (columnExpr ''total'') (literalExpr (VInt 5))))
     [LogicalPlan
        (projectFields ''node_2'' [\<lparr> Table = [], Name = ''price'', ColumnAlias = ''total'' \<rparr>])
        [scanNode ''node_1'' ''orders'']]"

section \<open>Clone and the plan signature\<close>

lemma signature_children:
  assumes "map getPlanSignature cs' = map getPlanSignature cs"
  shows "map (\<lambda>child. ''('' @ getPlanSignature child @ '')'') cs'
       = map (\<lambda>child. ''('' @ getPlanSignature child @ '')'') cs"
  using arg_cong [OF assms, of "map (\<lambda>s. ''('' @ s @ '')'')"] by (simp add: comp_def)

lemma Clone_signature_aux:
  "getPlanSignature (fst (Clone p c)) = getPlanSignature p"
  "map getPlanSignature (fst (CloneChildren ps c)) = map getPlanSignature ps"
proof (induction p c and ps c rule: Clone_CloneChildren.induct)
  case (1 f cs c)
  obtain i c1 where g: "generateID c = (i, c1)" by (cases "generateID c")
  obtain cs' c2 where cc: "CloneChildren cs c1 = (cs', c2)" by (cases "CloneChildren cs c1")
  from "1.IH"[OF g[symmetric] refl] cc
  have "map getPlanSignature cs' = map getPlanSignature cs" by simp
  from signature_children [OF this] show ?case
    using g cc by simp
next
  case (2 c)
  show ?case by simp
next
  case (3 p ps c)
  then show ?case by (auto simp: Let_def split: prod.splits)
qed

lemma Clone_counter_aux:
  "snd (Clone p c) = c + of_nat (nodes p)"
  "snd (CloneChildren ps c) = c + of_nat (sum_list (map nodes ps))"
  by (induction p c and ps c rule: Clone_CloneChildren.induct)
     (auto simp: Let_def generateID_def split: prod.splits)

lemma issuedID_shift: "issuedID (c + of_nat m) k = issuedID c (m + k)"
  by (simp add: issuedID_def add.assoc)

lemma map_issued_shift:
  "map (issuedID (c + of_nat m)) [0..<n] = map (issuedID c) [m..<m + n]"
proof -
  have "map (issuedID c) [m..<m + n] = map (issuedID c) (map (\<lambda>k. m + k) [0..<n])"
    by (simp add: map_add_upt add.commute)
  then show ?thesis by (simp add: issuedID_shift comp_def)
qed

lemma upt_0_Suc: "[0..<Suc n] = 0 # [1..<1 + n]"
  using upt_conv_Cons [of 0 "Suc n"] by simp

lemma Clone_ids_aux:
  "nodeIDs (fst (Clone p c)) = map (issuedID c) [0..<nodes p]"
  "concat (map nodeIDs (fst (CloneChildren ps c))) = map (issuedID c) [0..<sum_list (map nodes ps)]"
proof (induction p c and ps c rule: Clone_CloneChildren.induct)
  case (1 f cs c)
  obtain i c1 where g: "generateID c = (i, c1)" by (cases "generateID c")
  obtain cs' c2 where cc: "CloneChildren cs c1 = (cs', c2)" by (cases "CloneChildren cs c1")
  have c1: "c1 = c + of_nat 1"
    using g by (simp add: generateID_def)
  have i: "i = issuedID c 0"
    using g by (auto simp: generateID_def issuedID_def)
  from "1.IH"[OF g[symmetric] refl] cc
  have "concat (map nodeIDs cs') = map (issuedID c1) [0..<sum_list (map nodes cs)]" by simp
  also have "\<dots> = map (issuedID c) [1..<1 + sum_list (map nodes cs)]"
    unfolding c1 by (rule map_issued_shift)
  finally have *: "concat (map nodeIDs cs') = map (issuedID c) [1..<1 + sum_list (map nodes cs)]" .
  have "nodeIDs (fst (Clone (LogicalPlan f cs) c)) = i # concat (map nodeIDs cs')"
    by (simp add: g cc)
  also have "\<dots> = map (issuedID c) (0 # [1..<1 + sum_list (map nodes cs)])"
    by (simp only: * i list.map)
  finally show ?case by (simp only: nodes.simps upt_0_Suc)
next
  case (2 c)
  show ?case by simp
next
  case (3 p ps c)
  obtain p' c1 where cp: "Clone p c = (p', c1)" by (cases "Clone p c")
  obtain ps' c2 where cc: "CloneChildren ps c1 = (ps', c2)" by (cases "CloneChildren ps c1")
  have c1: "c1 = c + of_nat (nodes p)" using Clone_counter_aux(1)[of p c] cp by simp
  have a: "nodeIDs p' = map (issuedID c) [0..<nodes p]" using "3.IH"(1) cp by simp
  from "3.IH"(2)[OF cp[symmetric] refl] cc
  have "concat (map nodeIDs ps') = map (issuedID c1) [0..<sum_list (map nodes ps)]" by simp
  also have "\<dots> = map (issuedID c) [nodes p..<nodes p + sum_list (map nodes ps)]"
    unfolding c1 by (rule map_issued_shift)
  finally have b: "concat (map nodeIDs ps')
      = map (issuedID c) [nodes p..<nodes p + sum_list (map nodes ps)]" .
  have u: "[0..<nodes p + sum_list (map nodes ps)]
      = [0..<nodes p] @ [nodes p..<nodes p + sum_list (map nodes ps)]"
    by (rule upt_add_eq_append) simp
  have "concat (map nodeIDs (fst (CloneChildren (p # ps) c))) = nodeIDs p' @ concat (map nodeIDs ps')"
    by (simp add: cp cc)
  also have "\<dots> = map (issuedID c) [0..<nodes p + sum_list (map nodes ps)]"
    by (simp only: a b u map_append)
  finally show ?case by simp
qed

subsection \<open>The ids that the counter issues are pairwise different\<close>

lemma digit_inj:
  assumes "a < 10" "b < 10" "''0123456789'' ! a = ''0123456789'' ! b"
  shows "a = b"
proof -
  have "distinct ''0123456789''" by simp
  moreover have "a < length ''0123456789''" "b < length ''0123456789''"
    using assms(1,2) by simp_all
  ultimately show ?thesis using assms(3) by (simp only: nth_eq_iff_index_eq)
qed

lemma decimal_digits: "set (decimal n) \<subseteq> set ''0123456789''"
proof (induction n rule: decimal.induct)
  case (1 n)
  have d: "k < 10 \<Longrightarrow> ''0123456789'' ! k \<in> set ''0123456789''" for k
    by (rule nth_mem) simp
  show ?case
  proof (cases "n < 10")
    case True
    then show ?thesis using d [of n] by (subst decimal.simps) simp
  next
    case False
    then show ?thesis using "1.IH" d [of "n mod 10"] by (subst decimal.simps) simp
  qed
qed

lemma decimal_not_Nil: "decimal n \<noteq> []"
  by (subst decimal.simps) simp

lemma decimal_inj: "decimal a = decimal b \<Longrightarrow> a = b"
proof (induction a arbitrary: b rule: decimal.induct)
  case (1 a)
  have ua: "decimal a = (if a < 10 then [''0123456789'' ! a]
      else decimal (a div 10) @ [''0123456789'' ! (a mod 10)])"
    by (rule decimal.simps)
  have ub: "decimal b = (if b < 10 then [''0123456789'' ! b]
      else decimal (b div 10) @ [''0123456789'' ! (b mod 10)])"
    by (rule decimal.simps)
  show ?case
  proof (cases "a < 10")
    case a: True
    show ?thesis
    proof (cases "b < 10")
      case True
      with a "1.prems" ua ub show ?thesis by (simp add: digit_inj)
    next
      case False
      with a "1.prems" ua ub have "decimal (b div 10) = []" by simp
      then show ?thesis by (simp add: decimal_not_Nil)
    qed
  next
    case a: False
    show ?thesis
    proof (cases "b < 10")
      case True
      with a "1.prems" ua ub have "decimal (a div 10) = []" by simp
      then show ?thesis by (simp add: decimal_not_Nil)
    next
      case False
      with a "1.prems" ua ub have e: "decimal (a div 10) = decimal (b div 10)"
        "''0123456789'' ! (a mod 10) = ''0123456789'' ! (b mod 10)"
        by simp_all
      have "a div 10 = b div 10" using "1.IH" [OF a e(1)] .
      moreover have "a mod 10 = b mod 10"
        by (rule digit_inj [OF _ _ e(2)]) simp_all
      ultimately show ?thesis by (metis div_mult_mod_eq)
    qed
  qed
qed

lemma decimal_no_minus: "decimal n \<noteq> CHR ''-'' # s"
proof
  assume "decimal n = CHR ''-'' # s"
  then have "CHR ''-'' \<in> set (decimal n)" by simp
  then have "CHR ''-'' \<in> set ''0123456789''" using decimal_digits by blast
  then show False by simp
qed

lemma Sprintf_d_inj: "Sprintf_d a = Sprintf_d b \<Longrightarrow> a = b"
proof -
  assume e: "Sprintf_d a = Sprintf_d b"
  have "sint a = sint b"
  proof (cases "sint a < 0")
    case a: True
    show ?thesis
    proof (cases "sint b < 0")
      case True
      with a e have "nat (- sint a) = nat (- sint b)"
        by (simp add: Sprintf_d_def decimal_inj)
      with a True show ?thesis by simp
    next
      case False
      with a e show ?thesis by (simp add: Sprintf_d_def decimal_no_minus [symmetric])
    qed
  next
    case a: False
    show ?thesis
    proof (cases "sint b < 0")
      case True
      with a e show ?thesis by (simp add: Sprintf_d_def decimal_no_minus)
    next
      case False
      with a e have "nat (sint a) = nat (sint b)"
        by (simp add: Sprintf_d_def decimal_inj)
      with a False show ?thesis by simp
    qed
  qed
  then show ?thesis by (rule signed_word_eqI)
qed

lemma issuedID_inj:
  assumes "issuedID c a = issuedID c b" "a < 2 ^ 64" "b < 2 ^ 64"
  shows "a = b"
proof -
  have "Sprintf_d (c + of_nat a + 1) = Sprintf_d (c + of_nat b + 1)"
    using assms(1) by (simp add: issuedID_def generateID_def)
  then have "c + of_nat a + 1 = c + of_nat b + 1" by (rule Sprintf_d_inj)
  then have "(of_nat a :: int64) = of_nat b" by simp
  then have "unat (of_nat a :: int64) = unat (of_nat b :: int64)" by simp
  then show ?thesis using assms(2,3) by (simp add: unat_of_nat take_bit_nat_eq_self)
qed

lemma Clone_ids_distinct:
  assumes "nodes p \<le> 2 ^ 64"
  shows "distinct (nodeIDs (fst (Clone p c)))"
proof -
  have "inj_on (issuedID c) (set [0..<nodes p])"
    using assms by (intro inj_onI issuedID_inj [of c]) auto
  then show ?thesis
    unfolding Clone_ids_aux(1) by (simp add: distinct_map)
qed

lemma Clone_ids_fresh:
  assumes sub: "set (nodeIDs p) \<subseteq> issuedID c0 ` {..<m}"
    and c: "c = c0 + of_nat m"
    and bound: "m + nodes p \<le> 2 ^ 64"
  shows "set (nodeIDs (fst (Clone p c))) \<inter> set (nodeIDs p) = {}"
proof (rule ccontr)
  assume "set (nodeIDs (fst (Clone p c))) \<inter> set (nodeIDs p) \<noteq> {}"
  then obtain i where i: "i \<in> set (nodeIDs (fst (Clone p c)))" "i \<in> set (nodeIDs p)"
    by blast
  from i(1) obtain k where k: "k < nodes p" "i = issuedID c k"
    unfolding Clone_ids_aux(1) by auto
  from i(2) sub obtain j where j: "j < m" "i = issuedID c0 j" by auto
  have "issuedID c0 (m + k) = issuedID c0 j"
    using k(2) j(2) unfolding c issuedID_shift by simp
  moreover have "m + k < 2 ^ 64" "j < 2 ^ 64" using k(1) j(1) bound by simp_all
  ultimately have "m + k = j" by (rule issuedID_inj)
  with j(1) show False by simp
qed

text \<open>
  \<^bold>\<open>Claim C8\<close> (as amended). For every plan \<open>p\<close> and every value \<open>c\<close> of the id counter,
  the plan signature of \<open>Clone p\<close> is the plan signature of \<open>p\<close>, and the ids of the clone
  are the \<open>nodes p\<close> ids that \<open>generateID\<close> issues next, which are pairwise different.
  The clone shares no node id with \<open>p\<close> when the ids of \<open>p\<close> were all issued earlier by
  the same counter: when they are among the \<open>m\<close> ids issued from a counter value \<open>c0\<close>
  up to \<open>c\<close>, the counter not having gone once around its \<open>2^64\<close> values. It can share
  ids with a plan whose ids come from elsewhere.
\<close>

theorem Clone_signature_and_ids:
  "getPlanSignature (fst (Clone p c)) = getPlanSignature p
   \<and> nodeIDs (fst (Clone p c)) = map (issuedID c) [0..<nodes p]
   \<and> (nodes p \<le> 2 ^ 64 \<longrightarrow> distinct (nodeIDs (fst (Clone p c))))
   \<and> (set (nodeIDs p) \<subseteq> issuedID c0 ` {..<m} \<and> c = c0 + of_nat m \<and> m + nodes p \<le> 2 ^ 64
        \<longrightarrow> set (nodeIDs (fst (Clone p c))) \<inter> set (nodeIDs p) = {})"
  using Clone_ids_distinct [of p c] Clone_ids_fresh [of p c0 m c]
  by (simp add: Clone_signature_aux(1) Clone_ids_aux(1))

text \<open>The Filter over a Project over a Scan, with the ids \<open>node_3\<close>, \<open>node_2\<close> and \<open>node_1\<close>
  that the counter issued from 0, cloned when the counter is 3: the clone has the ids
  \<open>node_4\<close>, \<open>node_5\<close> and \<open>node_6\<close>.\<close>

theorem Clone_signature_and_ids_witness:
  "getPlanSignature (fst (Clone filterOverProject 3)) = getPlanSignature filterOverProject
   \<and> nodeIDs filterOverProject = [''node_3'', ''node_2'', ''node_1'']
   \<and> map (issuedID 0) [0..<3] = [''node_1'', ''node_2'', ''node_3'']
   \<and> nodeIDs (fst (Clone filterOverProject 3)) = [''node_4'', ''node_5'', ''node_6'']
   \<and> distinct (nodeIDs (fst (Clone filterOverProject 3)))
   \<and> set (nodeIDs (fst (Clone filterOverProject 3))) \<inter> set (nodeIDs filterOverProject) = {}"
proof -
  have n: "nodes filterOverProject = 3"
    "nodeIDs filterOverProject = [''node_3'', ''node_2'', ''node_1'']"
    by (simp_all add: filterOverProject_def scanNode_def filterFields_def projectFields_def
          zeroFields_def)
  have u: "[0..<3] = [0, 1, 2::nat]" by (simp add: upt_rec)
  have i0: "map (issuedID 0) [0..<3] = [''node_1'', ''node_2'', ''node_3'']"
    unfolding u by (simp add: issuedID_def generateID_def Sprintf_d_def decimal.simps)
  have i3: "map (issuedID 3) [0..<3] = [''node_4'', ''node_5'', ''node_6'']"
    unfolding u by (simp add: issuedID_def generateID_def Sprintf_d_def decimal.simps)
  have "issuedID 0 ` {..<3} = set (map (issuedID 0) [0..<3])"
    by (simp add: atLeast0LessThan [symmetric] del: upt_Suc)
  then have sub: "set (nodeIDs filterOverProject) \<subseteq> issuedID 0 ` {..<3}"
    unfolding i0 n(2) by auto
  have c: "(3::int64) = 0 + of_nat 3" by simp
  have b: "(3::nat) + nodes filterOverProject \<le> 2 ^ 64" "nodes filterOverProject \<le> 2 ^ 64"
    unfolding n(1) by simp_all
  from Clone_signature_and_ids [of filterOverProject 3 0 3] sub c b
  have 1: "getPlanSignature (fst (Clone filterOverProject 3)) = getPlanSignature filterOverProject"
    and 2: "nodeIDs (fst (Clone filterOverProject 3)) = map (issuedID 3) [0..<nodes filterOverProject]"
    and 3: "distinct (nodeIDs (fst (Clone filterOverProject 3)))"
    and 4: "set (nodeIDs (fst (Clone filterOverProject 3))) \<inter> set (nodeIDs filterOverProject) = {}"
    by blast+
  from 2 have 2: "nodeIDs (fst (Clone filterOverProject 3)) = [''node_4'', ''node_5'', ''node_6'']"
    unfolding n(1) i3 .
  from 1 n(2) i0 2 3 4 show ?thesis by (intro conjI)
qed

text \<open>The claim as stated fails for a plan that was not built by this process, such as
  one decoded from a request: the Scan node with id \<open>node_1\<close>, cloned when the counter is
  0, gets the id \<open>node_1\<close> again.\<close>

theorem Clone_shares_id_counterexample:
  "nodeIDs (scanNode ''node_1'' ''t'') = [''node_1'']
   \<and> nodeIDs (fst (Clone (scanNode ''node_1'' ''t'') 0)) = [''node_1'']
   \<and> set (nodeIDs (fst (Clone (scanNode ''node_1'' ''t'') 0)))
       \<inter> set (nodeIDs (scanNode ''node_1'' ''t'')) \<noteq> {}"
  by (simp add: scanNode_def zeroFields_def generateID_def Sprintf_d_def decimal.simps)

section \<open>The catalog\<close>


lemma fold_updateColumnAt_prefix:
  "n \<le> length arr \<Longrightarrow>
   fold (updateColumnAt st) [0..<n] arr = map (overwriteStats st) (take n arr) @ drop n arr"
proof (induction n)
  case 0
  show ?case by simp
next
  case (Suc n)
  then have n: "n < length arr" by simp
  let ?done = "map (overwriteStats st) (take n arr)"
  have len: "length ?done = n" using n by simp
  have dr: "drop n arr = arr ! n # drop (Suc n) arr"
    using n by (simp add: Cons_nth_drop_Suc)
  have "fold (updateColumnAt st) [0..<Suc n] arr
        = updateColumnAt st n (?done @ drop n arr)"
    using Suc.IH n by simp
  also have "\<dots> = ?done @ (overwriteStats st (arr ! n) # drop (Suc n) arr)"
  proof -
    let ?cur = "?done @ arr ! n # drop (Suc n) arr"
    have nth: "?cur ! n = arr ! n"
      using n by (simp add: nth_append)
    have upd: "?cur[n := v] = ?done @ v # drop (Suc n) arr" for v
      using n by (simp add: list_update_append)
    have "updateColumnAt st n ?cur = ?done @ (overwriteStats st (arr ! n) # drop (Suc n) arr)"
      unfolding updateColumnAt_def nth upd overwriteStats_def
      by (cases "st (ColName (arr ! n))") simp_all
    then show ?thesis by (simp only: dr)
  qed
  also have "\<dots> = map (overwriteStats st) (take (Suc n) arr) @ drop (Suc n) arr"
    using n by (simp add: take_Suc_conv_app_nth)
  finally show ?case .
qed

lemma fold_updateColumnAt:
  "fold (updateColumnAt st) [0..<length arr] arr = map (overwriteStats st) arr"
  using fold_updateColumnAt_prefix [of "length arr" arr st] by simp

lemma UpdateTableStats_found:
  assumes "tables cm tableName = Some table"
  shows "UpdateTableStats cm tableName rowCount st =
     (None, cm\<lparr> schemas := (schemas cm)(table := (schemas cm table)\<lparr> RowCount := rowCount \<rparr>),
               columnArrays := (columnArrays cm)
                 (Columns (schemas cm table) :=
                    map (overwriteStats st) (columnArrays cm (Columns (schemas cm table)))) \<rparr>)"
  using assms by (simp add: UpdateTableStats_def Let_def fold_updateColumnAt)



lemma AddTable_facts:
  "fst (AddTable cm schema) = Some (AlreadyExists (SchemaName (schemas cm schema)))
      \<longleftrightarrow> tables cm (SchemaName (schemas cm schema)) \<noteq> None"
  "fst (AddTable cm schema) = None
      \<longleftrightarrow> tables cm (SchemaName (schemas cm schema)) = None"
  "fst (AddTable cm schema) \<noteq> None \<longrightarrow> snd (AddTable cm schema) = cm"
  "fst (AddTable cm schema) = None \<longrightarrow>
        snd (AddTable cm schema)
          = cm\<lparr> tables := (tables cm)(SchemaName (schemas cm schema) \<mapsto> schema) \<rparr>"
  by (simp_all add: AddTable_def Let_def)

lemma UpdateTableStats_error_facts:
  "fst (UpdateTableStats cm tableName rowCount st) = Some (NotFound tableName)
      \<longleftrightarrow> tables cm tableName = None"
  "fst (UpdateTableStats cm tableName rowCount st) = None
      \<longleftrightarrow> tables cm tableName \<noteq> None"
  "fst (UpdateTableStats cm tableName rowCount st) \<noteq> None
      \<longrightarrow> snd (UpdateTableStats cm tableName rowCount st) = cm"
  by (cases "tables cm tableName"; simp add: UpdateTableStats_def Let_def)+

lemma UpdateTableStats_effect:
  "\<forall>table. tables cm tableName = Some table \<longrightarrow>
        (let t = schemas cm table; cm' = snd (UpdateTableStats cm tableName rowCount st) in
           tables cm' = tables cm
         \<and> schemas cm' table = t\<lparr> RowCount := rowCount \<rparr>
         \<and> (\<forall>a. a \<noteq> table \<longrightarrow> schemas cm' a = schemas cm a)
         \<and> columnArrays cm' (Columns t) = map (overwriteStats st) (columnArrays cm (Columns t))
         \<and> (\<forall>a. a \<noteq> Columns t \<longrightarrow> columnArrays cm' a = columnArrays cm a))"
  by (simp add: UpdateTableStats_found Let_def)

lemma overwriteStats_facts:
  "\<forall>col. st (ColName col) = None \<longrightarrow> overwriteStats st col = col"
  "\<forall>col stats. st (ColName col) = Some stats \<longrightarrow>
        overwriteStats st col
          = \<lparr> ColName = ColName col, ColDataType = ColDataType col, Nullable = Nullable col,
              NDV = NDV stats, MinValue = MinValue stats, MaxValue = MaxValue stats,
              Histogram = Histogram stats, NullCount = NullCount stats \<rparr>"
  by (simp_all add: overwriteStats_def)



text \<open>
  \<^bold>\<open>Claim C9.\<close> \<open>AddTable\<close> fails, with \<open>AlreadyExists\<close>, exactly when a table of that
  name is present, and then leaves the catalog as it was; otherwise it enters the table.
  \<open>UpdateTableStats\<close> fails, with \<open>NotFound\<close>, exactly when the table is absent, and then
  leaves the catalog as it was; otherwise it sets \<open>RowCount\<close> in the table's struct and
  applies \<open>overwriteStats\<close> to every column of the table's array, and touches no other
  struct, array or name. \<open>overwriteStats\<close> changes a column only if the supplied map has
  an entry under its name, and then only the five statistics.
\<close>

theorem catalog_errors_and_updates:
  "(fst (AddTable cm schema) = Some (AlreadyExists (SchemaName (schemas cm schema)))
      \<longleftrightarrow> tables cm (SchemaName (schemas cm schema)) \<noteq> None)
   \<and> (fst (AddTable cm schema) = None
      \<longleftrightarrow> tables cm (SchemaName (schemas cm schema)) = None)
   \<and> (fst (AddTable cm schema) \<noteq> None \<longrightarrow> snd (AddTable cm schema) = cm)
   \<and> (fst (AddTable cm schema) = None \<longrightarrow>
        snd (AddTable cm schema)
          = cm\<lparr> tables := (tables cm)(SchemaName (schemas cm schema) \<mapsto> schema) \<rparr>)
   \<and> (fst (UpdateTableStats cm tableName rowCount st) = Some (NotFound tableName)
      \<longleftrightarrow> tables cm tableName = None)
   \<and> (fst (UpdateTableStats cm tableName rowCount st) = None
      \<longleftrightarrow> tables cm tableName \<noteq> None)
   \<and> (fst (UpdateTableStats cm tableName rowCount st) \<noteq> None
      \<longrightarrow> snd (UpdateTableStats cm tableName rowCount st) = cm)
   \<and> (\<forall>table. tables cm tableName = Some table \<longrightarrow>
        (let t = schemas cm table; cm' = snd (UpdateTableStats cm tableName rowCount st) in
           tables cm' = tables cm
         \<and> schemas cm' table = t\<lparr> RowCount := rowCount \<rparr>
         \<and> (\<forall>a. a \<noteq> table \<longrightarrow> schemas cm' a = schemas cm a)
         \<and> columnArrays cm' (Columns t) = map (overwriteStats st) (columnArrays cm (Columns t))
         \<and> (\<forall>a. a \<noteq> Columns t \<longrightarrow> columnArrays cm' a = columnArrays cm a)))
   \<and> (\<forall>col. st (ColName col) = None \<longrightarrow> overwriteStats st col = col)
   \<and> (\<forall>col stats. st (ColName col) = Some stats \<longrightarrow>
        overwriteStats st col
          = \<lparr> ColName = ColName col, ColDataType = ColDataType col, Nullable = Nullable col,
              NDV = NDV stats, MinValue = MinValue stats, MaxValue = MaxValue stats,
              Histogram = Histogram stats, NullCount = NullCount stats \<rparr>)"
  by (intro conjI AddTable_facts UpdateTableStats_error_facts UpdateTableStats_effect
        overwriteStats_facts)

lemma customers_lookup:
  "tables customersCatalog ''customers'' = Some 3"
  "tables customersCatalog ''orders'' = None"
  "schemas customersCatalog 3 = customersSchema"
  "columnArrays customersCatalog 7 = [ageColumn, nameColumn]"
  by (simp_all add: customersCatalog_def)

text \<open>The sample catalog: adding \<open>customers\<close> again, updating the absent \<open>orders\<close>,
  and updating \<open>customers\<close> with statistics for \<open>age\<close> only.\<close>

theorem catalog_errors_and_updates_witness:
  "fst (AddTable customersCatalog 3) = Some (AlreadyExists ''customers'')
   \<and> snd (AddTable customersCatalog 3) = customersCatalog
   \<and> fst (UpdateTableStats customersCatalog ''orders'' 9999 [''age'' \<mapsto> ageStats])
       = Some (NotFound ''orders'')
   \<and> snd (UpdateTableStats customersCatalog ''orders'' 9999 [''age'' \<mapsto> ageStats])
       = customersCatalog
   \<and> fst (UpdateTableStats customersCatalog ''customers'' 9999 [''age'' \<mapsto> ageStats]) = None
   \<and> RowCount (schemas (snd (UpdateTableStats customersCatalog ''customers'' 9999
         [''age'' \<mapsto> ageStats])) 3) = 9999
   \<and> columnArrays (snd (UpdateTableStats customersCatalog ''customers'' 9999
         [''age'' \<mapsto> ageStats])) 7
       = [ageColumn\<lparr> NDV := Some 80, MinValue := Some ''1'', MaxValue := Some ''99'',
                      NullCount := Some 5 \<rparr>, nameColumn]"
proof -
  have a: "tables customersCatalog (SchemaName (schemas customersCatalog 3)) \<noteq> None"
    by (simp add: customers_lookup customersSchema_def)
  have n: "SchemaName (schemas customersCatalog 3) = ''customers''"
    by (simp add: customers_lookup customersSchema_def)
  have 1: "fst (AddTable customersCatalog 3) = Some (AlreadyExists ''customers'')"
    using catalog_errors_and_updates [of customersCatalog 3] a n by simp
  have 2: "snd (AddTable customersCatalog 3) = customersCatalog"
    using catalog_errors_and_updates [of customersCatalog 3] 1 by simp
  have 3: "fst (UpdateTableStats customersCatalog ''orders'' 9999 [''age'' \<mapsto> ageStats])
       = Some (NotFound ''orders'')"
    using catalog_errors_and_updates [of customersCatalog _ "''orders''" 9999 "[''age'' \<mapsto> ageStats]"]
      customers_lookup(2) by simp
  have 4: "snd (UpdateTableStats customersCatalog ''orders'' 9999 [''age'' \<mapsto> ageStats])
       = customersCatalog"
    using catalog_errors_and_updates [of customersCatalog _ "''orders''" 9999 "[''age'' \<mapsto> ageStats]"]
      3 by simp
  have 5: "fst (UpdateTableStats customersCatalog ''customers'' 9999 [''age'' \<mapsto> ageStats]) = None"
    using catalog_errors_and_updates [of customersCatalog _ "''customers''" 9999 "[''age'' \<mapsto> ageStats]"]
      customers_lookup(1) by simp
  have eff: "let t = schemas customersCatalog 3;
                 cm' = snd (UpdateTableStats customersCatalog ''customers'' 9999 [''age'' \<mapsto> ageStats])
             in tables cm' = tables customersCatalog
         \<and> schemas cm' 3 = t\<lparr> RowCount := 9999 \<rparr>
         \<and> (\<forall>a. a \<noteq> 3 \<longrightarrow> schemas cm' a = schemas customersCatalog a)
         \<and> columnArrays cm' (Columns t)
             = map (overwriteStats [''age'' \<mapsto> ageStats]) (columnArrays customersCatalog (Columns t))
         \<and> (\<forall>a. a \<noteq> Columns t \<longrightarrow> columnArrays cm' a = columnArrays customersCatalog a)"
    using catalog_errors_and_updates [of customersCatalog _ "''customers''" 9999 "[''age'' \<mapsto> ageStats]"]
      customers_lookup(1) by blast
  have 6: "RowCount (schemas (snd (UpdateTableStats customersCatalog ''customers'' 9999
         [''age'' \<mapsto> ageStats])) 3) = 9999"
    using eff by (simp add: Let_def)
  have 7: "columnArrays (snd (UpdateTableStats customersCatalog ''customers'' 9999
         [''age'' \<mapsto> ageStats])) 7
       = [ageColumn\<lparr> NDV := Some 80, MinValue := Some ''1'', MaxValue := Some ''99'',
                      NullCount := Some 5 \<rparr>, nameColumn]"
    using eff
    by (simp add: Let_def customers_lookup customersSchema_def overwriteStats_def
          ageColumn_def nameColumn_def ageStats_def)
  from 1 2 3 4 5 6 7 show ?thesis by (intro conjI)
qed

text \<open>
  \<^bold>\<open>Claim C5\<close> (the code departs from it). \<open>GetTable\<close> copies the struct but not the
  backing array of \<open>Columns\<close>. In the sample catalog the snapshot of \<open>customers\<close> reads
  NDV 70 for its first column; after \<open>UpdateTableStats\<close> the same snapshot reads NDV 80,
  while its \<open>RowCount\<close> is still 5000 and the catalog's is 9999.
\<close>

theorem GetTable_snapshot_is_aliased:
  "GetTable customersCatalog ''customers'' = Inr customersSchema
   \<and> snapshotColumns customersCatalog customersSchema = [ageColumn, nameColumn]
   \<and> NDV (snapshotColumns customersCatalog customersSchema ! 0) = Some 70
   \<and> fst (UpdateTableStats customersCatalog ''customers'' 9999 [''age'' \<mapsto> ageStats]) = None
   \<and> NDV (snapshotColumns
            (snd (UpdateTableStats customersCatalog ''customers'' 9999 [''age'' \<mapsto> ageStats]))
            customersSchema ! 0) = Some 80
   \<and> RowCount customersSchema = 5000
   \<and> map_sum id RowCount
        (GetTable (snd (UpdateTableStats customersCatalog ''customers'' 9999
           [''age'' \<mapsto> ageStats])) ''customers'') = Inr 9999"
  by (simp add: GetTable_def snapshotColumns_def UpdateTableStats_found customers_lookup
        customersSchema_def overwriteStats_def ageColumn_def nameColumn_def ageStats_def)

section \<open>The cardinality estimate\<close>


lemmas NodeType_defs =
  NodeTypeScan_def NodeTypeFilter_def NodeTypeProject_def NodeTypeJoin_def
  NodeTypeAggregate_def NodeTypeSort_def NodeTypeLimit_def NodeTypeUnion_def
  NodeTypeSubquery_def

lemmas JoinType_defs =
  JoinTypeInner_def JoinTypeLeft_def JoinTypeRight_def JoinTypeFull_def JoinTypeCross_def

lemma sint_smin: "sint (smin a b) = min (sint a) (sint b)"
  by (simp add: smin_def word_sless_alt min_def)

lemma EstimateCardinality_Scan:
  "NodeType f = NodeTypeScan \<Longrightarrow>
   EstimateCardinality (LogicalPlan f cs) cat
     = Inr (case tables cat (TableName f) of None \<Rightarrow> 1000 | Some a \<Rightarrow> RowCount (schemas cat a))"
  by (simp add: GetTable_def split: option.splits)

lemma EstimateCardinality_Filter:
  "NodeType f = NodeTypeFilter \<Longrightarrow> EstimateCardinality c0 cat = Inr n \<Longrightarrow>
   EstimateCardinality (LogicalPlan f (c0 # rest)) cat
     = Inr (int64_of (float64 n * estimateSelectivity (Predicate f) cat))"
  by (simp add: NodeType_defs)

lemma EstimateCardinality_Join:
  "NodeType f = NodeTypeJoin \<Longrightarrow> EstimateCardinality L cat = Inr l \<Longrightarrow>
   EstimateCardinality R cat = Inr r \<Longrightarrow>
   EstimateCardinality (LogicalPlan f (L # R # rest)) cat
     = Inr (if JoinType f = JoinTypeCross then l * r
            else if JoinType f = JoinTypeInner then int64_of (float64 (l * r) * (1 / 10))
            else if JoinType f = JoinTypeLeft then l
            else if JoinType f = JoinTypeRight then r
            else if JoinType f = JoinTypeFull then l + r
            else int64_of (float64 (l * r) * (1 / 10)))"
  by (simp add: NodeType_defs)

lemma EstimateCardinality_Limit:
  "NodeType f = NodeTypeLimit \<Longrightarrow> EstimateCardinality c0 cat = Inr n \<Longrightarrow>
   EstimateCardinality (LogicalPlan f (c0 # rest)) cat
     = Inr (case LimitCount f of None \<Rightarrow> n | Some k \<Rightarrow> smin n k)"
  by (simp add: NodeType_defs smin_def split: option.splits)



text \<open>
  \<^bold>\<open>Claim C4\<close> (as amended). The cardinality of a Scan is the row count that the catalog
  holds for its table, and 1000 when the catalog has no such table. For a Join with
  children \<open>L\<close> and \<open>R\<close> of cardinalities \<open>l\<close> and \<open>r\<close> it is \<open>int64(float64(l*r) * 0.1)\<close>
  for inner, \<open>l*r\<close> for cross, \<open>l\<close> for left, \<open>r\<close> for right and \<open>l+r\<close> for full, where
  the products and the sum are those of \<open>int64\<close> and wrap around: they are the product and
  the sum of the two numbers when these fit in an \<open>int64\<close>. For a Limit over a child of
  cardinality \<open>n\<close> it is the smaller of \<open>n\<close> and the count, and \<open>n\<close> when there is no
  count.
\<close>

theorem EstimateCardinality_rules:
  "(NodeType f = NodeTypeScan \<longrightarrow>
      EstimateCardinality (LogicalPlan f cs) cat
        = Inr (case tables cat (TableName f) of
                 None \<Rightarrow> 1000
               | Some a \<Rightarrow> RowCount (schemas cat a)))
   \<and> (NodeType f = NodeTypeJoin \<and> EstimateCardinality L cat = Inr l
        \<and> EstimateCardinality R cat = Inr r \<longrightarrow>
      (JoinType f = JoinTypeInner \<longrightarrow>
         EstimateCardinality (LogicalPlan f (L # R # rest)) cat
           = Inr (int64_of (float64 (l * r) * (1 / 10)))
         \<and> (- (2 ^ 63) \<le> sint l * sint r \<and> sint l * sint r < 2 ^ 63
              \<longrightarrow> sint (l * r) = sint l * sint r))
      \<and> (JoinType f = JoinTypeCross \<longrightarrow>
         EstimateCardinality (LogicalPlan f (L # R # rest)) cat = Inr (l * r)
         \<and> (- (2 ^ 63) \<le> sint l * sint r \<and> sint l * sint r < 2 ^ 63
              \<longrightarrow> sint (l * r) = sint l * sint r))
      \<and> (JoinType f = JoinTypeLeft \<longrightarrow>
         EstimateCardinality (LogicalPlan f (L # R # rest)) cat = Inr l)
      \<and> (JoinType f = JoinTypeRight \<longrightarrow>
         EstimateCardinality (LogicalPlan f (L # R # rest)) cat = Inr r)
      \<and> (JoinType f = JoinTypeFull \<longrightarrow>
         EstimateCardinality (LogicalPlan f (L # R # rest)) cat = Inr (l + r)
         \<and> (- (2 ^ 63) \<le> sint l + sint r \<and> sint l + sint r < 2 ^ 63
              \<longrightarrow> sint (l + r) = sint l + sint r)))
   \<and> (NodeType f = NodeTypeLimit \<and> EstimateCardinality child cat = Inr n \<longrightarrow>
      (\<forall>k. LimitCount f = Some k \<longrightarrow>
         EstimateCardinality (LogicalPlan f (child # others)) cat = Inr (smin n k)
         \<and> sint (smin n k) = min (sint n) (sint k))
      \<and> (LimitCount f = None \<longrightarrow>
         EstimateCardinality (LogicalPlan f (child # others)) cat = Inr n))"
proof -
  have m: "sint (l * r) = sint l * sint r"
    if "- (2 ^ 63) \<le> sint l * sint r \<and> sint l * sint r < 2 ^ 63"
    using that by (simp add: sint_word_ariths signed_take_bit_int_eq_self)
  have p: "sint (l + r) = sint l + sint r"
    if "- (2 ^ 63) \<le> sint l + sint r \<and> sint l + sint r < 2 ^ 63"
    using that by (simp add: sint_word_ariths signed_take_bit_int_eq_self)
  show ?thesis
    using m p
    by (auto simp: EstimateCardinality_Scan EstimateCardinality_Join EstimateCardinality_Limit
          sint_smin JoinType_defs simp del: EstimateCardinality.simps)
qed

lemma toward_zero_of_int: "toward_zero (real_of_int a) = a"
  by (simp add: toward_zero_def)

lemma float64_numeral_evals:
  "float64 1000 = 1000" "float64 5000 = 5000" "float64 5000000 = 5000000"
  by (simp_all add: float64_def)

lemma scan_customers: "EstimateCardinality (scanNode i ''customers'') customersCatalog = Inr 5000"
  by (simp add: scanNode_def zeroFields_def GetTable_def customers_lookup customersSchema_def)

lemma scan_orders: "EstimateCardinality (scanNode i ''orders'') customersCatalog = Inr 1000"
  by (simp add: scanNode_def zeroFields_def GetTable_def customers_lookup)

text \<open>The sample catalog: \<open>customers\<close> has 5000 rows, \<open>orders\<close> is unknown. The product
  and the sum of 5000 and 1000 fit in an \<open>int64\<close>.\<close>

theorem EstimateCardinality_rules_witness:
  "EstimateCardinality (scanNode ''node_1'' ''customers'') customersCatalog = Inr 5000
   \<and> EstimateCardinality (scanNode ''node_2'' ''orders'') customersCatalog = Inr 1000
   \<and> EstimateCardinality (LogicalPlan (joinFields ''node_3'' JoinTypeInner)
        [scanNode ''node_1'' ''customers'', scanNode ''node_2'' ''orders'']) customersCatalog
      = Inr 500000
   \<and> EstimateCardinality (LogicalPlan (joinFields ''node_3'' JoinTypeCross)
        [scanNode ''node_1'' ''customers'', scanNode ''node_2'' ''orders'']) customersCatalog
      = Inr 5000000
   \<and> sint (5000 * 1000 :: int64) = sint (5000 :: int64) * sint (1000 :: int64)
   \<and> EstimateCardinality (LogicalPlan (joinFields ''node_3'' JoinTypeLeft)
        [scanNode ''node_1'' ''customers'', scanNode ''node_2'' ''orders'']) customersCatalog
      = Inr 5000
   \<and> EstimateCardinality (LogicalPlan (joinFields ''node_3'' JoinTypeRight)
        [scanNode ''node_1'' ''customers'', scanNode ''node_2'' ''orders'']) customersCatalog
      = Inr 1000
   \<and> EstimateCardinality (LogicalPlan (joinFields ''node_3'' JoinTypeFull)
        [scanNode ''node_1'' ''customers'', scanNode ''node_2'' ''orders'']) customersCatalog
      = Inr 6000
   \<and> sint (5000 + 1000 :: int64) = sint (5000 :: int64) + sint (1000 :: int64)
   \<and> EstimateCardinality (LogicalPlan (limitFields ''node_4'' (Some 10))
        [scanNode ''node_1'' ''customers'']) customersCatalog = Inr 10
   \<and> EstimateCardinality (LogicalPlan (limitFields ''node_4'' (Some 9000))
        [scanNode ''node_1'' ''customers'']) customersCatalog = Inr 5000
   \<and> EstimateCardinality (LogicalPlan (limitFields ''node_4'' None)
        [scanNode ''node_1'' ''customers'']) customersCatalog = Inr 5000"
proof -
  let ?L = "scanNode ''node_1'' ''customers''" and ?R = "scanNode ''node_2'' ''orders''"
  have L: "EstimateCardinality ?L customersCatalog = Inr 5000" by (rule scan_customers)
  have R: "EstimateCardinality ?R customersCatalog = Inr 1000" by (rule scan_orders)
  have j: "NodeType (joinFields i jt) = NodeTypeJoin" "JoinType (joinFields i jt) = jt" for i jt
    by (simp_all add: joinFields_def zeroFields_def)
  have lim: "NodeType (limitFields i k) = NodeTypeLimit" "LimitCount (limitFields i k) = k" for i k
    by (simp_all add: limitFields_def zeroFields_def)
  have inner: "int64_of (float64 (5000 * 1000) * (1 / 10)) = 500000"
    by (simp add: int64_of_def float64_def toward_zero_def)
  have sm: "smin 5000 10 = (10 :: int64)" "smin 5000 9000 = (5000 :: int64)"
    by (simp_all add: smin_def word_sless_alt)
  have fit: "- (2 ^ 63) \<le> sint (5000 :: int64) * sint (1000 :: int64)
      \<and> sint (5000 :: int64) * sint (1000 :: int64) < 2 ^ 63"
    "- (2 ^ 63) \<le> sint (5000 :: int64) + sint (1000 :: int64)
      \<and> sint (5000 :: int64) + sint (1000 :: int64) < 2 ^ 63"
    by simp_all
  note r = EstimateCardinality_rules [where cat = customersCatalog and L = "?L" and R = "?R"
      and l = 5000 and r = 1000 and rest = "[]" and child = "?L" and n = 5000 and others = "[]"]
  have 1: "EstimateCardinality (LogicalPlan (joinFields ''node_3'' JoinTypeInner) [?L, ?R])
             customersCatalog = Inr 500000"
    using r [where f = "joinFields ''node_3'' JoinTypeInner"] L R j inner by simp
  have 2: "EstimateCardinality (LogicalPlan (joinFields ''node_3'' JoinTypeCross) [?L, ?R])
             customersCatalog = Inr 5000000"
    using r [where f = "joinFields ''node_3'' JoinTypeCross"] L R j by simp
  have m2: "sint (5000 * 1000 :: int64) = sint (5000 :: int64) * sint (1000 :: int64)"
    using r [where f = "joinFields ''node_3'' JoinTypeCross"] L R j fit(1) by blast
  have 3: "EstimateCardinality (LogicalPlan (joinFields ''node_3'' JoinTypeLeft) [?L, ?R])
             customersCatalog = Inr 5000"
    using r [where f = "joinFields ''node_3'' JoinTypeLeft"] L R j by simp
  have 4: "EstimateCardinality (LogicalPlan (joinFields ''node_3'' JoinTypeRight) [?L, ?R])
             customersCatalog = Inr 1000"
    using r [where f = "joinFields ''node_3'' JoinTypeRight"] L R j by simp
  have 5: "EstimateCardinality (LogicalPlan (joinFields ''node_3'' JoinTypeFull) [?L, ?R])
             customersCatalog = Inr 6000"
    using r [where f = "joinFields ''node_3'' JoinTypeFull"] L R j by simp
  have m5: "sint (5000 + 1000 :: int64) = sint (5000 :: int64) + sint (1000 :: int64)"
    using r [where f = "joinFields ''node_3'' JoinTypeFull"] L R j fit(2) by blast
  have 6: "EstimateCardinality (LogicalPlan (limitFields ''node_4'' (Some 10)) [?L])
             customersCatalog = Inr 10"
    using r [where f = "limitFields ''node_4'' (Some 10)"] L lim sm by simp
  have 7: "EstimateCardinality (LogicalPlan (limitFields ''node_4'' (Some 9000)) [?L])
             customersCatalog = Inr 5000"
    using r [where f = "limitFields ''node_4'' (Some 9000)"] L lim sm by simp
  have 8: "EstimateCardinality (LogicalPlan (limitFields ''node_4'' None) [?L])
             customersCatalog = Inr 5000"
    using r [where f = "limitFields ''node_4'' None"] L lim by simp
  from L R 1 2 m2 3 4 5 m5 6 7 8 show ?thesis by (intro conjI)
qed

lemma scan_huge: "EstimateCardinality (scanNode i ''huge'') hugeCatalog = Inr 4294967296"
  by (simp add: scanNode_def zeroFields_def GetTable_def hugeCatalog_def)

text \<open>The claim as stated fails where the \<open>int64\<close> product wraps around. Over two Scans
  of a table of \<open>2^32\<close> rows, the cardinality of the cross join is 0 and not \<open>2^64\<close>, and
  the cardinality of the inner join is 0, where a tenth of the product of the two
  cardinalities is 1844674407370955161, which fits in an \<open>int64\<close>.\<close>

theorem EstimateCardinality_wraps_counterexample:
  "EstimateCardinality (scanNode ''node_1'' ''huge'') hugeCatalog = Inr 4294967296
   \<and> EstimateCardinality (scanNode ''node_2'' ''huge'') hugeCatalog = Inr 4294967296
   \<and> EstimateCardinality (LogicalPlan (joinFields ''node_3'' JoinTypeCross)
        [scanNode ''node_1'' ''huge'', scanNode ''node_2'' ''huge'']) hugeCatalog = Inr 0
   \<and> EstimateCardinality (LogicalPlan (joinFields ''node_3'' JoinTypeInner)
        [scanNode ''node_1'' ''huge'', scanNode ''node_2'' ''huge'']) hugeCatalog = Inr 0
   \<and> sint (4294967296 :: int64) * sint (4294967296 :: int64) = 18446744073709551616
   \<and> toward_zero (real_of_int (sint (4294967296 :: int64) * sint (4294967296 :: int64))
        * (1 / 10)) = 1844674407370955161
   \<and> (1844674407370955161 :: int) < 2 ^ 63"
proof -
  let ?L = "scanNode ''node_1'' ''huge''" and ?R = "scanNode ''node_2'' ''huge''"
  have j: "NodeType (joinFields i jt) = NodeTypeJoin" "JoinType (joinFields i jt) = jt" for i jt
    by (simp_all add: joinFields_def zeroFields_def)
  have w: "(4294967296 :: int64) * 4294967296 = 0" by simp
  have z: "int64_of (float64 0 * (1 / 10)) = 0"
    by (simp add: int64_of_def float64_def toward_zero_def)
  have 1: "EstimateCardinality (LogicalPlan (joinFields ''node_3'' JoinTypeCross) [?L, ?R])
      hugeCatalog = Inr 0"
    unfolding EstimateCardinality_Join [OF j(1) scan_huge scan_huge] j(2) w
    by (simp add: JoinType_defs)
  have 2: "EstimateCardinality (LogicalPlan (joinFields ''node_3'' JoinTypeInner) [?L, ?R])
      hugeCatalog = Inr 0"
    unfolding EstimateCardinality_Join [OF j(1) scan_huge scan_huge] j(2) w z
    by (simp add: JoinType_defs)
  have 3: "sint (4294967296 :: int64) * sint (4294967296 :: int64) = 18446744073709551616"
    by simp
  have 4: "toward_zero (real_of_int (sint (4294967296 :: int64) * sint (4294967296 :: int64))
        * (1 / 10)) = 1844674407370955161"
    unfolding 3 by (simp add: toward_zero_def)
  have 5: "(1844674407370955161 :: int) < 2 ^ 63" by simp
  from scan_huge [of "''node_1''"] scan_huge [of "''node_2''"] 1 2 3 4 5
  show ?thesis by (intro conjI)
qed

lemma arityOK_limitsHaveChild: "arityOK p \<Longrightarrow> limitsHaveChild p"
  by (induction p rule: arityOK.induct) auto

lemma EstimateCardinality_cases:
  "NodeType f = NodeTypeFilter \<Longrightarrow>
     EstimateCardinality (LogicalPlan f cs) cat =
       (case cs of [] \<Rightarrow> Inr 0
        | c0 # _ \<Rightarrow>
            (case EstimateCardinality c0 cat of
               Inl err \<Rightarrow> Inl err
             | Inr n \<Rightarrow> Inr (int64_of (float64 n * estimateSelectivity (Predicate f) cat))))"
  "NodeType f = NodeTypeProject \<Longrightarrow>
     EstimateCardinality (LogicalPlan f cs) cat =
       (case cs of [] \<Rightarrow> Inr 0 | c0 # _ \<Rightarrow> EstimateCardinality c0 cat)"
  "NodeType f = NodeTypeSort \<Longrightarrow>
     EstimateCardinality (LogicalPlan f cs) cat =
       (case cs of [] \<Rightarrow> Inr 0 | c0 # _ \<Rightarrow> EstimateCardinality c0 cat)"
  "NodeType f = NodeTypeAggregate \<Longrightarrow>
     EstimateCardinality (LogicalPlan f cs) cat =
       (case cs of [] \<Rightarrow> Inr 1
        | c0 # _ \<Rightarrow>
            (case EstimateCardinality c0 cat of
               Inl err \<Rightarrow> Inl err
             | Inr n \<Rightarrow> if length (GroupBy f) = 0 then Inr 1
                         else Inr (int64_of (float64 n * (1 / 10)))))"
  "NodeType f \<notin> {NodeTypeScan, NodeTypeFilter, NodeTypeProject, NodeTypeJoin,
      NodeTypeAggregate, NodeTypeSort, NodeTypeLimit} \<Longrightarrow>
     EstimateCardinality (LogicalPlan f cs) cat = Inr 1000"
  by (simp_all add: NodeType_defs cong: list.case_cong option.case_cong sum.case_cong)

lemma EstimateCardinality_Limit_cases:
  "NodeType f = NodeTypeLimit \<Longrightarrow>
     EstimateCardinality (LogicalPlan f cs) cat =
       (case LimitCount f of
          Some limit \<Rightarrow>
            (case cs of [] \<Rightarrow> Inl Panic
             | c0 # _ \<Rightarrow>
                 (case EstimateCardinality c0 cat of
                    Inl err \<Rightarrow> Inl err
                  | Inr n \<Rightarrow> Inr (smin n limit)))
        | None \<Rightarrow> (case cs of [] \<Rightarrow> Inr 0 | c0 # _ \<Rightarrow> EstimateCardinality c0 cat))"
  by (simp add: NodeType_defs smin_def split: option.splits list.splits sum.splits)

lemma EstimateCardinality_Join_cases:
  "NodeType f = NodeTypeJoin \<Longrightarrow>
     EstimateCardinality (LogicalPlan f cs) cat =
       (case cs of
          c0 # c1 # _ \<Rightarrow>
            (case EstimateCardinality c0 cat of
               Inl err \<Rightarrow> Inl err
             | Inr l \<Rightarrow>
                 (case EstimateCardinality c1 cat of
                    Inl err \<Rightarrow> Inl err
                  | Inr r \<Rightarrow>
                      Inr (if JoinType f = JoinTypeCross then l * r
                           else if JoinType f = JoinTypeInner
                             then int64_of (float64 (l * r) * (1 / 10))
                           else if JoinType f = JoinTypeLeft then l
                           else if JoinType f = JoinTypeRight then r
                           else if JoinType f = JoinTypeFull then l + r
                           else int64_of (float64 (l * r) * (1 / 10)))))
        | _ \<Rightarrow> Inr 0)"
  by (simp add: NodeType_defs split: list.splits sum.splits)

lemma EstimateCardinality_total:
  "limitsHaveChild p \<Longrightarrow> \<exists>n. EstimateCardinality p cat = Inr n"
proof (induction p)
  case (LogicalPlan f cs)
  have IH: "\<exists>n. EstimateCardinality c cat = Inr n" if "c \<in> set cs" for c
    using LogicalPlan.IH [OF that] LogicalPlan.prems that by simp
  have hd: "\<exists>n. EstimateCardinality c0 cat = Inr n" if "cs = c0 # rest" for c0 rest
    using IH [of c0] that by simp
  have hd2: "\<exists>n. EstimateCardinality c1 cat = Inr n" if "cs = c0 # c1 # rest" for c0 c1 rest
    using IH [of c1] that by simp
  consider (scan) "NodeType f = NodeTypeScan" | (filter) "NodeType f = NodeTypeFilter"
    | (project) "NodeType f = NodeTypeProject" | (join) "NodeType f = NodeTypeJoin"
    | (aggregate) "NodeType f = NodeTypeAggregate" | (sort) "NodeType f = NodeTypeSort"
    | (limit) "NodeType f = NodeTypeLimit"
    | (other) "NodeType f \<notin> {NodeTypeScan, NodeTypeFilter, NodeTypeProject, NodeTypeJoin,
        NodeTypeAggregate, NodeTypeSort, NodeTypeLimit}"
    by auto
  then show ?case
  proof cases
    case scan
    then show ?thesis by (simp add: EstimateCardinality_Scan del: EstimateCardinality.simps)
  next
    case filter
    show ?thesis
      unfolding EstimateCardinality_cases(1) [OF filter]
      using hd by (cases cs) auto
  next
    case project
    show ?thesis
      unfolding EstimateCardinality_cases(2) [OF project]
      using hd by (cases cs) auto
  next
    case join
    show ?thesis
      unfolding EstimateCardinality_Join_cases [OF join]
      using hd hd2 by (cases cs; cases "tl cs") auto
  next
    case aggregate
    show ?thesis
      unfolding EstimateCardinality_cases(4) [OF aggregate]
      using hd by (cases cs) auto
  next
    case sort
    show ?thesis
      unfolding EstimateCardinality_cases(3) [OF sort]
      using hd by (cases cs) auto
  next
    case limit
    show ?thesis
      unfolding EstimateCardinality_Limit_cases [OF limit]
      using hd LogicalPlan.prems limit by (cases cs; cases "LimitCount f") auto
  next
    case other
    show ?thesis
      unfolding EstimateCardinality_cases(5) [OF other] by simp
  qed
qed

text \<open>
  \<^bold>\<open>Claim C10.\<close> On a plan that satisfies the arity invariant I1,
  \<open>EstimateCardinality\<close> returns a value: it does not panic (and it loops nowhere, being
  a recursion on the tree). It is enough that every Limit node with a count has a child.
  With no children at all, every node returns a value except a Limit node with a count,
  which panics on \<open>Children[0]\<close>.
\<close>

theorem EstimateCardinality_totality:
  "(arityOK p \<longrightarrow> (\<exists>n. EstimateCardinality p cat = Inr n))
   \<and> (limitsHaveChild p \<longrightarrow> (\<exists>n. EstimateCardinality p cat = Inr n))
   \<and> (\<not> (NodeType f = NodeTypeLimit \<and> LimitCount f \<noteq> None) \<longrightarrow>
        (\<exists>n. EstimateCardinality (LogicalPlan f []) cat = Inr n))
   \<and> (NodeType f = NodeTypeLimit \<and> LimitCount f \<noteq> None \<longrightarrow>
        EstimateCardinality (LogicalPlan f []) cat = Inl Panic)"
proof (intro conjI impI)
  assume "arityOK p"
  then show "\<exists>n. EstimateCardinality p cat = Inr n"
    by (intro EstimateCardinality_total arityOK_limitsHaveChild)
next
  assume "limitsHaveChild p"
  then show "\<exists>n. EstimateCardinality p cat = Inr n" by (rule EstimateCardinality_total)
next
  assume "\<not> (NodeType f = NodeTypeLimit \<and> LimitCount f \<noteq> None)"
  then have "limitsHaveChild (LogicalPlan f [])" by simp
  then show "\<exists>n. EstimateCardinality (LogicalPlan f []) cat = Inr n"
    by (rule EstimateCardinality_total)
next
  assume "NodeType f = NodeTypeLimit \<and> LimitCount f \<noteq> None"
  then show "EstimateCardinality (LogicalPlan f []) cat = Inl Panic"
    by (auto simp: EstimateCardinality_Limit_cases simp del: EstimateCardinality.simps)
qed



theorem EstimateCardinality_totality_witness:
  "arityOK (LogicalPlan (limitFields ''node_2'' (Some 10)) [scanNode ''node_1'' ''customers''])
   \<and> (\<exists>n. EstimateCardinality
          (LogicalPlan (limitFields ''node_2'' (Some 10)) [scanNode ''node_1'' ''customers''])
          customersCatalog = Inr n)
   \<and> (\<exists>n. EstimateCardinality (LogicalPlan (limitFields ''node_2'' None) [])
          customersCatalog = Inr n)
   \<and> EstimateCardinality (LogicalPlan (limitFields ''node_2'' (Some 10)) []) customersCatalog
       = Inl Panic"
proof -
  let ?p = "LogicalPlan (limitFields ''node_2'' (Some 10)) [scanNode ''node_1'' ''customers'']"
  have ok: "arityOK ?p"
    by (simp add: limitFields_def scanNode_def zeroFields_def NodeType_defs)
  have a: "NodeType (limitFields ''node_2'' (Some 10)) = NodeTypeLimit
           \<and> LimitCount (limitFields ''node_2'' (Some 10)) \<noteq> None"
    by (simp add: limitFields_def zeroFields_def)
  have b: "\<not> (NodeType (limitFields ''node_2'' None) = NodeTypeLimit
           \<and> LimitCount (limitFields ''node_2'' None) \<noteq> None)"
    by (simp add: limitFields_def zeroFields_def)
  from ok a b
    EstimateCardinality_totality [of ?p customersCatalog "limitFields ''node_2'' (Some 10)"]
    EstimateCardinality_totality [of ?p customersCatalog "limitFields ''node_2'' None"]
  show ?thesis by blast
qed



lemma estimateSelectivity_table:
  "estimateSelectivity None cat = 1"
  "estimateSelectivity (Some \<lparr> PredExpression = None \<rparr>) cat = 1"
  "Value e = VString ''='' \<Longrightarrow>
     estimateSelectivity (Some \<lparr> PredExpression = Some e \<rparr>) cat = 1 / 10"
  "Value e \<in> {VString ''<'', VString ''>'', VString ''<='', VString ''>=''} \<Longrightarrow>
     estimateSelectivity (Some \<lparr> PredExpression = Some e \<rparr>) cat = 33 / 100"
  "Value e = VString ''LIKE'' \<Longrightarrow>
     estimateSelectivity (Some \<lparr> PredExpression = Some e \<rparr>) cat = 2 / 10"
  "Value e = VString ''IN'' \<Longrightarrow>
     estimateSelectivity (Some \<lparr> PredExpression = Some e \<rparr>) cat = 3 / 10"
  "Value e = VString ''IS NULL'' \<Longrightarrow>
     estimateSelectivity (Some \<lparr> PredExpression = Some e \<rparr>) cat = 5 / 100"
  "Value e = VString ''IS NOT NULL'' \<Longrightarrow>
     estimateSelectivity (Some \<lparr> PredExpression = Some e \<rparr>) cat = 95 / 100"
  "Value e \<notin> {VString ''='', VString ''<'', VString ''>'', VString ''<='', VString ''>='',
       VString ''LIKE'', VString ''IN'', VString ''IS NULL'', VString ''IS NOT NULL''} \<Longrightarrow>
     estimateSelectivity (Some \<lparr> PredExpression = Some e \<rparr>) cat = 1 / 2"
  by (auto simp: estimateSelectivity_def)

lemma estimateSelectivity_ignores_catalog:
  "estimateSelectivity p cat = estimateSelectivity p cat'"
  by (simp add: estimateSelectivity_def)

text \<open>
  \<^bold>\<open>Claim C2\<close> (as amended). The cardinality of a Filter over a child of cardinality
  \<open>n\<close> is \<open>int64(float64(n) * sel)\<close>, where \<open>sel\<close> comes from the cost model's own table
  and never from the catalog: 1 when there is no predicate or no expression; otherwise,
  by the operator at the top of the expression, 0.1 for \<open>=\<close> (whatever the NDV), 0.33 for
  \<open><\<close>, \<open>>\<close>, \<open><=\<close>, \<open>>=\<close>, 0.2 for \<open>LIKE\<close>, 0.3 for \<open>IN\<close>, 0.05 for \<open>IS NULL\<close>,
  0.95 for \<open>IS NOT NULL\<close>, and 0.5 for anything else.
\<close>

theorem Filter_cardinality:
  "(NodeType f = NodeTypeFilter \<and> EstimateCardinality child cat = Inr n \<longrightarrow>
      EstimateCardinality (LogicalPlan f (child # rest)) cat
        = Inr (int64_of (float64 n * estimateSelectivity (Predicate f) cat)))
   \<and> estimateSelectivity p cat = estimateSelectivity p cat'
   \<and> estimateSelectivity None cat = 1
   \<and> estimateSelectivity (Some \<lparr> PredExpression = None \<rparr>) cat = 1
   \<and> (Value e = VString ''='' \<longrightarrow>
        estimateSelectivity (Some \<lparr> PredExpression = Some e \<rparr>) cat = 1 / 10)
   \<and> (Value e \<in> {VString ''<'', VString ''>'', VString ''<='', VString ''>=''} \<longrightarrow>
        estimateSelectivity (Some \<lparr> PredExpression = Some e \<rparr>) cat = 33 / 100)
   \<and> (Value e = VString ''LIKE'' \<longrightarrow>
        estimateSelectivity (Some \<lparr> PredExpression = Some e \<rparr>) cat = 2 / 10)
   \<and> (Value e = VString ''IN'' \<longrightarrow>
        estimateSelectivity (Some \<lparr> PredExpression = Some e \<rparr>) cat = 3 / 10)
   \<and> (Value e = VString ''IS NULL'' \<longrightarrow>
        estimateSelectivity (Some \<lparr> PredExpression = Some e \<rparr>) cat = 5 / 100)
   \<and> (Value e = VString ''IS NOT NULL'' \<longrightarrow>
        estimateSelectivity (Some \<lparr> PredExpression = Some e \<rparr>) cat = 95 / 100)
   \<and> (Value e \<notin> {VString ''='', VString ''<'', VString ''>'', VString ''<='', VString ''>='',
          VString ''LIKE'', VString ''IN'', VString ''IS NULL'', VString ''IS NOT NULL''} \<longrightarrow>
        estimateSelectivity (Some \<lparr> PredExpression = Some e \<rparr>) cat = 1 / 2)"
  using EstimateCardinality_Filter [of f child cat n rest]
    estimateSelectivity_ignores_catalog [of p cat cat']
    estimateSelectivity_table
  by (intro conjI impI) (simp_all del: EstimateCardinality.simps)

lemma int64_of_numerals:
  "int64_of (numeral k) = numeral k"
  "int64_of (500 / 7) = 71"
  by (simp_all add: int64_of_def toward_zero_def)

text \<open>The claim as stated fails: over the 5000 rows of \<open>customers\<close>, a \<open>LIKE\<close> filter
  is estimated at 1000 rows where the table of the specification gives 500, and
  \<open>age = 30\<close> at 500 rows where the NDV of 70 gives 71.\<close>

theorem Filter_selectivity_counterexample:
  "EstimateCardinality (scanNode ''node_1'' ''customers'') customersCatalog = Inr 5000
   \<and> EstimateCardinality likeFilter customersCatalog = Inr 1000
   \<and> int64_of (float64 5000 * specSelectivity ''LIKE'' None) = 500
   \<and> EstimateCardinality likeFilter customersCatalog
       \<noteq> Inr (int64_of (float64 5000 * specSelectivity ''LIKE'' None))
   \<and> NDV (columnArrays customersCatalog 7 ! 0) = Some 70
   \<and> EstimateCardinality equalsFilter customersCatalog = Inr 500
   \<and> int64_of (float64 5000 * specSelectivity ''='' (Some 70)) = 71"
proof -
  have s: "EstimateCardinality (scanNode ''node_1'' ''customers'') customersCatalog = Inr 5000"
    by (rule scan_customers)
  have l: "EstimateCardinality likeFilter customersCatalog = Inr 1000"
    unfolding likeFilter_def
    by (subst EstimateCardinality_Filter [OF _ s])
       (simp_all add: filterFields_def zeroFields_def estimateSelectivity_def binaryOp_def
          float64_numeral_evals int64_of_numerals)
  have e: "EstimateCardinality equalsFilter customersCatalog = Inr 500"
    unfolding equalsFilter_def
    by (subst EstimateCardinality_Filter [OF _ s])
       (simp_all add: filterFields_def zeroFields_def estimateSelectivity_def binaryOp_def
          float64_numeral_evals int64_of_numerals)
  have sp: "int64_of (float64 5000 * specSelectivity ''LIKE'' None) = 500"
    by (simp add: specSelectivity_def float64_numeral_evals int64_of_numerals)
  have sq: "int64_of (float64 5000 * specSelectivity ''='' (Some 70)) = 71"
    by (simp add: specSelectivity_def float64_def word_sless_alt int64_of_numerals)
  have ndv: "NDV (columnArrays customersCatalog 7 ! 0) = Some 70"
    by (simp add: customers_lookup ageColumn_def)
  have ne: "EstimateCardinality likeFilter customersCatalog
       \<noteq> Inr (int64_of (float64 5000 * specSelectivity ''LIKE'' None))"
    unfolding l sp by simp
  from s l sp ne ndv e sq show ?thesis by (intro conjI)
qed

theorem Filter_cardinality_witness:
  "EstimateCardinality likeFilter customersCatalog = Inr 1000
   \<and> estimateSelectivity (Predicate (Fields likeFilter)) customersCatalog = 2 / 10"
proof -
  have s: "EstimateCardinality (scanNode ''node_1'' ''customers'') customersCatalog = Inr 5000"
    by (rule scan_customers)
  let ?e = "binaryOp ''LIKE'' (columnExpr ''name'') (literalExpr (VString ''A%''))"
  let ?f = "filterFields ''node_2'' ?e"
  have t: "NodeType ?f = NodeTypeFilter" "Predicate ?f = Some \<lparr> PredExpression = Some ?e \<rparr>"
    "Value ?e = VString ''LIKE''"
    by (simp_all add: filterFields_def zeroFields_def binaryOp_def)
  note th = Filter_cardinality [where f = ?f and child = "scanNode ''node_1'' ''customers''"
      and cat = customersCatalog and n = 5000 and rest = "[]" and e = ?e]
  from th t(3)
  have sel: "estimateSelectivity (Some \<lparr> PredExpression = Some ?e \<rparr>) customersCatalog = 2 / 10"
    by blast
  from th s t(1)
  have "EstimateCardinality likeFilter customersCatalog
          = Inr (int64_of (float64 5000 * estimateSelectivity (Predicate ?f) customersCatalog))"
    unfolding likeFilter_def by blast
  then have card: "EstimateCardinality likeFilter customersCatalog = Inr 1000"
    unfolding t(2) sel by (simp add: float64_numeral_evals int64_of_numerals)
  have "Predicate (Fields likeFilter) = Some \<lparr> PredExpression = Some ?e \<rparr>"
    by (simp add: likeFilter_def t(2))
  with sel card show ?thesis by simp
qed

section \<open>The join-order pass\<close>

lemma EstimateCost_Join:
  assumes "NodeType f = NodeTypeJoin"
  shows "EstimateCost cm (LogicalPlan f [L, R]) cat =
     (case EstimateCost cm L cat of
        Inl err \<Rightarrow> Inl err
      | Inr leftCost \<Rightarrow>
          (case EstimateCost cm R cat of
             Inl err \<Rightarrow> Inl err
           | Inr rightCost \<Rightarrow>
               (case dropError (EstimateCardinality (LogicalPlan f [L, R]) cat) of
                  Inl err \<Rightarrow> Inl err
                | Inr outputCardinality \<Rightarrow>
                    Inr \<lparr> TotalCost = TotalCost leftCost + TotalCost rightCost
                            + float64 (Cardinality leftCost * Cardinality rightCost)
                              * CPUCostPerTuple cm * JoinCostFactor cm,
                          CPUCost = CPUCost leftCost + CPUCost rightCost
                            + float64 (Cardinality leftCost * Cardinality rightCost)
                              * CPUCostPerTuple cm * JoinCostFactor cm,
                          IOCost = IOCost leftCost + IOCost rightCost,
                          NetworkCost = NetworkCost leftCost + NetworkCost rightCost,
                          MemoryCost = MemoryCost leftCost + MemoryCost rightCost,
                          Cardinality = outputCardinality \<rparr>)))"
  using assms
  by (simp add: NodeType_defs Let_def del: EstimateCardinality.simps
        cong: sum.case_cong)

lemma Join_TotalCost:
  assumes "NodeType f = NodeTypeJoin"
    and "EstimateCost cm (LogicalPlan f [L, R]) cat = Inr cost"
  obtains leftCost rightCost where
    "EstimateCost cm L cat = Inr leftCost" "EstimateCost cm R cat = Inr rightCost"
    "TotalCost cost = TotalCost leftCost + TotalCost rightCost
       + float64 (Cardinality leftCost * Cardinality rightCost)
         * CPUCostPerTuple cm * JoinCostFactor cm"
  using assms(2) unfolding EstimateCost_Join [OF assms(1)]
  by (auto split: sum.splits)

lemma swapped_TotalCost:
  assumes "NodeType f = NodeTypeJoin" "NodeType f' = NodeTypeJoin"
    and "EstimateCost cm (LogicalPlan f [L, R]) cat = Inr currentCost"
    and "EstimateCost cm (LogicalPlan f' [R, L]) cat = Inr swappedCost"
  shows "TotalCost swappedCost = TotalCost currentCost"
proof -
  from Join_TotalCost [OF assms(1,3)] obtain lc rc where
    l: "EstimateCost cm L cat = Inr lc" and r: "EstimateCost cm R cat = Inr rc"
    and t: "TotalCost currentCost = TotalCost lc + TotalCost rc
       + float64 (Cardinality lc * Cardinality rc) * CPUCostPerTuple cm * JoinCostFactor cm"
    by blast
  from Join_TotalCost [OF assms(2,4)] obtain rc' lc' where
    r': "EstimateCost cm R cat = Inr rc'" and l': "EstimateCost cm L cat = Inr lc'"
    and t': "TotalCost swappedCost = TotalCost rc' + TotalCost lc'
       + float64 (Cardinality rc' * Cardinality lc') * CPUCostPerTuple cm * JoinCostFactor cm"
    by blast
  from l l' r r' have "lc' = lc" "rc' = rc" by simp_all
  with t t' show ?thesis by (simp add: add.commute mult.commute)
qed

lemma NewJoinNode_shape:
  "NodeType (Fields (fst (NewJoinNode l r jt jc c))) = NodeTypeJoin"
  "Children (fst (NewJoinNode l r jt jc c)) = [l, r]"
  "JoinType (Fields (fst (NewJoinNode l r jt jc c))) = jt"
  "JoinCondition (Fields (fst (NewJoinNode l r jt jc c))) = jc"
  "snd (NewJoinNode l r jt jc c) = c + 1"
  by (simp_all add: NewJoinNode_def generateID_def zeroFields_def)

lemma joinOrderHere_unfold:
  assumes "NodeType (Fields plan) = NodeTypeJoin" "Children plan = [L, R]"
  shows "joinOrderHere cbo plan c =
     (case EstimateCost (costModel cbo) plan (catalogMgr cbo) of
        Inl err \<Rightarrow> (if err = Panic then Inl Panic else Inr (True, plan, c))
      | Inr currentCost \<Rightarrow>
          (case EstimateCost (costModel cbo)
                  (fst (NewJoinNode R L (JoinType (Fields plan)) (JoinCondition (Fields plan)) c))
                  (catalogMgr cbo) of
             Inl err \<Rightarrow> (if err = Panic then Inl Panic else Inr (True, plan, c + 1))
           | Inr swappedCost \<Rightarrow>
               if TotalCost swappedCost < TotalCost currentCost
               then Inr (False,
                      fst (NewJoinNode R L (JoinType (Fields plan)) (JoinCondition (Fields plan)) c),
                      c + 1)
               else Inr (False, plan, c + 1)))"
proof -
  have c: "Children plan ! 0 = L" "Children plan ! 1 = R" "length (Children plan) = 2"
    using assms(2) by simp_all
  show ?thesis
    unfolding joinOrderHere_def Let_def case_prod_beta NewJoinNode_shape(5) c
    using assms(1) by (simp only: simp_thms if_True)
qed

lemma joinOrderHere_Join:
  assumes "NodeType (Fields plan) = NodeTypeJoin" "Children plan = [L, R]"
    and "EstimateCost (costModel cbo) plan (catalogMgr cbo) = Inr currentCost"
    and "EstimateCost (costModel cbo)
           (fst (NewJoinNode R L (JoinType (Fields plan)) (JoinCondition (Fields plan)) c))
           (catalogMgr cbo) = Inr swappedCost"
  shows "joinOrderHere cbo plan c =
     Inr (False,
          if TotalCost swappedCost < TotalCost currentCost
          then fst (NewJoinNode R L (JoinType (Fields plan)) (JoinCondition (Fields plan)) c)
          else plan,
          c + 1)"
  unfolding joinOrderHere_unfold [OF assms(1,2)] assms(3,4) by simp

lemma joinOrderHere_same:
  assumes "joinOrderHere cbo plan c = Inr (returned, plan', c')"
  shows "plan' = plan"
proof (cases "NodeType (Fields plan) = NodeTypeJoin \<and> length (Children plan) = 2")
  case False
  then have "joinOrderHere cbo plan c = Inr (False, plan, c)"
    unfolding joinOrderHere_def by (simp only: if_False)
  with assms show ?thesis by simp
next
  case True
  then obtain L R where cs: "Children plan = [L, R]"
    by (cases "Children plan"; cases "tl (Children plan)") auto
  obtain f where p: "plan = LogicalPlan f [L, R]" using cs by (cases plan) simp
  have nt: "NodeType (Fields plan) = NodeTypeJoin" using True by simp
  let ?sw = "fst (NewJoinNode R L (JoinType (Fields plan)) (JoinCondition (Fields plan)) c)"
  obtain f' where sw: "?sw = LogicalPlan f' [R, L]" and nt': "NodeType f' = NodeTypeJoin"
    using NewJoinNode_shape(1,2) [of R L "JoinType (Fields plan)" "JoinCondition (Fields plan)" c]
    by (cases ?sw) simp
  note u = joinOrderHere_unfold [OF nt cs, of cbo c]
  show ?thesis
  proof (cases "EstimateCost (costModel cbo) plan (catalogMgr cbo)")
    case (Inl err)
    from assms show ?thesis unfolding u Inl by (simp split: if_splits)
  next
    case (Inr currentCost)
    show ?thesis
    proof (cases "EstimateCost (costModel cbo) ?sw (catalogMgr cbo)")
      case (Inl err)
      from assms show ?thesis unfolding u Inr Inl by (simp split: if_splits)
    next
      case swapped: (Inr swappedCost)
      have "EstimateCost (costModel cbo) (LogicalPlan f [L, R]) (catalogMgr cbo) = Inr currentCost"
        using Inr unfolding p .
      moreover have "EstimateCost (costModel cbo) (LogicalPlan f' [R, L]) (catalogMgr cbo)
          = Inr swappedCost"
        using swapped unfolding sw .
      moreover have "NodeType f = NodeTypeJoin" using nt unfolding p by simp
      ultimately have "TotalCost swappedCost = TotalCost currentCost"
        using swapped_TotalCost [OF _ nt'] by blast
      with assms show ?thesis unfolding u Inr swapped by simp
    qed
  qed
qed

lemma optimizeJoinOrder_same_aux:
  "optimizeJoinOrder cbo plan c = Inr (plan', c') \<Longrightarrow> plan' = plan"
  "optimizeJoinOrder_children cbo ps c = Inr (ps', c') \<Longrightarrow> ps' = ps"
proof (induction cbo plan c and cbo ps c arbitrary: plan' c' and ps' c'
    rule: optimizeJoinOrder_optimizeJoinOrder_children.induct)
  case (1 cbo plan c)
  from "1.prems" obtain returned p1 c1 where h: "joinOrderHere cbo plan c = Inr (returned, p1, c1)"
    by (auto split: sum.splits)
  have p1: "p1 = plan" using joinOrderHere_same [OF h] .
  show ?case
  proof (cases returned)
    case True
    with "1.prems" h p1 show ?thesis by simp
  next
    case False
    from "1.prems" h False obtain cs' where
      c: "optimizeJoinOrder_children cbo (Children p1) c1 = Inr (cs', c')"
      and r: "plan' = LogicalPlan (Fields p1) cs'"
      by (auto split: sum.splits)
    from "1.IH" [OF h refl refl False c] have "cs' = Children p1" .
    with r p1 show ?thesis by simp
  qed
next
  case (2 cbo c)
  then show ?case by simp
next
  case (3 cbo child rest c)
  from "3.prems" obtain child' c1 rest' where
    a: "optimizeJoinOrder cbo child c = Inr (child', c1)"
    and b: "optimizeJoinOrder_children cbo rest c1 = Inr (rest', c')"
    and r: "ps' = child' # rest'"
    by (auto split: sum.splits)
  from "3.IH"(1) [OF a] "3.IH"(2) [OF a refl b] r show ?case by simp
qed

text \<open>
  \<^bold>\<open>Claim C1.\<close> At a Join node with two children, \<open>optimizeJoinOrder\<close> builds the node with
  the children swapped (same join type, same condition) and takes it exactly when its
  estimated total cost is strictly lower than that of the node. The two total costs are
  always equal: the cost of a Join is the sum of the costs of its children plus a term in
  the product of their cardinalities, and both are symmetric (this uses only that \<open>+\<close> and
  \<open>*\<close> commute, which they do on \<open>float64\<close> and \<open>int64\<close> as on the reals). So the test
  never succeeds and the pass returns every plan as it is: no children are swapped, of a
  left or right join or of any other.
\<close>

theorem optimizeJoinOrder_swaps:
  "(NodeType (Fields plan) = NodeTypeJoin \<and> Children plan = [L, R]
      \<and> EstimateCost (costModel cbo) plan (catalogMgr cbo) = Inr currentCost
      \<and> EstimateCost (costModel cbo)
            (fst (NewJoinNode R L (JoinType (Fields plan)) (JoinCondition (Fields plan)) c))
            (catalogMgr cbo) = Inr swappedCost
      \<longrightarrow> joinOrderHere cbo plan c =
            Inr (False,
                 if TotalCost swappedCost < TotalCost currentCost
                 then fst (NewJoinNode R L (JoinType (Fields plan))
                             (JoinCondition (Fields plan)) c)
                 else plan,
                 c + 1)
          \<and> TotalCost swappedCost = TotalCost currentCost)
   \<and> (joinOrderHere cbo plan c = Inr (returned, plan', c') \<longrightarrow> plan' = plan)
   \<and> (optimizeJoinOrder cbo plan c = Inr (plan'', c'') \<longrightarrow> plan'' = plan)"
proof (intro conjI impI)
  assume a: "NodeType (Fields plan) = NodeTypeJoin \<and> Children plan = [L, R]
      \<and> EstimateCost (costModel cbo) plan (catalogMgr cbo) = Inr currentCost
      \<and> EstimateCost (costModel cbo)
            (fst (NewJoinNode R L (JoinType (Fields plan)) (JoinCondition (Fields plan)) c))
            (catalogMgr cbo) = Inr swappedCost"
  then show "joinOrderHere cbo plan c =
            Inr (False,
                 if TotalCost swappedCost < TotalCost currentCost
                 then fst (NewJoinNode R L (JoinType (Fields plan))
                             (JoinCondition (Fields plan)) c)
                 else plan,
                 c + 1)"
    by (intro joinOrderHere_Join) simp_all
  let ?sw = "fst (NewJoinNode R L (JoinType (Fields plan)) (JoinCondition (Fields plan)) c)"
  obtain f where p: "plan = LogicalPlan f [L, R]" using a by (cases plan) simp
  obtain f' where sw: "?sw = LogicalPlan f' [R, L]" and nt': "NodeType f' = NodeTypeJoin"
    using NewJoinNode_shape(1,2) [of R L "JoinType (Fields plan)" "JoinCondition (Fields plan)" c]
    by (cases ?sw) simp
  have "NodeType f = NodeTypeJoin" using a p by simp
  moreover have "EstimateCost (costModel cbo) (LogicalPlan f [L, R]) (catalogMgr cbo)
      = Inr currentCost" using a unfolding p by blast
  moreover have "EstimateCost (costModel cbo) (LogicalPlan f' [R, L]) (catalogMgr cbo)
      = Inr swappedCost" using a unfolding sw by blast
  ultimately show "TotalCost swappedCost = TotalCost currentCost"
    using swapped_TotalCost [OF _ nt'] by blast
next
  assume "joinOrderHere cbo plan c = Inr (returned, plan', c')"
  then show "plan' = plan" by (rule joinOrderHere_same)
next
  assume "optimizeJoinOrder cbo plan c = Inr (plan'', c'')"
  then show "plan'' = plan" by (rule optimizeJoinOrder_same_aux(1))
qed

lemma bigSmall_lookup:
  "tables bigSmallCatalog ''big'' = Some 11"
  "tables bigSmallCatalog ''small'' = Some 12"
  "RowCount (schemas bigSmallCatalog 11) = 1000000"
  "RowCount (schemas bigSmallCatalog 12) = 100"
  by (simp_all add: bigSmallCatalog_def)

lemma float64_numeral_more:
  "float64 1000000 = 1000000" "float64 100 = 100" "float64 100000000 = 100000000"
  "(1000000 :: int64) * 100 = 100000000" "(100 :: int64) * 1000000 = 100000000"
  by (simp_all add: float64_def)

lemma bigSmall_scan_costs:
  "EstimateCost NewSimpleCostModel (scanNode i ''big'') bigSmallCatalog
     = Inr \<lparr> TotalCost = 20000, CPUCost = 10000, IOCost = 10000, NetworkCost = 0,
             MemoryCost = 0, Cardinality = 1000000 \<rparr>"
  "EstimateCost NewSimpleCostModel (scanNode i ''small'') bigSmallCatalog
     = Inr \<lparr> TotalCost = 2, CPUCost = 1, IOCost = 1, NetworkCost = 0,
             MemoryCost = 0, Cardinality = 100 \<rparr>"
  by (simp_all add: scanNode_def zeroFields_def estimateScanCost_def GetTable_def bigSmall_lookup
        NewSimpleCostModel_def zeroCost_def float64_numeral_more Let_def)

lemma bigSmall_scan_cards:
  "EstimateCardinality (scanNode i ''big'') bigSmallCatalog = Inr 1000000"
  "EstimateCardinality (scanNode i ''small'') bigSmallCatalog = Inr 100"
  by (simp_all add: scanNode_def zeroFields_def GetTable_def bigSmall_lookup)

lemma bigSmall_join_cost:
  assumes "NodeType f = NodeTypeJoin" "JoinType f = JoinTypeLeft"
  shows "EstimateCost NewSimpleCostModel
           (LogicalPlan f [scanNode i ''big'', scanNode j ''small'']) bigSmallCatalog
         = Inr \<lparr> TotalCost = 1520002, CPUCost = 1510001, IOCost = 10001, NetworkCost = 0,
                 MemoryCost = 0, Cardinality = 1000000 \<rparr>"
    and "EstimateCost NewSimpleCostModel
           (LogicalPlan f [scanNode j ''small'', scanNode i ''big'']) bigSmallCatalog
         = Inr \<lparr> TotalCost = 1520002, CPUCost = 1510001, IOCost = 10001, NetworkCost = 0,
                 MemoryCost = 0, Cardinality = 100 \<rparr>"
proof -
  have c1: "EstimateCardinality (LogicalPlan f [scanNode i ''big'', scanNode j ''small''])
              bigSmallCatalog = Inr 1000000"
    using EstimateCardinality_Join [OF assms(1) bigSmall_scan_cards(1) bigSmall_scan_cards(2)]
      assms(2) by (simp add: JoinType_defs del: EstimateCardinality.simps)
  have c2: "EstimateCardinality (LogicalPlan f [scanNode j ''small'', scanNode i ''big''])
              bigSmallCatalog = Inr 100"
    using EstimateCardinality_Join [OF assms(1) bigSmall_scan_cards(2) bigSmall_scan_cards(1)]
      assms(2) by (simp add: JoinType_defs del: EstimateCardinality.simps)
  show "EstimateCost NewSimpleCostModel
           (LogicalPlan f [scanNode i ''big'', scanNode j ''small'']) bigSmallCatalog
         = Inr \<lparr> TotalCost = 1520002, CPUCost = 1510001, IOCost = 10001, NetworkCost = 0,
                 MemoryCost = 0, Cardinality = 1000000 \<rparr>"
    unfolding EstimateCost_Join [OF assms(1)] bigSmall_scan_costs c1
    by (simp add: dropError_def NewSimpleCostModel_def float64_numeral_more)
  show "EstimateCost NewSimpleCostModel
           (LogicalPlan f [scanNode j ''small'', scanNode i ''big'']) bigSmallCatalog
         = Inr \<lparr> TotalCost = 1520002, CPUCost = 1510001, IOCost = 10001, NetworkCost = 0,
                 MemoryCost = 0, Cardinality = 100 \<rparr>"
    unfolding EstimateCost_Join [OF assms(1)] bigSmall_scan_costs c2
    by (simp add: dropError_def NewSimpleCostModel_def float64_numeral_more)
qed

lemma joinOrderHere_scan:
  "joinOrderHere cbo (scanNode i t) c = Inr (False, scanNode i t, c)"
  by (simp add: joinOrderHere_def scanNode_def zeroFields_def NodeType_defs)

lemma optimizeJoinOrder_scan:
  "optimizeJoinOrder cbo (scanNode i t) c = Inr (scanNode i t, c)"
  by (simp add: joinOrderHere_scan) (simp add: scanNode_def)

text \<open>The left join of \<open>big\<close> and \<open>small\<close>: both orders cost 1520002, and the pass returns
  the plan with \<open>big\<close> still on the left.\<close>

theorem optimizeJoinOrder_swaps_witness:
  "EstimateCost NewSimpleCostModel bigSmallJoin bigSmallCatalog
     = Inr \<lparr> TotalCost = 1520002, CPUCost = 1510001, IOCost = 10001, NetworkCost = 0,
             MemoryCost = 0, Cardinality = 1000000 \<rparr>
   \<and> EstimateCost NewSimpleCostModel
       (fst (NewJoinNode (scanNode ''node_2'' ''small'') (scanNode ''node_1'' ''big'')
               JoinTypeLeft None 0)) bigSmallCatalog
     = Inr \<lparr> TotalCost = 1520002, CPUCost = 1510001, IOCost = 10001, NetworkCost = 0,
             MemoryCost = 0, Cardinality = 100 \<rparr>
   \<and> joinOrderHere (NewCostBasedOptimizer bigSmallCatalog) bigSmallJoin 0
     = Inr (False, bigSmallJoin, 1)
   \<and> optimizeJoinOrder (NewCostBasedOptimizer bigSmallCatalog) bigSmallJoin 0
     = Inr (bigSmallJoin, 1)"
proof -
  let ?cbo = "NewCostBasedOptimizer bigSmallCatalog"
  let ?B = "scanNode ''node_1'' ''big''" and ?S = "scanNode ''node_2'' ''small''"
  let ?cur = "\<lparr> TotalCost = 1520002, CPUCost = 1510001, IOCost = 10001, NetworkCost = 0,
             MemoryCost = 0, Cardinality = 1000000 \<rparr> :: CostEstimate"
  let ?swc = "\<lparr> TotalCost = 1520002, CPUCost = 1510001, IOCost = 10001, NetworkCost = 0,
             MemoryCost = 0, Cardinality = 100 \<rparr> :: CostEstimate"
  have cbo: "costModel ?cbo = NewSimpleCostModel" "catalogMgr ?cbo = bigSmallCatalog"
    by (simp_all add: NewCostBasedOptimizer_def)
  have f: "NodeType (Fields bigSmallJoin) = NodeTypeJoin" "Children bigSmallJoin = [?B, ?S]"
    "JoinType (Fields bigSmallJoin) = JoinTypeLeft" "JoinCondition (Fields bigSmallJoin) = None"
    by (simp_all add: bigSmallJoin_def joinFields_def zeroFields_def)
  have cur: "EstimateCost NewSimpleCostModel bigSmallJoin bigSmallCatalog = Inr ?cur"
    unfolding bigSmallJoin_def
    by (rule bigSmall_join_cost(1)) (simp_all add: joinFields_def zeroFields_def)
  obtain f' where sw: "fst (NewJoinNode ?S ?B JoinTypeLeft None 0) = LogicalPlan f' [?S, ?B]"
    and f': "NodeType f' = NodeTypeJoin" "JoinType f' = JoinTypeLeft"
    using NewJoinNode_shape(1,2,3) [of ?S ?B JoinTypeLeft None 0]
    by (cases "fst (NewJoinNode ?S ?B JoinTypeLeft None 0)") simp
  have swc: "EstimateCost NewSimpleCostModel (fst (NewJoinNode ?S ?B JoinTypeLeft None 0))
      bigSmallCatalog = Inr ?swc"
    unfolding sw by (rule bigSmall_join_cost(2) [OF f'])
  note th = optimizeJoinOrder_swaps [where cbo = ?cbo and plan = bigSmallJoin and L = ?B
      and R = ?S and c = 0 and currentCost = ?cur and swappedCost = ?swc]
  have here: "joinOrderHere ?cbo bigSmallJoin 0 = Inr (False, bigSmallJoin, 1)"
    using th cur swc unfolding cbo f by simp
  have "optimizeJoinOrder ?cbo bigSmallJoin 0 = Inr (LogicalPlan (Fields bigSmallJoin) [?B, ?S], 1)"
    by (subst optimizeJoinOrder.simps(1))
       (simp add: here f optimizeJoinOrder_scan del: optimizeJoinOrder.simps(1))
  then have all: "optimizeJoinOrder ?cbo bigSmallJoin 0 = Inr (bigSmallJoin, 1)"
    by (simp add: bigSmallJoin_def)
  from cur swc here all show ?thesis by (intro conjI)
qed

section \<open>The rule engine and the scans of a plan\<close>

lemma scanTables_rebuild:
  "sum_list (map scanTables cs') = sum_list (map scanTables (Children p))
   \<Longrightarrow> scanTables (LogicalPlan (Fields p) cs') = scanTables p"
  by (cases p) simp

lemma projectsUnary_rebuild:
  "projectsUnary p \<Longrightarrow> length cs' = length (Children p)
   \<Longrightarrow> \<forall>c \<in> set cs'. projectsUnary c
   \<Longrightarrow> projectsUnary (LogicalPlan (Fields p) cs')"
  by (cases p) simp

lemma projectsUnary_children:
  "projectsUnary p \<Longrightarrow> \<forall>c \<in> set (Children p). projectsUnary c"
  by (cases p) simp

lemma arityOK_projectsUnary: "arityOK p \<Longrightarrow> projectsUnary p"
  by (induction p rule: arityOK.induct) auto

subsection \<open>Clone\<close>

lemma Clone_scans_aux:
  "scanTables (fst (Clone p c)) = scanTables p \<and> projectsUnary (fst (Clone p c)) = projectsUnary p"
  "sum_list (map scanTables (fst (CloneChildren ps c))) = sum_list (map scanTables ps)
   \<and> (\<forall>q \<in> set (fst (CloneChildren ps c)). projectsUnary q) = (\<forall>q \<in> set ps. projectsUnary q)
   \<and> length (fst (CloneChildren ps c)) = length ps"
  by (induction p c and ps c rule: Clone_CloneChildren.induct)
     (auto simp: Let_def split: prod.splits)

lemma Clone_scans:
  "Clone p c = (p', c') \<Longrightarrow> scanTables p' = scanTables p"
  "Clone p c = (p', c') \<Longrightarrow> projectsUnary p' = projectsUnary p"
  using Clone_scans_aux(1) [of p c] by simp_all

subsection \<open>PredicatePushdown\<close>

lemma pushdownHere_scans:
  assumes "pushdownHere plan c = Inr (plan', changed, c')" "projectsUnary plan"
  shows "scanTables plan' = scanTables plan \<and> projectsUnary plan'"
proof (cases "NodeType (Fields plan) = NodeTypeFilter \<and> length (Children plan) = 1
    \<and> NodeType (Fields (Children plan ! 0)) = NodeTypeProject")
  case False
  with assms(1) have "plan' = plan"
    by (auto simp: pushdownHere_def Let_def canPushFilterToJoinSides_def split: if_splits)
  with assms(2) show ?thesis by simp
next
  case True
  then obtain f g gs where p: "plan = LogicalPlan f [LogicalPlan g gs]"
    by (cases plan; cases "Children plan"; cases "hd (Children plan)") auto
  from True p have nt: "NodeType f = NodeTypeFilter" "NodeType g = NodeTypeProject" by simp_all
  from assms(2) p nt have len: "length gs \<le> 1" by simp
  from assms(1) p nt obtain gc where gs: "gs = [gc]"
    using len by (cases gs) (auto simp: pushdownHere_def canPushFilterBelowProject_def)
  from assms(1) show ?thesis
    using assms(2)
    unfolding p gs
    by (auto simp: pushdownHere_def canPushFilterBelowProject_def NewFilterNode_def
          NewProjectNode_def generateID_def Let_def zeroFields_def nt NodeType_defs)
qed

lemma PredicatePushdown_scans_aux:
  "PredicatePushdown_applyRecursive plan c = Inr (plan', changed, c') \<Longrightarrow> projectsUnary plan
   \<Longrightarrow> scanTables plan' = scanTables plan \<and> projectsUnary plan'"
  "PredicatePushdown_children ps c = Inr (ps', changed, c') \<Longrightarrow> \<forall>q \<in> set ps. projectsUnary q
   \<Longrightarrow> sum_list (map scanTables ps') = sum_list (map scanTables ps)
       \<and> (\<forall>q \<in> set ps'. projectsUnary q) \<and> length ps' = length ps"
proof (induction plan c and ps c arbitrary: plan' changed c' and ps' changed c'
    rule: PredicatePushdown_applyRecursive_PredicatePushdown_children.induct)
  case (1 plan c)
  from "1.prems"(1) obtain p1 ch1 c1 where h: "pushdownHere plan c = Inr (p1, ch1, c1)"
    by (cases "pushdownHere plan c") auto
  from "1.prems"(1) h obtain cs' chs where
    k: "PredicatePushdown_children (Children p1) c1 = Inr (cs', chs, c')"
    and r: "plan' = LogicalPlan (Fields p1) cs'"
    by (cases "PredicatePushdown_children (Children p1) c1") auto
  from pushdownHere_scans [OF h "1.prems"(2)]
  have s1: "scanTables p1 = scanTables plan" and u1: "projectsUnary p1" by simp_all
  from "1.IH" [OF h refl refl k projectsUnary_children [OF u1]]
  have x: "sum_list (map scanTables cs') = sum_list (map scanTables (Children p1))"
    and y: "\<forall>q \<in> set cs'. projectsUnary q" and z: "length cs' = length (Children p1)"
    by simp_all
  have "scanTables (LogicalPlan (Fields p1) cs') = scanTables p1"
    by (rule scanTables_rebuild [OF x])
  moreover have "projectsUnary (LogicalPlan (Fields p1) cs')"
    by (rule projectsUnary_rebuild [OF u1 z y])
  ultimately show ?case
    unfolding r using s1 by (simp del: scanTables.simps projectsUnary.simps)
next
  case (2 c)
  then show ?case by simp
next
  case (3 child rest c)
  from "3.prems"(1) obtain child' ch1 c1 where
    a: "PredicatePushdown_applyRecursive child c = Inr (child', ch1, c1)"
    by (cases "PredicatePushdown_applyRecursive child c") auto
  from "3.prems"(1) a obtain rest' chs where
    b: "PredicatePushdown_children rest c1 = Inr (rest', chs, c')"
    and r: "ps' = (if ch1 then child' else child) # rest'"
    by (cases "PredicatePushdown_children rest c1") auto
  from "3.IH"(1) [OF a] "3.prems"(2)
  have x: "scanTables child' = scanTables child \<and> projectsUnary child'" by simp
  from "3.IH"(2) [OF a refl refl b] "3.prems"(2)
  have y: "sum_list (map scanTables rest') = sum_list (map scanTables rest)
       \<and> (\<forall>q \<in> set rest'. projectsUnary q) \<and> length rest' = length rest" by simp
  from x y "3.prems"(2) show ?case unfolding r by simp
qed

subsection \<open>ProjectionPushdown\<close>

lemma projectionHere_scans:
  assumes "projectionHere plan = (plan', changed)" "projectsUnary plan"
  shows "scanTables plan' = scanTables plan \<and> projectsUnary plan'"
  using assms
  by (cases plan; cases "Children plan")
     (auto simp: projectionHere_def Let_def NodeType_defs split: if_splits)

lemma ProjectionPushdown_scans_aux:
  "ProjectionPushdown_applyRecursive plan = Inr (plan', changed) \<Longrightarrow> projectsUnary plan
   \<Longrightarrow> scanTables plan' = scanTables plan \<and> projectsUnary plan'"
  "ProjectionPushdown_children ps = Inr (ps', changed) \<Longrightarrow> \<forall>q \<in> set ps. projectsUnary q
   \<Longrightarrow> sum_list (map scanTables ps') = sum_list (map scanTables ps)
       \<and> (\<forall>q \<in> set ps'. projectsUnary q) \<and> length ps' = length ps"
proof (induction plan and ps arbitrary: plan' changed and ps' changed
    rule: ProjectionPushdown_applyRecursive_ProjectionPushdown_children.induct)
  case (1 plan)
  obtain p1 ch1 where h: "projectionHere plan = (p1, ch1)" by (cases "projectionHere plan")
  from "1.prems"(1) h obtain cs' chs where
    k: "ProjectionPushdown_children (Children p1) = Inr (cs', chs)"
    and r: "plan' = LogicalPlan (Fields p1) cs'"
    by (cases "ProjectionPushdown_children (Children p1)") auto
  from projectionHere_scans [OF h "1.prems"(2)]
  have s1: "scanTables p1 = scanTables plan" and u1: "projectsUnary p1" by simp_all
  from "1.IH" [OF h [symmetric] k projectsUnary_children [OF u1]]
  have x: "sum_list (map scanTables cs') = sum_list (map scanTables (Children p1))"
    and y: "\<forall>q \<in> set cs'. projectsUnary q" and z: "length cs' = length (Children p1)"
    by simp_all
  have "scanTables (LogicalPlan (Fields p1) cs') = scanTables p1"
    by (rule scanTables_rebuild [OF x])
  moreover have "projectsUnary (LogicalPlan (Fields p1) cs')"
    by (rule projectsUnary_rebuild [OF u1 z y])
  ultimately show ?case
    unfolding r using s1 by (simp del: scanTables.simps projectsUnary.simps)
next
  case 2
  then show ?case by simp
next
  case (3 child rest)
  from "3.prems"(1) obtain child' ch1 where
    a: "ProjectionPushdown_applyRecursive child = Inr (child', ch1)"
    by (cases "ProjectionPushdown_applyRecursive child") auto
  from "3.prems"(1) a obtain rest' chs where
    b: "ProjectionPushdown_children rest = Inr (rest', chs)"
    and r: "ps' = (if ch1 then child' else child) # rest'"
    by (cases "ProjectionPushdown_children rest") auto
  from "3.IH"(1) [OF a] "3.prems"(2)
  have x: "scanTables child' = scanTables child \<and> projectsUnary child'" by simp
  from "3.IH"(2) [OF a refl b] "3.prems"(2)
  have y: "sum_list (map scanTables rest') = sum_list (map scanTables rest)
       \<and> (\<forall>q \<in> set rest'. projectsUnary q) \<and> length rest' = length rest" by simp
  from x y "3.prems"(2) show ?case unfolding r by simp
qed

subsection \<open>The loops of Optimize\<close>

lemma Rule_Apply_scans:
  assumes "Rule_Apply rule plan c = Inr (plan', changed, c')" "projectsUnary plan"
  shows "scanTables plan' = scanTables plan \<and> projectsUnary plan'"
proof (cases rule)
  case PredicatePushdownRule
  with assms show ?thesis using PredicatePushdown_scans_aux(1) by simp
next
  case ProjectionPushdownRule
  with assms show ?thesis
    using ProjectionPushdown_scans_aux(1) by (auto split: sum.splits)
next
  case ConstantFoldingRule
  with assms show ?thesis by simp
next
  case JoinReorderingRule
  with assms show ?thesis by simp
qed

lemma rulesLoop_scans:
  "rulesLoop rs plan explain tot changed c = Inr (plan', explain', tot', changed', c')
   \<Longrightarrow> projectsUnary plan
   \<Longrightarrow> scanTables plan' = scanTables plan \<and> projectsUnary plan'"
proof (induction rs arbitrary: plan explain tot changed c)
  case Nil
  then show ?case by simp
next
  case (Cons rule rest)
  obtain before c1 where cl: "Clone plan c = (before, c1)" by (cases "Clone plan c")
  from Cons.prems(1) cl obtain p1 applied c2 where
    a: "Rule_Apply rule plan c1 = Inr (p1, applied, c2)"
    by (auto split: sum.splits if_splits)
  from Rule_Apply_scans [OF a Cons.prems(2)]
  have s: "scanTables p1 = scanTables plan" "projectsUnary p1" by simp_all
  show ?case
  proof (cases applied)
    case True
    with Cons.prems(1) cl a obtain e1 where
      "rulesLoop rest p1 e1 (tot + 1) True c2 = Inr (plan', explain', tot', changed', c')"
      by simp
    from Cons.IH [OF this s(2)] s(1) show ?thesis by simp
  next
    case False
    with Cons.prems(1) cl a have
      "rulesLoop rest plan explain tot changed c2 = Inr (plan', explain', tot', changed', c')"
      by simp
    from Cons.IH [OF this Cons.prems(2)] show ?thesis .
  qed
qed

lemma iterationLoop_scans:
  "iterationLoop n rs plan explain tot c = Inr (plan', explain', tot', c')
   \<Longrightarrow> projectsUnary plan
   \<Longrightarrow> scanTables plan' = scanTables plan \<and> projectsUnary plan'"
proof (induction n arbitrary: plan explain tot c)
  case 0
  then show ?case by simp
next
  case (Suc n)
  from Suc.prems(1) obtain p1 e1 t1 ch c1 where
    a: "rulesLoop rs plan explain tot False c = Inr (p1, e1, t1, ch, c1)"
    by (auto split: sum.splits)
  from rulesLoop_scans [OF a Suc.prems(2)]
  have s: "scanTables p1 = scanTables plan" "projectsUnary p1" by simp_all
  show ?case
  proof (cases ch)
    case True
    with Suc.prems(1) a have "iterationLoop n rs p1 e1 t1 c1 = Inr (plan', explain', tot', c')"
      by simp
    from Suc.IH [OF this s(2)] s(1) show ?thesis by simp
  next
    case False
    with Suc.prems(1) a have "plan' = p1" by simp
    with s show ?thesis by simp
  qed
qed

lemma RuleBased_Optimize_scans:
  assumes "RuleBased_Optimize rbo (Some plan) c = Inr (plan', explain, c')" "projectsUnary plan"
  shows "scanTables plan' = scanTables plan \<and> projectsUnary plan'"
proof -
  obtain p0 c0 where cl: "Clone plan c = (p0, c0)" by (cases "Clone plan c")
  from assms(1) cl obtain e t where
    "iterationLoop 10 (rules rbo) p0 emptyExplain 0 c0 = Inr (plan', e, t, c')"
    by (auto simp: RuleBased_Optimize_def Let_def split: sum.splits)
  from iterationLoop_scans [OF this] Clone_scans [OF cl] assms(2) show ?thesis by simp
qed

subsection \<open>The cost-based phases\<close>

lemma stampPhysicalOperator_fields:
  assumes "stampPhysicalOperator cbo plan = Inr f'"
  shows "\<exists>m. f' = (Fields plan)\<lparr> Metadata := m \<rparr>"
proof -
  consider (join) "NodeType (Fields plan) = NodeTypeJoin"
    | (aggregate) "NodeType (Fields plan) = NodeTypeAggregate"
    | (sort) "NodeType (Fields plan) = NodeTypeSort"
    | (scan) "NodeType (Fields plan) = NodeTypeScan"
    | (other) "NodeType (Fields plan) \<notin> {NodeTypeJoin, NodeTypeAggregate, NodeTypeSort, NodeTypeScan}"
    by auto
  then show ?thesis
  proof cases
    case join
    with assms show ?thesis
      unfolding stampPhysicalOperator_def Let_def
      by (auto split: list.splits sum.splits if_splits simp del: EstimateCardinality.simps)
  next
    case aggregate
    with assms show ?thesis
      unfolding stampPhysicalOperator_def Let_def
      by (auto simp: NodeType_defs split: sum.splits if_splits simp del: EstimateCardinality.simps)
  next
    case sort
    with assms show ?thesis
      unfolding stampPhysicalOperator_def Let_def
      by (auto simp: NodeType_defs split: sum.splits if_splits simp del: EstimateCardinality.simps)
  next
    case scan
    with assms show ?thesis
      unfolding stampPhysicalOperator_def Let_def
      by (auto simp: NodeType_defs)
  next
    case other
    with assms have "f' = Fields plan"
      unfolding stampPhysicalOperator_def Let_def by auto
    then have "f' = (Fields plan)\<lparr> Metadata := Metadata (Fields plan) \<rparr>" by simp
    then show ?thesis by blast
  qed
qed

lemma selectPhysicalOperators_scans_aux:
  "selectPhysicalOperators cbo plan = Inr plan' \<Longrightarrow> scanTables plan' = scanTables plan"
  "selectPhysicalOperators_children cbo ps = Inr ps'
   \<Longrightarrow> sum_list (map scanTables ps') = sum_list (map scanTables ps)"
proof (induction cbo plan and cbo ps arbitrary: plan' and ps'
    rule: selectPhysicalOperators_selectPhysicalOperators_children.induct)
  case (1 cbo f cs)
  from "1.prems" obtain f' where h: "stampPhysicalOperator cbo (LogicalPlan f cs) = Inr f'"
    by (cases "stampPhysicalOperator cbo (LogicalPlan f cs)") auto
  from "1.prems" h obtain cs' where k: "selectPhysicalOperators_children cbo cs = Inr cs'"
    and r: "plan' = LogicalPlan f' cs'"
    by (cases "selectPhysicalOperators_children cbo cs") auto
  from stampPhysicalOperator_fields [OF h] obtain m where f': "f' = f\<lparr> Metadata := m \<rparr>"
    by auto
  from "1.IH" [OF h k] show ?case unfolding r f' by simp
next
  case (2 cbo)
  then show ?case by simp
next
  case (3 cbo child rest)
  from "3.prems" obtain child' where a: "selectPhysicalOperators cbo child = Inr child'"
    by (cases "selectPhysicalOperators cbo child") auto
  from "3.prems" a obtain rest' where b: "selectPhysicalOperators_children cbo rest = Inr rest'"
    and r: "ps' = child' # rest'"
    by (cases "selectPhysicalOperators_children cbo rest") auto
  from "3.IH"(1) [OF a] "3.IH"(2) [OF a b] show ?case unfolding r by simp
qed

lemma propagateCostEstimates_scans_aux:
  "propagateCostEstimates cbo plan = Inr plan' \<Longrightarrow> scanTables plan' = scanTables plan"
  "propagateCostEstimates_children cbo ps = Inr ps'
   \<Longrightarrow> sum_list (map scanTables ps') = sum_list (map scanTables ps)"
proof (induction cbo plan and cbo ps arbitrary: plan' and ps'
    rule: propagateCostEstimates_propagateCostEstimates_children.induct)
  case (1 cbo f cs)
  from "1.prems" obtain cs' where k: "propagateCostEstimates_children cbo cs = Inr cs'"
    by (cases "propagateCostEstimates_children cbo cs") auto
  from "1.prems" k have "\<exists>f'. plan' = LogicalPlan f' cs'
      \<and> NodeType f' = NodeType f \<and> TableName f' = TableName f"
    by (cases "EstimateCost (costModel cbo) (LogicalPlan f cs') (catalogMgr cbo)")
       (auto simp del: EstimateCost.simps split: if_splits)
  with "1.IH" [OF k] show ?case by auto
next
  case (2 cbo)
  then show ?case by simp
next
  case (3 cbo child rest)
  from "3.prems" obtain child' where a: "propagateCostEstimates cbo child = Inr child'"
    by (cases "propagateCostEstimates cbo child") auto
  from "3.prems" a obtain rest' where b: "propagateCostEstimates_children cbo rest = Inr rest'"
    and r: "ps' = child' # rest'"
    by (cases "propagateCostEstimates_children cbo rest") auto
  from "3.IH"(1) [OF a] "3.IH"(2) [OF a b] show ?case unfolding r by simp
qed

lemma applyCostBasedOptimizations_scans:
  assumes "applyCostBasedOptimizations cbo plan c = Inr (plan', c')"
  shows "scanTables plan' = scanTables plan"
proof -
  obtain p0 c0 where cl: "Clone plan c = (p0, c0)" by (cases "Clone plan c")
  from assms cl obtain p1 c1 where a: "optimizeJoinOrder cbo p0 c0 = Inr (p1, c1)"
    unfolding applyCostBasedOptimizations_def
    by (cases "optimizeJoinOrder cbo p0 c0") auto
  from assms cl a have b: "selectPhysicalOperators cbo p1 = Inr plan'"
    unfolding applyCostBasedOptimizations_def
    by (cases "selectPhysicalOperators cbo p1") auto
  from optimizeJoinOrder_same_aux(1) [OF a] have "p1 = p0" .
  with selectPhysicalOperators_scans_aux(1) [OF b] Clone_scans(1) [OF cl]
  show ?thesis by simp
qed

lemma CostBased_Optimize_scans:
  assumes "CostBased_Optimize cbo (Some plan) c = Inr (plan', explain, c')" "projectsUnary plan"
  shows "scanTables plan' = scanTables plan"
proof -
  from assms(1) obtain p1 e1 c1 where
    a: "OptimizeWithRules (Some plan) c = Inr (p1, e1, c1)"
    unfolding CostBased_Optimize_def
    by (cases "OptimizeWithRules (Some plan) c") (auto split: if_splits)
  from assms(1) a obtain p2 c2 where
    b: "applyCostBasedOptimizations cbo p1 c1 = Inr (p2, c2)"
    unfolding CostBased_Optimize_def
    by (cases "applyCostBasedOptimizations cbo p1 c1") (auto simp: Let_def split: if_splits)
  from assms(1) a b obtain fc where
    d: "EstimateCost (costModel cbo) p2 (catalogMgr cbo) = Inr fc"
    unfolding CostBased_Optimize_def
    by (cases "EstimateCost (costModel cbo) p2 (catalogMgr cbo)")
       (auto simp: Let_def split: if_splits simp del: EstimateCost.simps)
  from assms(1) a b d have e: "propagateCostEstimates cbo p2 = Inr plan'"
    unfolding CostBased_Optimize_def
    by (cases "propagateCostEstimates cbo p2")
       (auto simp: Let_def simp del: EstimateCost.simps)
  from RuleBased_Optimize_scans [OF a [unfolded OptimizeWithRules_def] assms(2)]
    applyCostBasedOptimizations_scans [OF b] propagateCostEstimates_scans_aux(1) [OF e]
  show ?thesis by simp
qed

section \<open>Running the rule engine\<close>

lemma Clone_eq: "Clone p c = (fst (Clone p c), c + of_nat (nodes p))"
  using Clone_counter_aux(1) [of p c] by (cases "Clone p c") simp

lemma PredicatePushdown_children_unchanged:
  "\<forall>q \<in> set ps. PredicatePushdown_applyRecursive q c = Inr (q, False, c)
   \<Longrightarrow> PredicatePushdown_children ps c = Inr (ps, False, c)"
  by (induction ps) simp_all

lemma PredicatePushdown_unchanged:
  assumes "pushdownHere plan c = Inr (plan, False, c)"
    and "\<forall>q \<in> set (Children plan). PredicatePushdown_applyRecursive q c = Inr (q, False, c)"
  shows "PredicatePushdown_applyRecursive plan c = Inr (plan, False, c)"
  using assms(1) PredicatePushdown_children_unchanged [OF assms(2)] by simp

lemma pushdownHere_not_Filter:
  "NodeType (Fields plan) \<noteq> NodeTypeFilter \<Longrightarrow> pushdownHere plan c = Inr (plan, False, c)"
  by (simp add: pushdownHere_def)

lemma pushdownHere_Filter_other:
  "Children plan = [child] \<Longrightarrow> NodeType (Fields child) \<noteq> NodeTypeProject
   \<Longrightarrow> pushdownHere plan c = Inr (plan, False, c)"
  by (simp add: pushdownHere_def Let_def canPushFilterToJoinSides_def)

lemma pushdownHere_Filter_Project:
  assumes "NodeType (Fields plan) = NodeTypeFilter" "Children plan = [child]"
    and "NodeType (Fields child) = NodeTypeProject" "Children child = g # rest"
  shows "pushdownHere plan c =
    Inr (filterBelowProject (Predicate (Fields plan)) (Projections (Fields child)) g c, True, c + 2)"
  using assms
  by (simp add: pushdownHere_def Let_def canPushFilterBelowProject_def filterBelowProject_def
        NewFilterNode_def NewProjectNode_def generateID_def)

lemma filterBelowProject_shape:
  "filterBelowProject p cols g c =
     LogicalPlan (zeroFields\<lparr> ID := issuedID c 1, NodeType := NodeTypeProject, Projections := cols \<rparr>)
       [LogicalPlan (zeroFields\<lparr> ID := issuedID c 0, NodeType := NodeTypeFilter, Predicate := p \<rparr>)
          [g]]"
  by (simp add: filterBelowProject_def NewFilterNode_def NewProjectNode_def generateID_def
        issuedID_def)

lemma ProjectionPushdown_children_unchanged:
  "\<forall>q \<in> set ps. ProjectionPushdown_applyRecursive q = Inr (q, False)
   \<Longrightarrow> ProjectionPushdown_children ps = Inr (ps, False)"
  by (induction ps) simp_all

lemma ProjectionPushdown_unchanged:
  assumes "projectionHere plan = (plan, False)"
    and "\<forall>q \<in> set (Children plan). ProjectionPushdown_applyRecursive q = Inr (q, False)"
  shows "ProjectionPushdown_applyRecursive plan = Inr (plan, False)"
  using assms(1) ProjectionPushdown_children_unchanged [OF assms(2)] by simp

lemma projectionHere_not_redundant:
  "NodeType (Fields plan) \<noteq> NodeTypeProject \<or> \<not> isRedundantProjection (Projections (Fields plan))
   \<Longrightarrow> projectionHere plan = (plan, False)"
  by (auto simp: projectionHere_def Let_def)

text \<open>One pass of the four rules, given what the two rules that do something return.\<close>

lemma rulesLoop_Cons:
  assumes "Rule_Apply rule plan (c + of_nat (nodes plan)) = Inr (p', applied, c2)"
  shows "rulesLoop (rule # rest) plan e t ch c =
     (if applied then
        rulesLoop rest p'
          (e\<lparr> AppliedRules := AppliedRules e @ [Rule_Name rule],
             Steps := Steps e @
               [\<lparr> RuleName = Rule_Name rule, BeforePlan = fst (Clone plan c),
                  AfterPlan = p', Description = AppliedRule (Rule_Name rule) \<rparr>] \<rparr>)
          (t + 1) True c2
      else rulesLoop rest plan e t ch c2)"
  by (subst rulesLoop.simps(2), subst Clone_eq) (simp add: assms del: rulesLoop.simps)

lemma rulesLoop_tail:
  assumes pr: "ProjectionPushdown_applyRecursive plan = Inr (p2, a2)"
  shows "\<exists>e' t' c'. rulesLoop [ProjectionPushdownRule, ConstantFoldingRule, JoinReorderingRule]
             plan e t ch c
           = Inr (if a2 then p2 else plan, e', t', ch \<or> a2, c')"
proof -
  have 1: "Rule_Apply ProjectionPushdownRule plan c0 = Inr (p2, a2, c0)" for c0
    using pr by simp
  have 2: "Rule_Apply ConstantFoldingRule q c0 = Inr (q, False, c0)"
    "Rule_Apply JoinReorderingRule q c0 = Inr (q, False, c0)" for q c0
    by simp_all
  show ?thesis
    by (cases a2) (simp_all add: rulesLoop_Cons [OF 1] rulesLoop_Cons [OF 2(1)]
        rulesLoop_Cons [OF 2(2)] del: rulesLoop.simps(2) Rule_Apply.simps)
qed

lemma rulesLoop_rules:
  assumes pp: "PredicatePushdown_applyRecursive plan (c + of_nat (nodes plan)) = Inr (p1, a1, c1)"
    and pr: "ProjectionPushdown_applyRecursive (if a1 then p1 else plan) = Inr (p2, a2)"
  shows "\<exists>e' t' c'. rulesLoop (rules NewRuleBasedOptimizer) plan e t ch c
           = Inr (if a2 then p2 else if a1 then p1 else plan, e', t', ch \<or> a1 \<or> a2, c')"
proof -
  have r: "rules NewRuleBasedOptimizer = [PredicatePushdownRule, ProjectionPushdownRule,
      ConstantFoldingRule, JoinReorderingRule]"
    by (simp add: NewRuleBasedOptimizer_def)
  have 1: "Rule_Apply PredicatePushdownRule plan (c + of_nat (nodes plan)) = Inr (p1, a1, c1)"
    using pp by simp
  let ?e1 = "e\<lparr> AppliedRules := AppliedRules e @ [Rule_Name PredicatePushdownRule],
             Steps := Steps e @
               [\<lparr> RuleName = Rule_Name PredicatePushdownRule, BeforePlan = fst (Clone plan c),
                  AfterPlan = p1,
                  Description = AppliedRule (Rule_Name PredicatePushdownRule) \<rparr>] \<rparr>"
  let ?tail = "[ProjectionPushdownRule, ConstantFoldingRule, JoinReorderingRule]"
  show ?thesis
  proof (cases a1)
    case True
    with pr have "ProjectionPushdown_applyRecursive p1 = Inr (p2, a2)" by simp
    from rulesLoop_tail [OF this, of ?e1 "t + 1" True c1] obtain e' t' c' where
      eq: "rulesLoop ?tail p1 ?e1 (t + 1) True c1 = Inr (if a2 then p2 else p1, e', t', True, c')"
      by auto
    have "rulesLoop (rules NewRuleBasedOptimizer) plan e t ch c
        = rulesLoop ?tail p1 ?e1 (t + 1) True c1"
      unfolding r rulesLoop_Cons [OF 1] using True by (simp only: if_True)
    with eq True show ?thesis by (auto simp del: rulesLoop.simps)
  next
    case False
    with pr have "ProjectionPushdown_applyRecursive plan = Inr (p2, a2)" by simp
    from rulesLoop_tail [OF this, of e t ch c1] obtain e' t' c' where
      eq: "rulesLoop ?tail plan e t ch c1 = Inr (if a2 then p2 else plan, e', t', ch \<or> a2, c')"
      by auto
    have "rulesLoop (rules NewRuleBasedOptimizer) plan e t ch c = rulesLoop ?tail plan e t ch c1"
      unfolding r rulesLoop_Cons [OF 1] using False by (simp only: if_False)
    with eq False show ?thesis by (auto simp del: rulesLoop.simps)
  qed
qed

lemma iterationLoop_stop:
  "rulesLoop rs plan e t False c = Inr (p, e', t', False, c')
   \<Longrightarrow> iterationLoop (Suc n) rs plan e t c = Inr (p, e', t', c')"
  by simp

lemma iterationLoop_continue:
  "rulesLoop rs plan e t False c = Inr (p, e', t', True, c')
   \<Longrightarrow> iterationLoop (Suc n) rs plan e t c = iterationLoop n rs p e' t' c'"
  by simp

lemma OptimizeWithRules_iterations:
  assumes "iterationLoop 10 (rules NewRuleBasedOptimizer) (fst (Clone plan c)) emptyExplain 0
             (c + of_nat (nodes plan)) = Inr (p, e, t, c')"
  shows "\<exists>e'. OptimizeWithRules (Some plan) c = Inr (p, e', c')"
  unfolding OptimizeWithRules_def RuleBased_Optimize_def
  by (subst Clone_eq) (simp add: assms Let_def del: iterationLoop.simps)

lemma OptimizeWithRules_unchanged:
  assumes "\<And>c0. PredicatePushdown_applyRecursive (fst (Clone plan c)) c0
             = Inr (fst (Clone plan c), False, c0)"
    and "ProjectionPushdown_applyRecursive (fst (Clone plan c)) = Inr (fst (Clone plan c), False)"
  shows "\<exists>e c'. OptimizeWithRules (Some plan) c = Inr (fst (Clone plan c), e, c')"
proof -
  let ?P0 = "fst (Clone plan c)" and ?rs = "rules NewRuleBasedOptimizer"
  have pr: "ProjectionPushdown_applyRecursive (if False then ?P0 else ?P0) = Inr (?P0, False)"
    using assms(2) by (simp only: if_False)
  from rulesLoop_rules [OF assms(1) pr, where c = "c + of_nat (nodes plan)" and e = emptyExplain
      and t = 0 and ch = False]
  obtain e' t' c' where
    "rulesLoop ?rs ?P0 emptyExplain 0 False (c + of_nat (nodes plan)) = Inr (?P0, e', t', False, c')"
    by (auto simp del: rulesLoop.simps ProjectionPushdown_applyRecursive.simps)
  from iterationLoop_stop [OF this, of 9]
  have "iterationLoop 10 ?rs ?P0 emptyExplain 0 (c + of_nat (nodes plan)) = Inr (?P0, e', t', c')"
    by (simp del: iterationLoop.simps rulesLoop.simps)
  from OptimizeWithRules_iterations [OF this] show ?thesis by blast
qed

lemma OptimizeWithRules_one_change:
  assumes pp: "PredicatePushdown_applyRecursive (fst (Clone plan c))
                 (c + of_nat (nodes plan) + of_nat (nodes (fst (Clone plan c)))) = Inr (p1, True, c1)"
    and pr: "ProjectionPushdown_applyRecursive p1 = Inr (p1, False)"
    and pp': "\<And>c0. PredicatePushdown_applyRecursive p1 c0 = Inr (p1, False, c0)"
  shows "\<exists>e c'. OptimizeWithRules (Some plan) c = Inr (p1, e, c')"
proof -
  let ?P0 = "fst (Clone plan c)" and ?rs = "rules NewRuleBasedOptimizer"
  have pr1: "ProjectionPushdown_applyRecursive (if True then p1 else ?P0) = Inr (p1, False)"
    using pr by (simp only: if_True)
  have pr2: "ProjectionPushdown_applyRecursive (if False then p1 else p1) = Inr (p1, False)"
    using pr by (simp only: if_False)
  from rulesLoop_rules [OF pp pr1, where e = emptyExplain and t = 0 and ch = False]
  obtain e1 t1 c2 where
    1: "rulesLoop ?rs ?P0 emptyExplain 0 False (c + of_nat (nodes plan)) = Inr (p1, e1, t1, True, c2)"
    by (auto simp del: rulesLoop.simps ProjectionPushdown_applyRecursive.simps)
  from rulesLoop_rules [OF pp' pr2, where c = c2 and e = e1 and t = t1 and ch = False]
  obtain e2 t2 c3 where
    2: "rulesLoop ?rs p1 e1 t1 False c2 = Inr (p1, e2, t2, False, c3)"
    by (auto simp del: rulesLoop.simps ProjectionPushdown_applyRecursive.simps)
  have "iterationLoop (Suc (Suc 8)) ?rs ?P0 emptyExplain 0 (c + of_nat (nodes plan))
      = Inr (p1, e2, t2, c3)"
    unfolding iterationLoop_continue [OF 1] by (rule iterationLoop_stop [OF 2])
  then have "iterationLoop 10 ?rs ?P0 emptyExplain 0 (c + of_nat (nodes plan))
      = Inr (p1, e2, t2, c3)"
    by (simp del: iterationLoop.simps rulesLoop.simps)
  from OptimizeWithRules_iterations [OF this] show ?thesis by blast
qed

lemma PredicatePushdown_leaf:
  "Children g = [] \<Longrightarrow> PredicatePushdown_applyRecursive g c = Inr (g, False, c)"
  by (rule PredicatePushdown_unchanged) (simp_all add: pushdownHere_def)

lemma PredicatePushdown_Filter_leaf:
  assumes "Children plan = [g]" "NodeType (Fields g) \<noteq> NodeTypeProject" "Children g = []"
  shows "PredicatePushdown_applyRecursive plan c = Inr (plan, False, c)"
  by (rule PredicatePushdown_unchanged)
     (simp_all add: pushdownHere_Filter_other [OF assms(1,2)] assms(1)
        PredicatePushdown_leaf [OF assms(3)] del: PredicatePushdown_applyRecursive.simps)

lemma PredicatePushdown_over_unchanged:
  assumes "NodeType (Fields plan) \<noteq> NodeTypeFilter"
    and "\<forall>q \<in> set (Children plan). PredicatePushdown_applyRecursive q c = Inr (q, False, c)"
  shows "PredicatePushdown_applyRecursive plan c = Inr (plan, False, c)"
  by (rule PredicatePushdown_unchanged [OF pushdownHere_not_Filter [OF assms(1)] assms(2)])

lemma PredicatePushdown_Filter_Project:
  assumes "NodeType (Fields plan) = NodeTypeFilter" "Children plan = [child]"
    and "NodeType (Fields child) = NodeTypeProject" "Children child = g # rest"
  shows "PredicatePushdown_applyRecursive plan c =
     (case PredicatePushdown_applyRecursive
             (fst (NewFilterNode g (Predicate (Fields plan)) c)) (c + 2) of
        Inl err \<Rightarrow> Inl err
      | Inr (newFilter', changed, c') \<Rightarrow>
          Inr (LogicalPlan
                 (Fields (filterBelowProject (Predicate (Fields plan))
                            (Projections (Fields child)) g c))
                 [if changed then newFilter' else fst (NewFilterNode g (Predicate (Fields plan)) c)],
               True, c'))"
proof -
  have ch: "Children (filterBelowProject (Predicate (Fields plan)) (Projections (Fields child)) g c)
      = [fst (NewFilterNode g (Predicate (Fields plan)) c)]"
    by (simp add: filterBelowProject_def NewFilterNode_def NewProjectNode_def generateID_def)
  show ?thesis
    by (subst PredicatePushdown_applyRecursive.simps)
       (simp add: pushdownHere_Filter_Project [OF assms] ch
          del: PredicatePushdown_applyRecursive.simps
          split: sum.splits prod.splits)
qed

lemma PredicatePushdown_Filter_Project_leaf:
  assumes "NodeType (Fields plan) = NodeTypeFilter" "Children plan = [child]"
    and "NodeType (Fields child) = NodeTypeProject" "Children child = g # rest"
    and "NodeType (Fields g) \<noteq> NodeTypeProject" "Children g = []"
  shows "PredicatePushdown_applyRecursive plan c =
     Inr (filterBelowProject (Predicate (Fields plan)) (Projections (Fields child)) g c, True, c + 2)"
proof -
  let ?nf = "fst (NewFilterNode g (Predicate (Fields plan)) c)"
  have nf: "Children ?nf = [g]"
    by (simp add: NewFilterNode_def generateID_def)
  have "PredicatePushdown_applyRecursive ?nf (c + 2) = Inr (?nf, False, c + 2)"
    by (rule PredicatePushdown_Filter_leaf [OF nf assms(5,6)])
  then show ?thesis
    unfolding PredicatePushdown_Filter_Project [OF assms(1-4)]
    by (simp add: filterBelowProject_def NewFilterNode_def NewProjectNode_def generateID_def)
qed

section \<open>The PredicatePushdown rule\<close>

lemma PredicatePushdown_Filter_Join:
  assumes "NodeType (Fields plan) = NodeTypeFilter" "Children plan = [child]"
    and "NodeType (Fields child) = NodeTypeJoin"
  shows "PredicatePushdown_applyRecursive plan c =
     (case PredicatePushdown_children (Children child) c of
        Inl err \<Rightarrow> Inl err
      | Inr (children', changed, c') \<Rightarrow>
          Inr (LogicalPlan (Fields plan)
                 [if changed then LogicalPlan (Fields child) children' else child],
               changed, c'))"
proof -
  have nf: "NodeType (Fields child) \<noteq> NodeTypeFilter" "NodeType (Fields child) \<noteq> NodeTypeProject"
    using assms(3) by (simp_all add: NodeType_defs)
  have 1: "pushdownHere plan c = Inr (plan, False, c)"
    by (rule pushdownHere_Filter_other [OF assms(2) nf(2)])
  have 2: "pushdownHere child c = Inr (child, False, c)"
    by (rule pushdownHere_not_Filter [OF nf(1)])
  have 3: "PredicatePushdown_applyRecursive child c =
     (case PredicatePushdown_children (Children child) c of
        Inl err \<Rightarrow> Inl err
      | Inr (children', changed, c') \<Rightarrow> Inr (LogicalPlan (Fields child) children', changed, c'))"
    by (subst PredicatePushdown_applyRecursive.simps)
       (simp add: 2 split: sum.splits prod.splits)
  show ?thesis
    by (subst PredicatePushdown_applyRecursive.simps)
       (simp add: 1 assms(2) 3 del: PredicatePushdown_applyRecursive.simps
          split: sum.splits prod.splits)
qed

text \<open>
  \<^bold>\<open>Claim C3\<close> (as amended). When the projections \<open>cols\<close> do not rename or compute the
  columns referenced by the predicate \<open>p\<close>, PredicatePushdown rewrites a Filter with
  predicate \<open>p\<close> over a Project with columns \<open>cols\<close> and child \<open>g\<close> into a new Project
  with columns \<open>cols\<close> over a new Filter with predicate \<open>p\<close> over \<open>g\<close>, reports a change,
  and goes on below the new Project. A Filter over a Join stays where it is, whether its
  predicate names columns of one side or of both: the result is the same Filter node
  over the same Join node, and only the subtrees below the Join are visited.
\<close>

theorem PredicatePushdown_rewrites:
  "(NodeType (Fields plan) = NodeTypeFilter \<and> Children plan = [child]
      \<and> NodeType (Fields child) = NodeTypeProject \<and> Children child = [g]
      \<and> spec_projectionsKeepColumns (Projections (Fields child)) (Predicate (Fields plan))
      \<longrightarrow>
      PredicatePushdown_applyRecursive plan c =
        (case PredicatePushdown_applyRecursive
                (fst (NewFilterNode g (Predicate (Fields plan)) c)) (c + 2) of
           Inl err \<Rightarrow> Inl err
         | Inr (newFilter', changed, c') \<Rightarrow>
             Inr (LogicalPlan
                    (Fields (filterBelowProject (Predicate (Fields plan))
                               (Projections (Fields child)) g c))
                    [if changed then newFilter'
                     else fst (NewFilterNode g (Predicate (Fields plan)) c)],
                  True, c'))
      \<and> filterBelowProject (Predicate (Fields plan)) (Projections (Fields child)) g c =
          LogicalPlan (zeroFields\<lparr> ID := issuedID c 1, NodeType := NodeTypeProject,
                         Projections := Projections (Fields child) \<rparr>)
            [LogicalPlan (zeroFields\<lparr> ID := issuedID c 0, NodeType := NodeTypeFilter,
                            Predicate := Predicate (Fields plan) \<rparr>) [g]]
      \<and> (NodeType (Fields g) \<noteq> NodeTypeProject \<and> Children g = [] \<longrightarrow>
            PredicatePushdown_applyRecursive plan c =
              Inr (filterBelowProject (Predicate (Fields plan)) (Projections (Fields child)) g c,
                   True, c + 2)))
   \<and> (NodeType (Fields plan) = NodeTypeFilter \<and> Children plan = [child]
      \<and> NodeType (Fields child) = NodeTypeJoin \<longrightarrow>
      PredicatePushdown_applyRecursive plan c =
        (case PredicatePushdown_children (Children child) c of
           Inl err \<Rightarrow> Inl err
         | Inr (children', changed, c') \<Rightarrow>
             Inr (LogicalPlan (Fields plan)
                    [if changed then LogicalPlan (Fields child) children' else child],
                  changed, c')))"
  using PredicatePushdown_Filter_Project [of plan child g "[]" c]
    PredicatePushdown_Filter_Project_leaf [of plan child g "[]" c]
    PredicatePushdown_Filter_Join [of plan child c]
    filterBelowProject_shape [of "Predicate (Fields plan)" "Projections (Fields child)" g c]
  by (intro conjI impI) (simp_all del: PredicatePushdown_applyRecursive.simps)

lemma sample_shapes:
  "NodeType (Fields (scanNode i t)) = NodeTypeScan" "Children (scanNode i t) = []"
  "TableName (Fields (scanNode i t)) = t"
  "NodeType (filterFields i e) = NodeTypeFilter"
  "Predicate (filterFields i e) = Some \<lparr> PredExpression = Some e \<rparr>"
  "NodeType (projectFields i cols) = NodeTypeProject"
  "Projections (projectFields i cols) = cols"
  "NodeType (joinFields i jt) = NodeTypeJoin"
  "NodeType ((joinFields i jt)\<lparr> JoinCondition := jc \<rparr>) = NodeTypeJoin"
  by (simp_all add: scanNode_def filterFields_def projectFields_def joinFields_def zeroFields_def)

lemma filterOverJoin_unchanged:
  "PredicatePushdown_applyRecursive filterOverJoin c = Inr (filterOverJoin, False, c)"
proof -
  let ?j = "LogicalPlan
        ((joinFields ''node_3'' JoinTypeInner)
           \<lparr> JoinCondition := Some \<lparr> CondLeft = Some (columnExpr ''a.id''),
                CondRight = Some (columnExpr ''b.id''), Operator = ''='' \<rparr> \<rparr>)
        [scanNode ''node_1'' ''a'', scanNode ''node_2'' ''b'']"
  have "PredicatePushdown_children (Children ?j) c = Inr (Children ?j, False, c)"
    by (rule PredicatePushdown_children_unchanged)
       (simp add: PredicatePushdown_leaf sample_shapes del: PredicatePushdown_applyRecursive.simps)
  then show ?thesis
    unfolding filterOverJoin_def
    by (subst PredicatePushdown_Filter_Join [where child = ?j])
       (simp_all add: sample_shapes del: PredicatePushdown_applyRecursive.simps)
qed

text \<open>The Filter on \<open>age > 30\<close> over the Project of \<open>name AS n\<close> and \<open>age\<close> over a Scan:
  the projection with an alias is not of a column of the predicate. And the Filter over
  a Join of two Scans.\<close>

theorem PredicatePushdown_rewrites_witness:
  "spec_projectionsKeepColumns
     [\<lparr> Table = [], Name = ''name'', ColumnAlias = ''n'' \<rparr>,
      \<lparr> Table = [], Name = ''age'', ColumnAlias = [] \<rparr>]
     (Some \<lparr> PredExpression =
        Some (binaryOp ''>'' (columnExpr ''age'') (literalExpr (VInt 30))) \<rparr>)
   \<and> PredicatePushdown_applyRecursive filterOverAliasProject 3 =
     Inr (LogicalPlan
            (projectFields ''node_5'' [\<lparr> Table = [], Name = ''name'', ColumnAlias = ''n'' \<rparr>,
                                      \<lparr> Table = [], Name = ''age'', ColumnAlias = [] \<rparr>])
            [LogicalPlan
               (filterFields ''node_4''
                  (binaryOp ''>'' (columnExpr ''age'') (literalExpr (VInt 30))))
               [scanNode ''node_1'' ''customers'']],
          True, 5)
   \<and> PredicatePushdown_applyRecursive filterOverJoin 4 = Inr (filterOverJoin, False, 4)"
proof -
  let ?cols = "[\<lparr> Table = [], Name = ''name'', ColumnAlias = ''n'' \<rparr>,
                \<lparr> Table = [], Name = ''age'', ColumnAlias = [] \<rparr>]"
  let ?p = "LogicalPlan (projectFields ''node_2'' ?cols) [scanNode ''node_1'' ''customers'']"
  let ?j = "LogicalPlan
        ((joinFields ''node_3'' JoinTypeInner)
           \<lparr> JoinCondition := Some \<lparr> CondLeft = Some (columnExpr ''a.id''),
                CondRight = Some (columnExpr ''b.id''), Operator = ''='' \<rparr> \<rparr>)
        [scanNode ''node_1'' ''a'', scanNode ''node_2'' ''b'']"
  have i: "issuedID 3 0 = ''node_4''" "issuedID 3 1 = ''node_5''"
    by (simp_all add: issuedID_def generateID_def Sprintf_d_def decimal.simps)
  have 0: "spec_projectionsKeepColumns ?cols
     (Some \<lparr> PredExpression =
        Some (binaryOp ''>'' (columnExpr ''age'') (literalExpr (VInt 30))) \<rparr>)"
    by (simp add: spec_projectionsKeepColumns_def predicateColumns_def binaryOp_def
          columnExpr_def literalExpr_def)
  have a: "NodeType (Fields filterOverAliasProject) = NodeTypeFilter
      \<and> Children filterOverAliasProject = [?p]
      \<and> NodeType (Fields ?p) = NodeTypeProject \<and> Children ?p = [scanNode ''node_1'' ''customers'']
      \<and> spec_projectionsKeepColumns (Projections (Fields ?p))
           (Predicate (Fields filterOverAliasProject))"
    using 0 by (simp add: filterOverAliasProject_def sample_shapes)
  have b: "NodeType (Fields (scanNode ''node_1'' ''customers'')) \<noteq> NodeTypeProject
      \<and> Children (scanNode ''node_1'' ''customers'') = []"
    by (simp add: sample_shapes NodeType_defs)
  have r: "PredicatePushdown_applyRecursive filterOverAliasProject 3 =
      Inr (filterBelowProject (Predicate (Fields filterOverAliasProject)) (Projections (Fields ?p))
             (scanNode ''node_1'' ''customers'') 3, True, 3 + 2)"
    using PredicatePushdown_rewrites
        [of filterOverAliasProject ?p "scanNode ''node_1'' ''customers''" 3] a b
    by blast
  have s: "filterBelowProject (Predicate (Fields filterOverAliasProject)) (Projections (Fields ?p))
             (scanNode ''node_1'' ''customers'') 3 =
          LogicalPlan (zeroFields\<lparr> ID := issuedID 3 1, NodeType := NodeTypeProject,
                         Projections := Projections (Fields ?p) \<rparr>)
            [LogicalPlan (zeroFields\<lparr> ID := issuedID 3 0, NodeType := NodeTypeFilter,
                            Predicate := Predicate (Fields filterOverAliasProject) \<rparr>)
               [scanNode ''node_1'' ''customers'']]"
    using PredicatePushdown_rewrites
        [of filterOverAliasProject ?p "scanNode ''node_1'' ''customers''" 3] a
    by blast
  from r s
  have "PredicatePushdown_applyRecursive filterOverAliasProject 3 =
      Inr (LogicalPlan (zeroFields\<lparr> ID := issuedID 3 1, NodeType := NodeTypeProject,
                         Projections := Projections (Fields ?p) \<rparr>)
            [LogicalPlan (zeroFields\<lparr> ID := issuedID 3 0, NodeType := NodeTypeFilter,
                            Predicate := Predicate (Fields filterOverAliasProject) \<rparr>)
               [scanNode ''node_1'' ''customers'']], True, 3 + 2)"
    by (simp only:)
  moreover have "LogicalPlan (zeroFields\<lparr> ID := issuedID 3 1, NodeType := NodeTypeProject,
                         Projections := Projections (Fields ?p) \<rparr>)
            [LogicalPlan (zeroFields\<lparr> ID := issuedID 3 0, NodeType := NodeTypeFilter,
                            Predicate := Predicate (Fields filterOverAliasProject) \<rparr>)
               [scanNode ''node_1'' ''customers'']] =
        LogicalPlan (projectFields ''node_5'' ?cols)
            [LogicalPlan
               (filterFields ''node_4''
                  (binaryOp ''>'' (columnExpr ''age'') (literalExpr (VInt 30))))
               [scanNode ''node_1'' ''customers'']]"
    by (simp add: i i [unfolded One_nat_def] filterOverAliasProject_def projectFields_def
          filterFields_def)
  moreover have "(3::int64) + 2 = 5" by simp
  ultimately have 1: "PredicatePushdown_applyRecursive filterOverAliasProject 3 =
     Inr (LogicalPlan (projectFields ''node_5'' ?cols)
            [LogicalPlan
               (filterFields ''node_4''
                  (binaryOp ''>'' (columnExpr ''age'') (literalExpr (VInt 30))))
               [scanNode ''node_1'' ''customers'']],
          True, 5)"
    by (simp only:)
  have c: "NodeType (Fields filterOverJoin) = NodeTypeFilter \<and> Children filterOverJoin = [?j]
      \<and> NodeType (Fields ?j) = NodeTypeJoin"
    by (simp add: filterOverJoin_def sample_shapes)
  have "PredicatePushdown_children (Children ?j) 4 = Inr (Children ?j, False, 4)"
    by (rule PredicatePushdown_children_unchanged)
       (simp add: PredicatePushdown_leaf sample_shapes del: PredicatePushdown_applyRecursive.simps)
  with PredicatePushdown_rewrites [of filterOverJoin ?j _ 4] c
  have 2: "PredicatePushdown_applyRecursive filterOverJoin 4 = Inr (filterOverJoin, False, 4)"
    by (simp add: filterOverJoin_def del: PredicatePushdown_applyRecursive.simps)
  from 0 1 2 show ?thesis by (intro conjI)
qed

text \<open>The claim as stated fails: the predicate \<open>a.x = 1\<close> names a column of \<open>a\<close> only, the
  left side of the join scans \<open>a\<close> and the right side \<open>b\<close>, and the rule returns the plan as
  it is, with the Filter above the Join and no change reported.\<close>

theorem PredicatePushdown_Join_counterexample:
  "map qualifier (exprColumns (binaryOp ''='' (columnExpr ''a.x'') (literalExpr (VInt 1)))) = [''a'']
   \<and> Predicate (Fields filterOverJoin)
       = Some \<lparr> PredExpression =
           Some (binaryOp ''='' (columnExpr ''a.x'') (literalExpr (VInt 1))) \<rparr>
   \<and> map scanTables (Children (hd (Children filterOverJoin))) = [{#''a''#}, {#''b''#}]
   \<and> NodeType (Fields (hd (Children filterOverJoin))) = NodeTypeJoin
   \<and> PredicatePushdown_applyRecursive filterOverJoin 4 = Inr (filterOverJoin, False, 4)"
proof -
  have 1: "map qualifier (exprColumns (binaryOp ''='' (columnExpr ''a.x'') (literalExpr (VInt 1))))
      = [''a'']"
    by (simp add: binaryOp_def columnExpr_def literalExpr_def qualifier_def)
  have 2: "Predicate (Fields filterOverJoin)
       = Some \<lparr> PredExpression =
           Some (binaryOp ''='' (columnExpr ''a.x'') (literalExpr (VInt 1))) \<rparr>"
    by (simp add: filterOverJoin_def sample_shapes)
  have 3: "map scanTables (Children (hd (Children filterOverJoin))) = [{#''a''#}, {#''b''#}]"
    by (simp add: filterOverJoin_def scanNode_def zeroFields_def)
  have 4: "NodeType (Fields (hd (Children filterOverJoin))) = NodeTypeJoin"
    by (simp add: filterOverJoin_def sample_shapes)
  from 1 2 3 4 filterOverJoin_unchanged [of 4] show ?thesis by (intro conjI)
qed

text \<open>The source makes the rewrite without testing the projections: the Filter on the
  alias \<open>total\<close> is moved below the Project that introduces it.\<close>

lemma PredicatePushdown_below_renaming_Project:
  "\<not> spec_projectionsKeepColumns (Projections (Fields (hd (Children filterOverRenamingProject))))
        (Predicate (Fields filterOverRenamingProject))
   \<and> PredicatePushdown_applyRecursive filterOverRenamingProject 3 =
       Inr (filterBelowProject (Predicate (Fields filterOverRenamingProject))
              [\<lparr> Table = [], Name = ''price'', ColumnAlias = ''total'' \<rparr>]
              (scanNode ''node_1'' ''orders'') 3, True, 5)"
proof -
  let ?p = "LogicalPlan
        (projectFields ''node_2'' [\<lparr> Table = [], Name = ''price'', ColumnAlias = ''total'' \<rparr>])
        [scanNode ''node_1'' ''orders'']"
  have 1: "\<not> spec_projectionsKeepColumns
        (Projections (Fields (hd (Children filterOverRenamingProject))))
        (Predicate (Fields filterOverRenamingProject))"
    by (simp add: filterOverRenamingProject_def sample_shapes spec_projectionsKeepColumns_def
          predicateColumns_def binaryOp_def columnExpr_def literalExpr_def)
  have "PredicatePushdown_applyRecursive filterOverRenamingProject 3 =
      Inr (filterBelowProject (Predicate (Fields filterOverRenamingProject))
             (Projections (Fields ?p)) (scanNode ''node_1'' ''orders'') 3, True, 3 + 2)"
    by (rule PredicatePushdown_Filter_Project_leaf [where rest = "[]"])
       (simp_all add: filterOverRenamingProject_def sample_shapes NodeType_defs)
  then have 2: "PredicatePushdown_applyRecursive filterOverRenamingProject 3 =
       Inr (filterBelowProject (Predicate (Fields filterOverRenamingProject))
              [\<lparr> Table = [], Name = ''price'', ColumnAlias = ''total'' \<rparr>]
              (scanNode ''node_1'' ''orders'') 3, True, 5)"
    by (simp add: sample_shapes del: PredicatePushdown_applyRecursive.simps)
  from 1 2 show ?thesis by (intro conjI)
qed

section \<open>The optimizers keep the scans of the plan\<close>

text \<open>
  \<^bold>\<open>Claim C6\<close> (as amended). When no Project node of the input plan has more than one
  child, which is so in particular when the plan satisfies the arity invariant, a
  successful run of the rule-based optimizer and a successful run of the cost-based
  optimizer return a plan with the same multiset of scanned table names as the input.
\<close>

theorem Optimize_preserves_scans:
  "(OptimizeWithRules (Some plan) c = Inr (plan', explain, c') \<and> projectsUnary plan
      \<longrightarrow> scanTables plan' = scanTables plan)
   \<and> (CostBased_Optimize cbo (Some plan) c = Inr (plan'', explain'', c'') \<and> projectsUnary plan
      \<longrightarrow> scanTables plan'' = scanTables plan)
   \<and> (arityOK plan \<longrightarrow> projectsUnary plan)"
  using RuleBased_Optimize_scans [of NewRuleBasedOptimizer plan c plan' explain c']
    CostBased_Optimize_scans [of cbo plan c plan'' explain'' c'']
    arityOK_projectsUnary [of plan]
  by (simp add: OptimizeWithRules_def)

lemma ProjectionPushdown_leaf:
  "Children g = [] \<Longrightarrow> NodeType (Fields g) \<noteq> NodeTypeProject
   \<Longrightarrow> ProjectionPushdown_applyRecursive g = Inr (g, False)"
  by (rule ProjectionPushdown_unchanged) (simp_all add: projectionHere_not_redundant)

lemma Clone_scanNode: "fst (Clone (scanNode i t) c) = scanNode (issuedID c 0) t"
  by (simp add: scanNode_def zeroFields_def clonePredicate_def cloneJoinCondition_def
        generateID_def issuedID_def)

lemma pushed_plan_stable:
  assumes "NodeType pf = NodeTypeProject" "\<not> isRedundantProjection (Projections pf)"
    and "NodeType ff = NodeTypeFilter" "NodeType (Fields g) = NodeTypeScan" "Children g = []"
  shows "ProjectionPushdown_applyRecursive (LogicalPlan pf [LogicalPlan ff [g]])
           = Inr (LogicalPlan pf [LogicalPlan ff [g]], False)"
    and "PredicatePushdown_applyRecursive (LogicalPlan pf [LogicalPlan ff [g]]) c0
           = Inr (LogicalPlan pf [LogicalPlan ff [g]], False, c0)"
proof -
  have g: "NodeType (Fields g) \<noteq> NodeTypeProject" "NodeType (Fields g) \<noteq> NodeTypeFilter"
    using assms(4) by (simp_all add: NodeType_defs)
  have f: "NodeType ff \<noteq> NodeTypeProject" using assms(3) by (simp add: NodeType_defs)
  have p: "NodeType pf \<noteq> NodeTypeFilter" using assms(1) by (simp add: NodeType_defs)
  have 1: "ProjectionPushdown_applyRecursive g = Inr (g, False)"
    by (rule ProjectionPushdown_leaf [OF assms(5) g(1)])
  have 2: "ProjectionPushdown_applyRecursive (LogicalPlan ff [g]) = Inr (LogicalPlan ff [g], False)"
    by (rule ProjectionPushdown_unchanged)
       (simp_all add: projectionHere_not_redundant f 1 del: ProjectionPushdown_applyRecursive.simps)
  show "ProjectionPushdown_applyRecursive (LogicalPlan pf [LogicalPlan ff [g]])
           = Inr (LogicalPlan pf [LogicalPlan ff [g]], False)"
    by (rule ProjectionPushdown_unchanged)
       (simp_all add: projectionHere_not_redundant assms(2) 2
          del: ProjectionPushdown_applyRecursive.simps)
  have 3: "PredicatePushdown_applyRecursive (LogicalPlan ff [g]) c0 = Inr (LogicalPlan ff [g], False, c0)"
    by (rule PredicatePushdown_Filter_leaf [where g = g]) (simp_all add: g assms(5))
  show "PredicatePushdown_applyRecursive (LogicalPlan pf [LogicalPlan ff [g]]) c0
           = Inr (LogicalPlan pf [LogicalPlan ff [g]], False, c0)"
    by (rule PredicatePushdown_over_unchanged)
       (simp_all add: p 3 del: PredicatePushdown_applyRecursive.simps)
qed

lemma OptimizeWithRules_Filter_Project:
  assumes cl: "fst (Clone plan c) = LogicalPlan ff [LogicalPlan pf (g # rest)]"
    and "NodeType ff = NodeTypeFilter" "NodeType pf = NodeTypeProject"
    and "\<not> isRedundantProjection (Projections pf)"
    and "NodeType (Fields g) = NodeTypeScan" "Children g = []"
  shows "\<exists>e c'. OptimizeWithRules (Some plan) c =
     Inr (filterBelowProject (Predicate ff) (Projections pf) g
            (c + of_nat (nodes plan) + of_nat (nodes (fst (Clone plan c)))), e, c')"
proof -
  let ?c = "c + of_nat (nodes plan) + of_nat (nodes (fst (Clone plan c)))"
  have g: "NodeType (Fields g) \<noteq> NodeTypeProject"
    using assms(5) by (simp add: NodeType_defs)
  have pp: "PredicatePushdown_applyRecursive (fst (Clone plan c)) c0 =
      Inr (filterBelowProject (Predicate ff) (Projections pf) g c0, True, c0 + 2)" for c0
    unfolding cl
    using PredicatePushdown_Filter_Project_leaf
      [of "LogicalPlan ff [LogicalPlan pf (g # rest)]" "LogicalPlan pf (g # rest)" g rest c0]
      assms(2,3,6) g
    by (simp del: PredicatePushdown_applyRecursive.simps)
  have sh: "filterBelowProject (Predicate ff) (Projections pf) g ?c =
     LogicalPlan (zeroFields\<lparr> ID := issuedID ?c 1, NodeType := NodeTypeProject,
                    Projections := Projections pf \<rparr>)
       [LogicalPlan (zeroFields\<lparr> ID := issuedID ?c 0, NodeType := NodeTypeFilter,
                       Predicate := Predicate ff \<rparr>) [g]]"
    by (rule filterBelowProject_shape)
  show ?thesis
    apply (rule OptimizeWithRules_one_change [OF pp])
    unfolding sh
     apply (rule pushed_plan_stable(1))
         apply (simp_all add: assms)[5]
    apply (rule pushed_plan_stable(2))
        apply (simp_all add: assms)
    done
qed

lemma Clone_filterOverWideProject:
  "fst (Clone filterOverWideProject 4) = LogicalPlan
     (filterFields ''node_5'' (binaryOp ''>'' (columnExpr ''age'') (literalExpr (VInt 30))))
     [LogicalPlan (projectFields ''node_6'' [\<lparr> Table = [], Name = ''name'', ColumnAlias = [] \<rparr>])
        [scanNode ''node_7'' ''customers'', scanNode ''node_8'' ''orders'']]"
  by (simp add: filterOverWideProject_def filterFields_def projectFields_def scanNode_def
        zeroFields_def clonePredicate_def cloneJoinCondition_def generateID_def
        binaryOp_def columnExpr_def literalExpr_def Sprintf_d_def decimal.simps)

lemma Clone_filterOverProject:
  "fst (Clone filterOverProject 3) = LogicalPlan
     (filterFields ''node_4'' (binaryOp ''>'' (columnExpr ''age'') (literalExpr (VInt 30))))
     [LogicalPlan (projectFields ''node_5'' [\<lparr> Table = [], Name = ''name'', ColumnAlias = [] \<rparr>])
        [scanNode ''node_6'' ''customers'']]"
  by (simp add: filterOverProject_def filterFields_def projectFields_def scanNode_def
        zeroFields_def clonePredicate_def cloneJoinCondition_def generateID_def
        binaryOp_def columnExpr_def literalExpr_def Sprintf_d_def decimal.simps)

lemma sample_nodes:
  "nodes filterOverWideProject = 4" "nodes (fst (Clone filterOverWideProject 4)) = 4"
  "nodes filterOverProject = 3" "nodes (fst (Clone filterOverProject 3)) = 3"
  unfolding Clone_filterOverWideProject Clone_filterOverProject
  by (simp_all add: filterOverWideProject_def filterOverProject_def scanNode_def)

lemma not_redundant_name:
  "\<not> isRedundantProjection
       (Projections (projectFields i [\<lparr> Table = [], Name = ''name'', ColumnAlias = [] \<rparr>]))"
  by (simp add: isRedundantProjection_def sample_shapes)

lemma OptimizeWithRules_filterOverWideProject:
  "\<exists>e c'. OptimizeWithRules (Some filterOverWideProject) 4 =
     Inr (LogicalPlan
            (projectFields ''node_14'' [\<lparr> Table = [], Name = ''name'', ColumnAlias = [] \<rparr>])
            [LogicalPlan
               (filterFields ''node_13''
                  (binaryOp ''>'' (columnExpr ''age'') (literalExpr (VInt 30))))
               [scanNode ''node_7'' ''customers'']], e, c')"
proof -
  have i: "issuedID 12 0 = ''node_13''" "issuedID 12 1 = ''node_14''"
    by (simp_all add: issuedID_def generateID_def Sprintf_d_def decimal.simps)
  have c: "(4::int64) + of_nat 4 + of_nat 4 = 12" by simp
  have "filterBelowProject
          (Predicate (filterFields ''node_5''
             (binaryOp ''>'' (columnExpr ''age'') (literalExpr (VInt 30)))))
          (Projections (projectFields ''node_6''
             [\<lparr> Table = [], Name = ''name'', ColumnAlias = [] \<rparr>]))
          (scanNode ''node_7'' ''customers'') 12 =
        LogicalPlan
            (projectFields ''node_14'' [\<lparr> Table = [], Name = ''name'', ColumnAlias = [] \<rparr>])
            [LogicalPlan
               (filterFields ''node_13''
                  (binaryOp ''>'' (columnExpr ''age'') (literalExpr (VInt 30))))
               [scanNode ''node_7'' ''customers'']]"
    unfolding filterBelowProject_shape i
    by (simp add: projectFields_def filterFields_def)
  with OptimizeWithRules_Filter_Project [OF Clone_filterOverWideProject sample_shapes(4)
      sample_shapes(6) not_redundant_name sample_shapes(1,2)]
  show ?thesis
    unfolding sample_nodes c by (simp only:)
qed

lemma OptimizeWithRules_filterOverProject:
  "\<exists>e c'. OptimizeWithRules (Some filterOverProject) 3 =
     Inr (LogicalPlan
            (projectFields ''node_11'' [\<lparr> Table = [], Name = ''name'', ColumnAlias = [] \<rparr>])
            [LogicalPlan
               (filterFields ''node_10''
                  (binaryOp ''>'' (columnExpr ''age'') (literalExpr (VInt 30))))
               [scanNode ''node_6'' ''customers'']], e, c')"
proof -
  have i: "issuedID 9 0 = ''node_10''" "issuedID 9 1 = ''node_11''"
    by (simp_all add: issuedID_def generateID_def Sprintf_d_def decimal.simps)
  have c: "(3::int64) + of_nat 3 + of_nat 3 = 9" by simp
  have "filterBelowProject
          (Predicate (filterFields ''node_4''
             (binaryOp ''>'' (columnExpr ''age'') (literalExpr (VInt 30)))))
          (Projections (projectFields ''node_5''
             [\<lparr> Table = [], Name = ''name'', ColumnAlias = [] \<rparr>]))
          (scanNode ''node_6'' ''customers'') 9 =
        LogicalPlan
            (projectFields ''node_11'' [\<lparr> Table = [], Name = ''name'', ColumnAlias = [] \<rparr>])
            [LogicalPlan
               (filterFields ''node_10''
                  (binaryOp ''>'' (columnExpr ''age'') (literalExpr (VInt 30))))
               [scanNode ''node_6'' ''customers'']]"
    unfolding filterBelowProject_shape i
    by (simp add: projectFields_def filterFields_def)
  with OptimizeWithRules_Filter_Project [OF Clone_filterOverProject sample_shapes(4)
      sample_shapes(6) not_redundant_name sample_shapes(1,2)]
  show ?thesis
    unfolding sample_nodes c by (simp only:)
qed

lemma OptimizeWithRules_scanNode:
  "\<exists>e c'. OptimizeWithRules (Some (scanNode i t)) c = Inr (scanNode (issuedID c 0) t, e, c')"
proof -
  have n: "NodeType (Fields (scanNode (issuedID c 0) t)) \<noteq> NodeTypeProject"
    by (simp add: sample_shapes NodeType_defs)
  show ?thesis
    using OptimizeWithRules_unchanged [of "scanNode i t" c]
      PredicatePushdown_leaf [OF sample_shapes(2)]
      ProjectionPushdown_leaf [OF sample_shapes(2) n]
    unfolding Clone_scanNode by (simp del: PredicatePushdown_applyRecursive.simps
      ProjectionPushdown_applyRecursive.simps)
qed

lemma CostBased_Optimize_scanNode:
  "\<exists>p e c'. CostBased_Optimize cbo (Some (scanNode i t)) c = Inr (p, e, c')"
proof -
  obtain e c1 where r: "OptimizeWithRules (Some (scanNode i t)) c
      = Inr (scanNode (issuedID c 0) t, e, c1)"
    using OptimizeWithRules_scanNode by blast
  let ?s = "LogicalPlan ((Fields (scanNode (issuedID c1 0) t))
              \<lparr> Metadata := (Metadata (Fields (scanNode (issuedID c1 0) t)))
                   (''scan_type'' \<mapsto> VString ''sequential'') \<rparr>) []"
  have cl: "Clone (scanNode (issuedID c 0) t) c1 = (scanNode (issuedID c1 0) t, c1 + 1)"
    using Clone_eq [of "scanNode (issuedID c 0) t" c1] Clone_scanNode [of "issuedID c 0" t c1]
    by (simp add: scanNode_def)
  have st: "selectPhysicalOperators cbo (scanNode (issuedID c1 0) t) = Inr ?s"
    by (simp add: scanNode_def stampPhysicalOperator_def zeroFields_def NodeType_defs Let_def)
  have a: "applyCostBasedOptimizations cbo (scanNode (issuedID c 0) t) c1 = Inr (?s, c1 + 1)"
    unfolding applyCostBasedOptimizations_def cl
    by (simp add: optimizeJoinOrder_scan st del: optimizeJoinOrder.simps
          selectPhysicalOperators.simps)
  obtain cost where ec: "EstimateCost (costModel cbo) ?s (catalogMgr cbo) = Inr cost"
    by (cases "GetTable (catalogMgr cbo) t")
       (simp_all add: scanNode_def zeroFields_def estimateScanCost_def Let_def)
  have pr: "propagateCostEstimates cbo ?s = Inr
      (LogicalPlan ((Fields ?s)\<lparr> EstimatedCost := Some (TotalCost cost),
                      EstimatedRows := Some (Cardinality cost) \<rparr>) [])"
    using ec by (simp del: EstimateCost.simps)
  show ?thesis
    unfolding CostBased_Optimize_def
    by (simp add: r a ec pr Let_def del: EstimateCost.simps propagateCostEstimates.simps)
qed

text \<open>The Filter over a Project over a Scan of \<open>customers\<close>, through the rules; a Scan
  of \<open>customers\<close>, through the cost-based optimizer.\<close>

theorem Optimize_preserves_scans_witness:
  "(\<exists>p e c'. OptimizeWithRules (Some filterOverProject) 3 = Inr (p, e, c')
       \<and> projectsUnary filterOverProject \<and> arityOK filterOverProject
       \<and> scanTables p = {#''customers''#})
   \<and> (\<exists>p e c'. CostBased_Optimize (NewCostBasedOptimizer customersCatalog)
                  (Some (scanNode ''node_1'' ''customers'')) 1 = Inr (p, e, c')
       \<and> projectsUnary (scanNode ''node_1'' ''customers'')
       \<and> scanTables p = {#''customers''#})"
proof -
  have ar: "arityOK filterOverProject"
    by (simp add: filterOverProject_def sample_shapes NodeType_defs filterFields_def
          projectFields_def scanNode_def zeroFields_def)
  have pu: "projectsUnary filterOverProject"
    using Optimize_preserves_scans [of filterOverProject] ar by blast
  have s1: "scanTables filterOverProject = {#''customers''#}"
    by (simp add: filterOverProject_def scanNode_def zeroFields_def filterFields_def
          projectFields_def NodeType_defs)
  obtain p e c' where r: "OptimizeWithRules (Some filterOverProject) 3 = Inr (p, e, c')"
    using OptimizeWithRules_filterOverProject by blast
  have "scanTables p = scanTables filterOverProject"
    using Optimize_preserves_scans [of filterOverProject 3 p e c'] r pu by blast
  with r pu ar s1 have 1: "\<exists>p e c'. OptimizeWithRules (Some filterOverProject) 3 = Inr (p, e, c')
       \<and> projectsUnary filterOverProject \<and> arityOK filterOverProject
       \<and> scanTables p = {#''customers''#}"
    by auto
  let ?s = "scanNode ''node_1'' ''customers''"
  have pu2: "projectsUnary ?s" by (simp add: scanNode_def)
  have s2: "scanTables ?s = {#''customers''#}" by (simp add: scanNode_def zeroFields_def)
  obtain q e2 c2 where r2: "CostBased_Optimize (NewCostBasedOptimizer customersCatalog)
                  (Some ?s) 1 = Inr (q, e2, c2)"
    using CostBased_Optimize_scanNode by blast
  have "scanTables q = scanTables ?s"
    using Optimize_preserves_scans [where cbo = "NewCostBasedOptimizer customersCatalog"
        and plan = ?s and c = 1 and plan'' = q and explain'' = e2 and c'' = c2] r2 pu2
    by blast
  with r2 pu2 s2 have 2: "\<exists>p e c'. CostBased_Optimize (NewCostBasedOptimizer customersCatalog)
                  (Some ?s) 1 = Inr (p, e, c')
       \<and> projectsUnary ?s \<and> scanTables p = {#''customers''#}"
    by auto
  from 1 2 show ?thesis by (intro conjI)
qed

text \<open>The claim as stated fails for a plan outside the arity invariant: a Filter over a
  Project with two children, the Scans of \<open>customers\<close> and \<open>orders\<close>. The rule-based
  optimizer succeeds and returns a plan that scans \<open>customers\<close> only.\<close>

theorem Optimize_drops_scan_counterexample:
  "(\<exists>e c'. OptimizeWithRules (Some filterOverWideProject) 4 =
      Inr (LogicalPlan
            (projectFields ''node_14'' [\<lparr> Table = [], Name = ''name'', ColumnAlias = [] \<rparr>])
            [LogicalPlan
               (filterFields ''node_13''
                  (binaryOp ''>'' (columnExpr ''age'') (literalExpr (VInt 30))))
               [scanNode ''node_7'' ''customers'']], e, c'))
   \<and> scanTables (LogicalPlan
            (projectFields ''node_14'' [\<lparr> Table = [], Name = ''name'', ColumnAlias = [] \<rparr>])
            [LogicalPlan
               (filterFields ''node_13''
                  (binaryOp ''>'' (columnExpr ''age'') (literalExpr (VInt 30))))
               [scanNode ''node_7'' ''customers'']]) = {#''customers''#}
   \<and> scanTables filterOverWideProject = {#''customers'', ''orders''#}"
proof -
  have 2: "scanTables (LogicalPlan
            (projectFields ''node_14'' [\<lparr> Table = [], Name = ''name'', ColumnAlias = [] \<rparr>])
            [LogicalPlan
               (filterFields ''node_13''
                  (binaryOp ''>'' (columnExpr ''age'') (literalExpr (VInt 30))))
               [scanNode ''node_7'' ''customers'']]) = {#''customers''#}"
    by (simp add: scanNode_def zeroFields_def filterFields_def projectFields_def NodeType_defs)
  have 3: "scanTables filterOverWideProject = {#''customers'', ''orders''#}"
    by (simp add: filterOverWideProject_def scanNode_def zeroFields_def filterFields_def
          projectFields_def NodeType_defs)
  from OptimizeWithRules_filterOverWideProject 2 3 show ?thesis by (intro conjI)
qed

section \<open>The simulator on a Scan\<close>

lemma simulateScan_rows:
  "\<exists>m'. simulateScan plan m = Inr m'
     \<and> RowsReturned m' = RowsReturned m
          + (case EstimatedRows (Fields plan) of None \<Rightarrow> 1000 | Some r \<Rightarrow> r)
     \<and> Connector m' = Connector m"
  by (simp add: simulateScan_def Let_def)

lemma Generic_Scan_rows:
  assumes "NodeType f = NodeTypeScan"
  shows "\<exists>m. Generic_SimulateExecution simulateOperator elapsed (Some (LogicalPlan f [])) = Inr m
     \<and> RowsReturned m = (case EstimatedRows f of None \<Rightarrow> 1000 | Some r \<Rightarrow> r)"
proof -
  let ?m0 = "\<lparr> ExecutionTime = 0, RowsProcessed = 0, RowsReturned = 0, CPUTime = 0,
                IOOperations = 0, MemoryUsed = 0, NetworkTraffic = 0,
                OperatorMetrics = Map.empty, Connector = ''generic'',
                SimulationOnly = True \<rparr>"
  obtain m' where m': "simulateScan (LogicalPlan f []) ?m0 = Inr m'"
    "RowsReturned m' = RowsReturned ?m0
          + (case EstimatedRows (Fields (LogicalPlan f [])) of None \<Rightarrow> 1000 | Some r \<Rightarrow> r)"
    using simulateScan_rows [of "LogicalPlan f []" ?m0] by blast
  have "simulateNode simulateOperator (LogicalPlan f []) ?m0 = Inr m'"
    using assms m'(1) by simp
  then have "Generic_SimulateExecution simulateOperator elapsed (Some (LogicalPlan f []))
      = Inr (m'\<lparr> ExecutionTime := elapsed \<rparr>)"
    by (simp add: Generic_SimulateExecution_def del: simulateNode.simps)
  moreover have "RowsReturned (m'\<lparr> ExecutionTime := elapsed \<rparr>)
      = (case EstimatedRows f of None \<Rightarrow> 1000 | Some r \<Rightarrow> r)"
    using m'(2) by simp
  ultimately show ?thesis by blast
qed

lemma connector_Scan_rows:
  assumes "NodeType f = NodeTypeScan"
  shows "RowsReturned (applyPostgresOptimizations (LogicalPlan f []) m) = RowsReturned m"
    and "RowsReturned (applyMongoOptimizations (LogicalPlan f []) m) = RowsReturned m"
  using assms by (simp_all add: NodeType_defs)

lemma SimulateExecution_Scan_rows:
  assumes "NodeType f = NodeTypeScan"
  shows "\<exists>m. SimulateExecution simulateOperator elapsed (Some (LogicalPlan f [])) connector = Inr m
     \<and> RowsReturned m = (case EstimatedRows f of None \<Rightarrow> 1000 | Some r \<Rightarrow> r)"
proof -
  obtain m where m: "Generic_SimulateExecution simulateOperator elapsed (Some (LogicalPlan f []))
      = Inr m" "RowsReturned m = (case EstimatedRows f of None \<Rightarrow> 1000 | Some r \<Rightarrow> r)"
    using Generic_Scan_rows [OF assms] by blast
  show ?thesis
    unfolding SimulateExecution_def Postgres_SimulateExecution_def Mongo_SimulateExecution_def
    using m connector_Scan_rows [OF assms]
    by (simp del: applyPostgresOptimizations.simps applyMongoOptimizations.simps)
qed

lemma EstimateCost_Scan_Cardinality:
  assumes "NodeType f = NodeTypeScan"
  shows "\<exists>cost. EstimateCost cm (LogicalPlan f cs) cat = Inr cost
     \<and> EstimateCardinality (LogicalPlan f cs) cat = Inr (Cardinality cost)"
  using assms
  by (cases "GetTable cat (TableName f)")
     (simp_all add: estimateScanCost_def Let_def zeroCost_def)

lemma propagateCostEstimates_Scan:
  assumes "NodeType f = NodeTypeScan"
  shows "\<exists>f'. propagateCostEstimates cbo (LogicalPlan f []) = Inr (LogicalPlan f' [])
     \<and> NodeType f' = NodeTypeScan
     \<and> EstimateCardinality (LogicalPlan f' []) (catalogMgr cbo) = Inr (the (EstimatedRows f'))
     \<and> EstimatedRows f' \<noteq> None"
proof -
  obtain cost where c: "EstimateCost (costModel cbo) (LogicalPlan f []) (catalogMgr cbo) = Inr cost"
    "EstimateCardinality (LogicalPlan f []) (catalogMgr cbo) = Inr (Cardinality cost)"
    using EstimateCost_Scan_Cardinality [OF assms] by blast
  let ?f = "f\<lparr> EstimatedCost := Some (TotalCost cost), EstimatedRows := Some (Cardinality cost) \<rparr>"
  have 1: "propagateCostEstimates cbo (LogicalPlan f []) = Inr (LogicalPlan ?f [])"
    using c(1) by (simp del: EstimateCost.simps)
  have 2: "EstimateCardinality (LogicalPlan ?f []) (catalogMgr cbo) = Inr (Cardinality cost)"
    using c(2) assms by (simp add: EstimateCardinality_Scan)
  from 1 2 assms show ?thesis by (intro exI [of _ ?f]) simp
qed

text \<open>
  \<^bold>\<open>Claim C7\<close> (as amended). For a plan that is one Scan node, the simulator of each
  connector succeeds and the rows returned are the node's row estimate
  (\<open>EstimatedRows\<close>), or 1000 when the node has none; the catalog is not consulted. After
  the cost-based optimizer has stamped its estimates on the node, the rows returned are
  the cardinality that the cost model gives the node against the optimizer's catalog.
\<close>

theorem Scan_rows_returned:
  "NodeType (Fields plan) = NodeTypeScan \<and> Children plan = [] \<longrightarrow>
     (\<exists>m. SimulateExecution simulateOperator elapsed (Some plan) connector = Inr m
        \<and> RowsReturned m = (case EstimatedRows (Fields plan) of None \<Rightarrow> 1000 | Some r \<Rightarrow> r))
     \<and> (\<exists>stamped m. propagateCostEstimates cbo plan = Inr stamped
          \<and> SimulateExecution simulateOperator elapsed (Some stamped) connector = Inr m
          \<and> EstimateCardinality stamped (catalogMgr cbo) = Inr (RowsReturned m))"
proof (intro impI, elim conjE)
  assume a: "NodeType (Fields plan) = NodeTypeScan" "Children plan = []"
  obtain f where p: "plan = LogicalPlan f []" and f: "NodeType f = NodeTypeScan"
    using a by (cases plan) simp
  obtain f' where s: "propagateCostEstimates cbo (LogicalPlan f []) = Inr (LogicalPlan f' [])"
    "NodeType f' = NodeTypeScan"
    "EstimateCardinality (LogicalPlan f' []) (catalogMgr cbo) = Inr (the (EstimatedRows f'))"
    "EstimatedRows f' \<noteq> None"
    using propagateCostEstimates_Scan [OF f] by blast
  obtain m where m: "SimulateExecution simulateOperator elapsed (Some (LogicalPlan f' [])) connector
      = Inr m" "RowsReturned m = (case EstimatedRows f' of None \<Rightarrow> 1000 | Some r \<Rightarrow> r)"
    using SimulateExecution_Scan_rows [OF s(2)] by blast
  have "EstimateCardinality (LogicalPlan f' []) (catalogMgr cbo) = Inr (RowsReturned m)"
    using s(3,4) m(2) by (cases "EstimatedRows f'") simp_all
  with s(1) m(1) have 2: "\<exists>stamped m. propagateCostEstimates cbo plan = Inr stamped
          \<and> SimulateExecution simulateOperator elapsed (Some stamped) connector = Inr m
          \<and> EstimateCardinality stamped (catalogMgr cbo) = Inr (RowsReturned m)"
    unfolding p by blast
  have 1: "\<exists>m. SimulateExecution simulateOperator elapsed (Some plan) connector = Inr m
        \<and> RowsReturned m = (case EstimatedRows (Fields plan) of None \<Rightarrow> 1000 | Some r \<Rightarrow> r)"
    unfolding p using SimulateExecution_Scan_rows [OF f] by simp
  from 1 2 show "(\<exists>m. SimulateExecution simulateOperator elapsed (Some plan) connector = Inr m
        \<and> RowsReturned m = (case EstimatedRows (Fields plan) of None \<Rightarrow> 1000 | Some r \<Rightarrow> r))
     \<and> (\<exists>stamped m. propagateCostEstimates cbo plan = Inr stamped
          \<and> SimulateExecution simulateOperator elapsed (Some stamped) connector = Inr m
          \<and> EstimateCardinality stamped (catalogMgr cbo) = Inr (RowsReturned m))"
    by (intro conjI)
qed

text \<open>The Scan of \<open>customers\<close> with no estimate, under the \<open>postgres\<close> connector, with the
  sample catalog in which \<open>customers\<close> has 5000 rows.\<close>

theorem Scan_rows_returned_witness:
  "NodeType (Fields (scanNode ''node_1'' ''customers'')) = NodeTypeScan
   \<and> Children (scanNode ''node_1'' ''customers'') = []
   \<and> (\<exists>m. SimulateExecution (\<lambda>p m. Inr m) 0 (Some (scanNode ''node_1'' ''customers''))
             ''postgres'' = Inr m
        \<and> RowsReturned m = 1000)
   \<and> (\<exists>stamped m. propagateCostEstimates (NewCostBasedOptimizer customersCatalog)
                     (scanNode ''node_1'' ''customers'') = Inr stamped
        \<and> SimulateExecution (\<lambda>p m. Inr m) 0 (Some stamped) ''postgres'' = Inr m
        \<and> EstimateCardinality stamped customersCatalog = Inr 5000
        \<and> RowsReturned m = 5000)"
proof -
  let ?s = "scanNode ''node_1'' ''customers''"
  let ?cbo = "NewCostBasedOptimizer customersCatalog"
  have a: "NodeType (Fields ?s) = NodeTypeScan \<and> Children ?s = []"
    by (simp add: sample_shapes)
  have e: "EstimatedRows (Fields ?s) = None"
    by (simp add: scanNode_def zeroFields_def)
  have c: "catalogMgr ?cbo = customersCatalog"
    by (simp add: NewCostBasedOptimizer_def)
  from Scan_rows_returned [of ?s "\<lambda>p m. Inr m" 0 "''postgres''" ?cbo] a
  have 1: "\<exists>m. SimulateExecution (\<lambda>p m. Inr m) 0 (Some ?s) ''postgres'' = Inr m
        \<and> RowsReturned m = (case EstimatedRows (Fields ?s) of None \<Rightarrow> 1000 | Some r \<Rightarrow> r)"
    and 2: "\<exists>stamped m. propagateCostEstimates ?cbo ?s = Inr stamped
          \<and> SimulateExecution (\<lambda>p m. Inr m) 0 (Some stamped) ''postgres'' = Inr m
          \<and> EstimateCardinality stamped (catalogMgr ?cbo) = Inr (RowsReturned m)"
    by blast+
  from 2 obtain stamped m where st: "propagateCostEstimates ?cbo ?s = Inr stamped"
    "SimulateExecution (\<lambda>p m. Inr m) 0 (Some stamped) ''postgres'' = Inr m"
    "EstimateCardinality stamped customersCatalog = Inr (RowsReturned m)"
    unfolding c by blast
  have "\<exists>f'. stamped = LogicalPlan f' [] \<and> NodeType f' = NodeTypeScan
      \<and> TableName f' = ''customers''"
    using st(1)
    by (cases "GetTable customersCatalog ''customers''")
       (auto simp: scanNode_def zeroFields_def estimateScanCost_def Let_def c
          simp del: EstimateCardinality.simps)
  then obtain f' where f': "stamped = LogicalPlan f' []" "NodeType f' = NodeTypeScan"
    "TableName f' = ''customers''" by blast
  have "EstimateCardinality stamped customersCatalog = Inr 5000"
    unfolding f'(1) EstimateCardinality_Scan [OF f'(2)] f'(3)
    by (simp add: customers_lookup customersSchema_def)
  with st have 3: "\<exists>stamped m. propagateCostEstimates ?cbo ?s = Inr stamped
        \<and> SimulateExecution (\<lambda>p m. Inr m) 0 (Some stamped) ''postgres'' = Inr m
        \<and> EstimateCardinality stamped customersCatalog = Inr 5000
        \<and> RowsReturned m = 5000"
    by auto
  from 1 have 4: "\<exists>m. SimulateExecution (\<lambda>p m. Inr m) 0 (Some ?s) ''postgres'' = Inr m
        \<and> RowsReturned m = 1000"
    unfolding e by simp
  from a 4 3 show ?thesis by blast
qed

text \<open>The claim as stated fails: the cost model gives the Scan of \<open>customers\<close> the 5000
  rows of the catalog, and the simulator returns 1000 rows for it, the node carrying no
  estimate.\<close>

theorem Scan_rows_returned_counterexample:
  "EstimateCardinality (scanNode ''node_1'' ''customers'') customersCatalog = Inr 5000
   \<and> EstimatedRows (Fields (scanNode ''node_1'' ''customers'')) = None
   \<and> map_sum id RowsReturned
       (SimulateExecution (\<lambda>p m. Inr m) 0 (Some (scanNode ''node_1'' ''customers'')) ''generic'')
     = Inr 1000"
proof -
  have 1: "EstimatedRows (Fields (scanNode ''node_1'' ''customers'')) = None"
    by (simp add: scanNode_def zeroFields_def)
  obtain m where m: "SimulateExecution (\<lambda>p m. Inr m) 0
      (Some (scanNode ''node_1'' ''customers'')) ''generic'' = Inr m"
    "RowsReturned m = 1000"
    using SimulateExecution_Scan_rows [of "Fields (scanNode ''node_1'' ''customers'')"
        "\<lambda>p m. Inr m" 0 "''generic''"] 1
    by (auto simp: scanNode_def zeroFields_def)
  have 2: "map_sum id RowsReturned
       (SimulateExecution (\<lambda>p m. Inr m) 0 (Some (scanNode ''node_1'' ''customers'')) ''generic'')
     = Inr 1000"
    unfolding m(1) using m(2) by simp
  from scan_customers [of "''node_1''"] 1 2 show ?thesis by (intro conjI)
qed

end
